(* ===== verification/Prelude.thy ===== *)
theory Prelude
  imports
    Complex_Main
    "HOL-Library.Multiset"
    "HOL-Library.Sublist"
    "HOL-Library.Char_ord"
    "HOL-Library.List_Lexorder"
    "HOL-Library.Product_Lexorder"
begin

text \<open>
  Shared vocabulary of the development: the dataframe primitives that the scripts
  under \<^verbatim>\<open>src/\<close> call over and over (\<^verbatim>\<open>dropna\<close>, \<^verbatim>\<open>unique\<close>,
  \<^verbatim>\<open>drop_duplicates(keep='last')\<close>, \<^verbatim>\<open>sort_values\<close>, \<^verbatim>\<open>str.join\<close>,
  the percentage formula), modelled on plain lists, and the lemmas about them that every component
  theory uses. A column is a list of cells in row order; a missing cell (NaN) is
  \<open>None\<close>. Floating-point percentages are exact rationals here.

  It also holds what the components share of Python itself: sequencing of steps that
  may raise (\<open>bind_err\<close>, \<open>traverse_err\<close>), \<^verbatim>\<open>try\<close> with its handlers
  (\<open>catch_err\<close>), \<^verbatim>\<open>groupby(...).size()\<close>, the truth value of an optional
  string, and facts about lists read by position.

  Sorting comes in two forms. \<open>sort_values_desc\<close> and the library's
  \<^const>\<open>sort_key\<close> are stable sorts, which keep rows with equal keys in input order.
  \<open>sorts_by\<close> and \<open>sorts_desc_by\<close> are the contracts of a sort that promises nothing
  about ties, as pandas' default sort by one column.

  The collection \<open>pd_simps\<close> holds the rewrite rules of these primitives; component
  proofs run \<open>simp add: pd_simps\<close>.
\<close>

named_theorems pd_simps \<open>rewrite rules of the dataframe primitives\<close>

type_synonym cell = "string option"

subsection \<open>Errors as values\<close>

text \<open>
  Every script ends either normally or with a Python exception; the model returns
  \<open>Inl e\<close> for the exception. \<open>bind_err\<close> sequences two fallible steps.
\<close>

definition bind_err :: "'e + 'a \<Rightarrow> ('a \<Rightarrow> 'e + 'b) \<Rightarrow> 'e + 'b" where
  "bind_err m f = (case m of Inl e \<Rightarrow> Inl e | Inr x \<Rightarrow> f x)"

lemma bind_err_Inl [simp]: "bind_err (Inl e) f = Inl e"
  by (simp add: bind_err_def)

lemma bind_err_Inr [simp]: "bind_err (Inr x) f = f x"
  by (simp add: bind_err_def)

lemma bind_err_eq_Inr:
  "bind_err m f = Inr y \<longleftrightarrow> (\<exists>x. m = Inr x \<and> f x = Inr y)"
  by (cases m) simp_all

lemma bind_err_eq_Inl:
  "bind_err m f = Inl e \<longleftrightarrow> m = Inl e \<or> (\<exists>x. m = Inr x \<and> f x = Inl e)"
  by (cases m) simp_all

text \<open>
  \<open>catch_err\<close> is a \<^verbatim>\<open>try\<close> block with its handlers: the handler sees the
  exception of the body and either ends with a value or raises in turn.
\<close>

definition catch_err :: "'e + 'a \<Rightarrow> ('e \<Rightarrow> 'f + 'a) \<Rightarrow> 'f + 'a" where
  "catch_err m h = (case m of Inl e \<Rightarrow> h e | Inr x \<Rightarrow> Inr x)"

lemma catch_err_simps [simp]:
  "catch_err (Inl e) h = h e"
  "catch_err (Inr x) h = Inr x"
  by (simp_all add: catch_err_def)

lemma catch_err_eq_Inr:
  "catch_err m h = Inr y \<longleftrightarrow> m = Inr y \<or> (\<exists>e. m = Inl e \<and> h e = Inr y)"
  by (cases m) simp_all

lemma catch_err_eq_Inl:
  "catch_err m h = Inl f \<longleftrightarrow> (\<exists>e. m = Inl e \<and> h e = Inl f)"
  by (cases m) simp_all

lemma bind_err_InrE:
  assumes "bind_err m f = Inr y"
  obtains x where "m = Inr x" and "f x = Inr y"
  using assms by (auto simp: bind_err_eq_Inr)

lemma bind_err_InlE:
  assumes "bind_err m f = Inl e"
  obtains "m = Inl e" | x where "m = Inr x" and "f x = Inl e"
  using assms by (auto simp: bind_err_eq_Inl)

text \<open>
  \<open>traverse_err\<close> applies a fallible function to the elements of a list from left to
  right, as a Python loop or \<^verbatim>\<open>groupby(...).apply\<close> does: the first exception ends it.
\<close>

primrec traverse_err :: "('a \<Rightarrow> 'e + 'b) \<Rightarrow> 'a list \<Rightarrow> 'e + 'b list" where
  "traverse_err f [] = Inr []"
| "traverse_err f (x # xs) =
     bind_err (f x) (\<lambda>y. bind_err (traverse_err f xs) (\<lambda>ys. Inr (y # ys)))"

lemma traverse_err_Inr_iff:
  "traverse_err f xs = Inr ys \<longleftrightarrow> list_all2 (\<lambda>x y. f x = Inr y) xs ys"
  by (induction xs arbitrary: ys) (auto simp: bind_err_eq_Inr list_all2_Cons1)

lemma traverse_err_map:
  "(\<And>x. x \<in> set xs \<Longrightarrow> f x = Inr (g x)) \<Longrightarrow> traverse_err f xs = Inr (map g xs)"
  by (induction xs) simp_all

lemma traverse_err_Inl:
  "traverse_err f xs = Inl e \<Longrightarrow> \<exists>x\<in>set xs. f x = Inl e"
  by (induction xs) (auto simp: bind_err_eq_Inl)

lemma traverse_err_total:
  "(\<exists>ys. traverse_err f xs = Inr ys) \<longleftrightarrow> (\<forall>x\<in>set xs. \<exists>y. f x = Inr y)"
  by (induction xs) (auto simp: bind_err_eq_Inr)

subsection \<open>Dropping missing cells\<close>

primrec dropna :: "'a option list \<Rightarrow> 'a list" where
  "dropna [] = []"
| "dropna (c # cs) = (case c of None \<Rightarrow> dropna cs | Some v \<Rightarrow> v # dropna cs)"

lemma set_dropna [pd_simps]: "set (dropna cs) = {v. Some v \<in> set cs}"
  by (induction cs) (auto split: option.splits)

lemma dropna_append [simp]: "dropna (cs @ ds) = dropna cs @ dropna ds"
  by (induction cs) (auto split: option.splits)

lemma dropna_map_Some [simp]: "dropna (map Some vs) = vs"
  by (induction vs) auto

lemma length_dropna: "length (dropna cs) = length (filter (\<lambda>c. c \<noteq> None) cs)"
  by (induction cs) (auto split: option.splits)

lemma dropna_Nil_iff: "dropna cs = [] \<longleftrightarrow> (\<forall>c \<in> set cs. c = None)"
  by (induction cs) (auto split: option.splits)

subsection \<open>Distinct values in order of first appearance\<close>

fun unique :: "'a list \<Rightarrow> 'a list" where
  "unique [] = []"
| "unique (x # xs) = x # unique (filter (\<lambda>y. y \<noteq> x) xs)"

lemma set_unique [simp, pd_simps]: "set (unique xs) = set xs"
  by (induction xs rule: unique.induct) auto

lemma distinct_unique [simp, pd_simps]: "distinct (unique xs)"
  by (induction xs rule: unique.induct) auto

lemma unique_Nil_iff [simp]: "unique xs = [] \<longleftrightarrow> xs = []"
  by (cases xs) auto

lemma unique_distinct_id: "distinct xs \<Longrightarrow> unique xs = xs"
proof (induction xs)
  case (Cons x xs)
  then have "filter (\<lambda>y. y \<noteq> x) xs = xs"
    by (auto intro: filter_True)
  with Cons show ?case by simp
qed simp

lemma unique_idem [simp]: "unique (unique xs) = unique xs"
  by (simp add: unique_distinct_id)

lemma sum_count_unique:
  "sum_list (map (count_list xs) (unique xs)) = length xs"
proof -
  have "sum_list (map (count_list xs) (unique xs)) = sum (count_list xs) (set xs)"
    by (simp add: sum_list_distinct_conv_sum_set)
  then show ?thesis
    by (simp add: sum_count_set)
qed

lemma count_list_filter:
  "count_list (filter P xs) k = (if P k then count_list xs k else 0)"
  by (induction xs) auto

lemma filter_eq_singleton: "distinct xs \<Longrightarrow> u \<in> set xs \<Longrightarrow> filter (\<lambda>k. k = u) xs = [u]"
  by (induction xs) (auto simp: filter_empty_conv)

lemma concat_map_singleton:
  "(\<And>x. x \<in> set xs \<Longrightarrow> g x = [h x]) \<Longrightarrow> concat (map g xs) = map h xs"
  by (induction xs) auto

lemma count_list_pos_iff: "0 < count_list xs x \<longleftrightarrow> x \<in> set xs"
  by (induction xs) auto

subsection \<open>Keeping the last row of every key\<close>

text \<open>
  \<^verbatim>\<open>drop_duplicates(col, keep='last')\<close>: a row survives iff no later row has its
  key; survivors keep their relative order.
\<close>

fun drop_duplicates_last :: "('a \<Rightarrow> 'k) \<Rightarrow> 'a list \<Rightarrow> 'a list" where
  "drop_duplicates_last k [] = []"
| "drop_duplicates_last k (x # xs) =
     (if k x \<in> set (map k xs) then drop_duplicates_last k xs
      else x # drop_duplicates_last k xs)"

lemma keys_drop_duplicates_last:
  "map k (drop_duplicates_last k xs) = remdups (map k xs)"
  by (induction xs) auto

lemma set_keys_drop_duplicates_last [pd_simps]:
  "k ` set (drop_duplicates_last k xs) = k ` set xs"
proof -
  have "set (map k (drop_duplicates_last k xs)) = set (map k xs)"
    by (simp add: keys_drop_duplicates_last)
  then show ?thesis by simp
qed

lemma distinct_keys_drop_duplicates_last [pd_simps]:
  "distinct (map k (drop_duplicates_last k xs))"
  by (simp add: keys_drop_duplicates_last)

lemma subseq_drop_duplicates_last: "subseq (drop_duplicates_last k xs) xs"
  by (induction xs) auto

lemma set_drop_duplicates_last_subset:
  "set (drop_duplicates_last k xs) \<subseteq> set xs"
  by (induction xs) auto

lemma drop_duplicates_last_distinct_id:
  "distinct (map k xs) \<Longrightarrow> drop_duplicates_last k xs = xs"
  by (induction xs) auto

lemma drop_duplicates_last_idem [simp]:
  "drop_duplicates_last k (drop_duplicates_last k xs) = drop_duplicates_last k xs"
  by (simp add: drop_duplicates_last_distinct_id distinct_keys_drop_duplicates_last)

lemma sorted_drop_duplicates_last:
  "sorted (map f xs) \<Longrightarrow> sorted (map f (drop_duplicates_last k xs))"
  by (induction xs) (auto dest: subsetD [OF set_drop_duplicates_last_subset])

text \<open>The survivor of a key is the last row carrying it.\<close>

lemma drop_duplicates_last_is_last:
  "x \<in> set (drop_duplicates_last k xs) \<Longrightarrow> last (filter (\<lambda>y. k y = k x) xs) = x"
proof (induction xs)
  case (Cons a xs)
  show ?case
  proof (cases "x \<in> set (drop_duplicates_last k xs)")
    case True
    then have "filter (\<lambda>y. k y = k x) xs \<noteq> []"
      using set_drop_duplicates_last_subset [of k xs] by (auto simp: filter_empty_conv)
    with Cons.IH [OF True] show ?thesis by simp
  next
    case False
    with Cons.prems have xa: "x = a" and "k a \<notin> set (map k xs)"
      by (auto split: if_splits)
    then have "filter (\<lambda>y. k y = k x) xs = []"
      by (auto simp: filter_empty_conv image_iff)
    with xa show ?thesis by simp
  qed
qed simp

lemma last_filter_in_drop_duplicates_last:
  assumes "x \<in> set xs"
  shows "last (filter (\<lambda>y. k y = k x) xs) \<in> set (drop_duplicates_last k xs)"
proof -
  from assms have "k x \<in> k ` set (drop_duplicates_last k xs)"
    by (simp add: set_keys_drop_duplicates_last)
  then obtain z where z: "z \<in> set (drop_duplicates_last k xs)" and kz: "k z = k x"
    by auto
  from drop_duplicates_last_is_last [OF z] kz z show ?thesis by simp
qed

lemma length_filter_conj_le:
  "length (filter (\<lambda>x. P x \<and> Q x) xs) \<le> length (filter P xs)"
  by (induction xs) auto

lemma length_filter_distinct_key:
  "distinct (map k xs) \<Longrightarrow>
   length (filter (\<lambda>x. k x = v) xs) = (if v \<in> k ` set xs then 1 else 0)"
  by (induction xs) (auto simp: image_iff)

subsection \<open>Sorting\<close>

text \<open>
  \<^verbatim>\<open>sort_values\<close> is modelled by the library's stable insertion sort
  \<^const>\<open>sort_key\<close>. pandas sorts descending by reversing, sorting ascending and
  reversing again, which keeps ties in input order when the sort is stable;
  \<open>sort_values_desc\<close> is that composition. \<open>sorts_by\<close> is the contract of a sort
  that need not be stable: results that hold for every such sort do not depend on
  how ties are broken.
\<close>

definition sort_values_desc :: "('a \<Rightarrow> 'k::linorder) \<Rightarrow> 'a list \<Rightarrow> 'a list" where
  "sort_values_desc key xs = rev (sort_key key (rev xs))"

definition sorts_by :: "('a \<Rightarrow> 'k::linorder) \<Rightarrow> ('a list \<Rightarrow> 'a list) \<Rightarrow> bool" where
  "sorts_by key srt \<longleftrightarrow> (\<forall>xs. mset (srt xs) = mset xs \<and> sorted (map key (srt xs)))"

lemma sorts_by_sort_key [simp, intro]: "sorts_by key (sort_key key)"
  by (simp add: sorts_by_def)

lemma sorts_by_mset: "sorts_by key srt \<Longrightarrow> mset (srt xs) = mset xs"
  by (simp add: sorts_by_def)

lemma sorts_by_set: "sorts_by key srt \<Longrightarrow> set (srt xs) = set xs"
  by (metis sorts_by_mset set_mset_mset)

lemma sorts_by_sorted: "sorts_by key srt \<Longrightarrow> sorted (map key (srt xs))"
  by (simp add: sorts_by_def)

lemma mset_sort_values_desc [pd_simps]: "mset (sort_values_desc key xs) = mset xs"
  by (simp add: sort_values_desc_def)

lemma set_sort_values_desc [pd_simps]: "set (sort_values_desc key xs) = set xs"
  by (simp add: sort_values_desc_def)

lemma length_sort_values_desc [pd_simps]: "length (sort_values_desc key xs) = length xs"
  by (simp add: sort_values_desc_def)

lemma sorted_sort_values_desc [pd_simps]:
  "sorted (rev (map key (sort_values_desc key xs)))"
  by (simp add: sort_values_desc_def rev_map)

lemma distinct_map_sort_values_desc [pd_simps]:
  "distinct (map f (sort_values_desc key xs)) = distinct (map f xs)"
  by (rule mset_eq_imp_distinct_iff) (simp add: mset_sort_values_desc)

lemma sort_values_desc_Nil_iff [simp]: "sort_values_desc key xs = [] \<longleftrightarrow> xs = []"
  by (metis length_0_conv length_sort_values_desc)

lemma sort_values_desc_id:
  "sorted (rev (map key xs)) \<Longrightarrow> sort_values_desc key xs = xs"
  by (simp add: sort_values_desc_def rev_map sort_key_id_if_sorted)

lemma filter_sort_values_desc:
  "filter P (sort_values_desc key xs) = sort_values_desc key (filter P xs)"
  by (simp add: sort_values_desc_def filter_sort flip: rev_filter)

lemma map_insort_key:
  "map f (insort_key (\<lambda>x. g (f x)) x xs) = insort_key g (f x) (map f xs)"
  by (induction xs) auto

lemma map_sort_key: "map f (sort_key (\<lambda>x. g (f x)) xs) = sort_key g (map f xs)"
  by (induction xs) (auto simp: map_insort_key)

lemma map_sort_values_desc:
  "map f (sort_values_desc (\<lambda>x. g (f x)) xs) = sort_values_desc g (map f xs)"
  by (simp add: sort_values_desc_def map_sort_key flip: rev_map)

lemma sort_values_desc_stable:
  "filter (\<lambda>y. key y = v) (sort_values_desc key xs) = filter (\<lambda>y. key y = v) xs"
  by (simp add: sort_values_desc_def sort_key_stable flip: rev_filter)

lemma sum_list_sort_values_desc [pd_simps]:
  fixes f :: "'a \<Rightarrow> 'b::comm_monoid_add"
  shows "sum_list (map f (sort_values_desc key xs)) = sum_list (map f xs)"
proof -
  have "sum_mset (mset (map f (sort_values_desc key xs))) = sum_mset (mset (map f xs))"
    by (simp add: mset_sort_values_desc)
  then show ?thesis
    by (simp only: sum_mset_sum_list)
qed

text \<open>
  \<open>sorts_desc_by\<close> is the contract of \<^verbatim>\<open>sort_values(ascending=False)\<close> and of the
  ordering of \<^verbatim>\<open>value_counts\<close> when nothing is assumed about ties: the result is a
  permutation of the input whose keys fall. Two such results carry the same column of
  keys, and are equal when the keys are distinct.
\<close>

definition sorts_desc_by :: "('a \<Rightarrow> 'k::linorder) \<Rightarrow> ('a list \<Rightarrow> 'a list) \<Rightarrow> bool" where
  "sorts_desc_by key srt \<longleftrightarrow>
     (\<forall>xs. mset (srt xs) = mset xs \<and> sorted (rev (map key (srt xs))))"

lemma sorts_desc_by_sort_values_desc [simp, intro]: "sorts_desc_by key (sort_values_desc key)"
  by (simp add: sorts_desc_by_def pd_simps)

lemma sorts_desc_by_mset: "sorts_desc_by key srt \<Longrightarrow> mset (srt xs) = mset xs"
  by (simp add: sorts_desc_by_def)

lemma sorts_desc_by_set: "sorts_desc_by key srt \<Longrightarrow> set (srt xs) = set xs"
  by (metis sorts_desc_by_mset set_mset_mset)

lemma sorts_desc_by_length: "sorts_desc_by key srt \<Longrightarrow> length (srt xs) = length xs"
  by (metis sorts_desc_by_mset size_mset)

lemma sorts_desc_by_Nil_iff: "sorts_desc_by key srt \<Longrightarrow> srt xs = [] \<longleftrightarrow> xs = []"
  by (metis sorts_desc_by_length length_0_conv)

lemma sorts_desc_by_sorted: "sorts_desc_by key srt \<Longrightarrow> sorted (rev (map key (srt xs)))"
  by (simp add: sorts_desc_by_def)

lemma sorts_desc_by_distinct_map:
  "sorts_desc_by key srt \<Longrightarrow> distinct (map f (srt xs)) = distinct (map f xs)"
  by (rule mset_eq_imp_distinct_iff) (simp add: sorts_desc_by_mset)

lemma sorts_desc_by_sum_list:
  fixes f :: "'a \<Rightarrow> 'b::comm_monoid_add"
  assumes "sorts_desc_by key srt"
  shows "sum_list (map f (srt xs)) = sum_list (map f xs)"
proof -
  have "sum_mset (mset (map f (srt xs))) = sum_mset (mset (map f xs))"
    by (simp add: sorts_desc_by_mset [OF assms])
  then show ?thesis
    by (simp only: sum_mset_sum_list)
qed

lemmas sorts_desc_by_simps =
  sorts_desc_by_set sorts_desc_by_length sorts_desc_by_Nil_iff sorts_desc_by_sorted
  sorts_desc_by_distinct_map sorts_desc_by_sum_list

lemma sorted_desc_keys_unique:
  assumes "mset xs = mset ys"
    and "sorted (rev (map f xs))" and "sorted (rev (map f ys))"
  shows "map f xs = map f ys"
proof -
  from assms(1) have "mset (rev (map f ys)) = mset (rev (map f xs))"
    by (metis mset_map mset_rev)
  with assms(2,3) have "rev (map f xs) = rev (map f ys)"
    by (metis properties_for_sort)
  then show ?thesis by simp
qed

lemma sorted_desc_unique:
  assumes "mset xs = mset ys"
    and "sorted (rev (map f xs))" and "sorted (rev (map f ys))"
    and "distinct (map f xs)"
  shows "xs = ys"
proof (rule map_inj_on)
  show "map f xs = map f ys"
    by (rule sorted_desc_keys_unique) fact+
  from assms(1) have "set ys = set xs"
    by (metis set_mset_mset)
  with assms(4) show "inj_on f (set xs \<union> set ys)"
    by (simp add: distinct_map)
qed

lemma last_filter_last: "xs \<noteq> [] \<Longrightarrow> P (last xs) \<Longrightarrow> last (filter P xs) = last xs"
  by (induction xs rule: rev_induct) auto

text \<open>In a list sorted by \<open>f\<close>, the last row satisfying \<open>P\<close> has the largest \<open>f\<close> among them.\<close>

lemma sorted_last_filter_max:
  "sorted (map f xs) \<Longrightarrow> y \<in> set xs \<Longrightarrow> P y \<Longrightarrow> f y \<le> f (last (filter P xs))"
proof (induction xs rule: rev_induct)
  case (snoc a xs)
  show ?case
  proof (cases "P a")
    case True
    with snoc.prems show ?thesis
      by (auto simp: sorted_append)
  next
    case False
    with snoc.prems have "y \<in> set xs" and "sorted (map f xs)"
      by (auto simp: sorted_append)
    with snoc.IH snoc.prems(3) False show ?thesis by simp
  qed
qed simp

text \<open>
  A sort by two columns is two stable passes, the minor column first; the result is
  the stable sort by the pair of keys.
\<close>

lemma insort_key_lex:
  fixes f :: "'a \<Rightarrow> 'k::linorder" and g :: "'a \<Rightarrow> 'l::linorder"
  assumes "sorted (map (\<lambda>x. (f x, g x)) zs)" "\<forall>z\<in>set zs. f z = f y \<longrightarrow> g y \<le> g z"
  shows "sorted (map (\<lambda>x. (f x, g x)) (insort_key f y zs))"
  using assms by (induction zs) (auto simp: less_eq_prod_def set_insort_key)

lemma sorted_two_pass:
  fixes f :: "'a \<Rightarrow> 'k::linorder" and g :: "'a \<Rightarrow> 'l::linorder"
  shows "sorted (map g xs) \<Longrightarrow> sorted (map (\<lambda>x. (f x, g x)) (sort_key f xs))"
  by (induction xs) (auto intro!: insort_key_lex)

lemma sort_key_two_pass:
  fixes f :: "'a \<Rightarrow> 'k::linorder" and g :: "'a \<Rightarrow> 'l::linorder"
  shows "sort_key f (sort_key g xs) = sort_key (\<lambda>x. (f x, g x)) xs"
proof (rule properties_for_sort_key [symmetric])
  show "mset (sort_key f (sort_key g xs)) = mset xs" by simp
  show "sorted (map (\<lambda>x. (f x, g x)) (sort_key f (sort_key g xs)))"
    by (rule sorted_two_pass) simp
next
  fix k
  have split: "filter (\<lambda>x. (f k, g k) = (f x, g x)) zs =
               filter (\<lambda>x. g x = g k) (filter (\<lambda>x. f x = f k) zs)" for zs :: "'a list"
    by (induction zs) auto
  have swap: "filter (\<lambda>x. g x = g k) (filter (\<lambda>x. f x = f k) zs) =
              filter (\<lambda>x. f x = f k) (filter (\<lambda>x. g x = g k) zs)" for zs :: "'a list"
    by (induction zs) auto
  show "filter (\<lambda>x. (f k, g k) = (f x, g x)) (sort_key f (sort_key g xs)) =
        filter (\<lambda>x. (f k, g k) = (f x, g x)) xs"
    unfolding split sort_key_stable unfolding swap sort_key_stable ..
qed

lemma sort_key_two_pass_id:
  fixes f :: "'a \<Rightarrow> 'k::linorder" and g :: "'a \<Rightarrow> 'l::linorder"
  shows "sorted (map (\<lambda>x. (f x, g x)) xs) \<Longrightarrow> sort_key f (sort_key g xs) = xs"
  by (simp add: sort_key_two_pass sort_key_id_if_sorted)

subsection \<open>Grids\<close>

text \<open>
  A table drawn column by column: position \<open>i\<close> of the sequence of bars is row
  \<open>i mod n\<close> of column \<open>i div n\<close>.
\<close>

lemma length_concat_grid:
  "length (concat (map (\<lambda>c. map (f c) [0..<n]) [0..<m])) = m * n"
  by (induction m) simp_all

lemma nth_concat_grid:
  "i < m * n \<Longrightarrow> concat (map (\<lambda>c. map (f c) [0..<n]) [0..<m]) ! i = f (i div n) (i mod n)"
proof (induction m)
  case (Suc m)
  show ?case
  proof (cases "i < m * n")
    case True
    with Suc.IH show ?thesis
      by (simp add: nth_append length_concat_grid)
  next
    case False
    with Suc.prems have "i div n = m" "i mod n = i - m * n" "i - m * n < n"
      by (auto simp: div_nat_eqI mod_nat_eqI algebra_simps le_mod_geq)
    with False show ?thesis
      by (simp add: nth_append length_concat_grid)
  qed
qed simp

lemma grid_by_index:
  "map (\<lambda>i. f (i div n) (i mod n)) [0..<m * n] = concat (map (\<lambda>c. map (f c) [0..<n]) [0..<m])"
  by (rule nth_equalityI) (simp_all add: length_concat_grid nth_concat_grid)

lemma traverse_err_enumerate:
  assumes "\<And>i. i < length xs \<Longrightarrow> f (i, xs ! i) = Inr (g i)"
  shows "traverse_err f (enumerate 0 xs) = Inr (map g [0..<length xs])"
proof -
  have "traverse_err f (enumerate 0 xs) = Inr (map (\<lambda>ix. g (fst ix)) (enumerate 0 xs))"
  proof (rule traverse_err_map)
    fix ix assume "ix \<in> set (enumerate 0 xs)"
    then have "fst ix < length xs" "snd ix = xs ! fst ix"
      by (simp_all add: in_set_enumerate_eq)
    then obtain i where "ix = (i, xs ! i)" "i < length xs"
      by (metis prod.collapse)
    with assms [of i] show "f ix = Inr (g (fst ix))" by simp
  qed
  also have "map (\<lambda>ix. g (fst ix)) (enumerate 0 xs) = map g [0..<length xs]"
    by (rule nth_equalityI) (simp_all add: nth_enumerate_eq)
  finally show ?thesis .
qed

subsection \<open>Lists by position\<close>

lemma map_by_index: "map (\<lambda>i. f (xs ! i)) [0..<length xs] = map f xs"
  by (rule nth_equalityI) simp_all

lemma zip_map_same: "zip (map f xs) (map g xs) = map (\<lambda>x. (f x, g x)) xs"
  by (induction xs) simp_all

lemma sort_remdups_cong:
  fixes xs ys :: "('a::linorder) list"
  shows "set xs = set ys \<Longrightarrow> sort (remdups xs) = sort (remdups ys)"
  by (intro sorted_distinct_set_unique) simp_all

lemma count_dropna: "count_list (dropna cs) k = length (filter (\<lambda>c. c = Some k) cs)"
  by (induction cs) (auto split: option.splits)

subsection \<open>Group sizes\<close>

text \<open>
  \<^verbatim>\<open>groupby(keys).size()\<close> on the list of the keys of the rows (rows with a missing
  key already left out): one entry per distinct key, in ascending order of the keys.
\<close>

definition groupby_size :: "('k::linorder) list \<Rightarrow> ('k \<times> nat) list" where
  "groupby_size ks = map (\<lambda>k. (k, count_list ks k)) (sort (remdups ks))"

lemma set_groupby_size: "set (groupby_size ks) = (\<lambda>k. (k, count_list ks k)) ` set ks"
  by (simp add: groupby_size_def)

lemma map_fst_groupby_size [simp]: "map fst (groupby_size ks) = sort (remdups ks)"
  by (simp add: groupby_size_def comp_def)

lemma map_of_groupby_size:
  "map_of (groupby_size ks) k = (if k \<in> set ks then Some (count_list ks k) else None)"
  by (simp add: groupby_size_def map_of_map_restrict restrict_map_def)

lemma sum_groupby_size: "sum_list (map snd (groupby_size ks)) = length ks"
proof -
  have "sum_list (map snd (groupby_size ks)) = sum_list (map (count_list ks) (sort (remdups ks)))"
    by (simp add: groupby_size_def comp_def)
  also have "\<dots> = sum_mset (image_mset (count_list ks) (mset (remdups ks)))"
    by (simp flip: sum_mset_sum_list)
  also have "\<dots> = sum_list (map (count_list ks) (remdups ks))"
    by (simp flip: sum_mset_sum_list)
  also have "\<dots> = length ks"
    using sum_count_set [of ks "set ks"] by (simp add: sum_list_distinct_conv_sum_set)
  finally show ?thesis .
qed

lemma lookup_groupby_size:
  "(case map_of (groupby_size ks) k of None \<Rightarrow> 0 | Some n \<Rightarrow> n) = count_list ks k"
  by (simp add: map_of_groupby_size count_list_0_iff)

subsection \<open>Joining strings\<close>

text \<open>
  Python's \<^verbatim>\<open>sep.join(xs)\<close>.
\<close>

fun join_str :: "'a list \<Rightarrow> 'a list list \<Rightarrow> 'a list" where
  "join_str sep [] = []"
| "join_str sep [x] = x"
| "join_str sep (x # y # ys) = x @ sep @ join_str sep (y # ys)"

lemma join_str_Cons:
  "join_str sep (x # xs) = (if xs = [] then x else x @ sep @ join_str sep xs)"
  by (cases xs) simp_all

lemma length_join_str:
  "length (join_str sep xs) = sum_list (map length xs) + (length xs - 1) * length sep"
  by (induction sep xs rule: join_str.induct) simp_all

lemma set_join_str:
  "set (join_str sep xs) \<subseteq> \<Union> (set ` set xs) \<union> set sep"
  by (induction sep xs rule: join_str.induct) auto

subsection \<open>Truth of an optional string\<close>

text \<open>
  Python tests an optional string for truth (\<^verbatim>\<open>if s\<close>, \<^verbatim>\<open>s or d\<close>): \<^verbatim>\<open>None\<close> and
  the empty string are false.
\<close>

definition truthy :: "string option \<Rightarrow> bool" where
  "truthy s = (case s of None \<Rightarrow> False | Some t \<Rightarrow> t \<noteq> [])"

lemma truthy_simps [simp]:
  "truthy None = False"
  "truthy (Some t) = (t \<noteq> [])"
  by (simp_all add: truthy_def)

subsection \<open>Percentages\<close>

definition percentage :: "nat \<Rightarrow> nat \<Rightarrow> rat" where
  "percentage c n = of_nat c / of_nat n * 100"

lemma percentage_mono: "c \<le> d \<Longrightarrow> percentage c t \<le> percentage d t"
  by (simp add: percentage_def divide_right_mono)

lemma percentage_nonneg [simp]: "0 \<le> percentage c t"
  by (simp add: percentage_def)

lemma percentage_le_100: "c \<le> t \<Longrightarrow> percentage c t \<le> 100"
  by (cases "t = 0") (simp_all add: percentage_def divide_le_eq)

lemma percentage_self [simp]: "0 < t \<Longrightarrow> percentage t t = 100"
  by (simp add: percentage_def)

lemma percentage_zero_total [simp]: "percentage c 0 = 0"
  by (simp add: percentage_def)

lemma sum_list_percentage:
  "sum_list (map (\<lambda>x. percentage (f x) t) xs) = percentage (sum_list (map f xs)) t"
  by (induction xs) (simp_all add: percentage_def add_divide_distrib distrib_right)

lemma percentage_inj: "0 < t \<Longrightarrow> percentage c t = percentage d t \<longleftrightarrow> c = d"
  by (simp add: percentage_def)

end
