(* ===== verification/Frame.thy ===== *)
theory Frame
  imports Prelude
begin

text \<open>
  The table every script reads: a CSV export of survey events, one row per answer.
  A \<open>frame\<close> is the list of column names of the file and its rows; a row carries the
  seven columns the scripts ever touch (\<^verbatim>\<open>user_id\<close>, \<^verbatim>\<open>hashed_user_id\<close>,
  \<^verbatim>\<open>session_id\<close>, \<^verbatim>\<open>step_name\<close>, \<^verbatim>\<open>question\<close>, \<^verbatim>\<open>answer\<close>,
  \<^verbatim>\<open>created_at\<close>). The type parameter is the type of \<^verbatim>\<open>created_at\<close>: a raw
  cell as read from the file, a \<open>tstamp\<close> after \<^verbatim>\<open>pd.to_datetime\<close>. Accessing a
  column that the file does not have raises \<^verbatim>\<open>KeyError\<close>; the operations check
  \<open>columns\<close> before they read a field, so the field of an absent column is never read.

  This theory holds the timestamp type with pandas' sort order (missing timestamps
  last), the exceptions and exits with the handlers that two of the scripts share, the
  three ways the scripts parse the timestamp column (strict in UTC, strict without
  conversion, and coercing, which turns bad cells into NaT), the time zone of a stamp
  and of a column, the clock, the required-column check, and the time-window filters of
  \<^verbatim>\<open>process_data\<close>.
\<close>

subsection \<open>Timestamps\<close>

text \<open>
  \<open>At t\<close> is an instant in nanoseconds since the epoch (what \<^verbatim>\<open>datetime64[ns]\<close>
  stores), \<open>NaT\<close> the missing timestamp. The order is the one \<^verbatim>\<open>sort_values\<close>
  uses (\<^verbatim>\<open>na_position='last'\<close>). Comparisons inside a boolean mask are different:
  any comparison with NaT is false (\<open>ts_ge\<close>, \<open>ts_le\<close>).
\<close>

datatype tstamp = At int | NaT

instantiation tstamp :: linorder
begin

definition less_eq_tstamp :: "tstamp \<Rightarrow> tstamp \<Rightarrow> bool" where
  "less_eq_tstamp a b =
     (case b of NaT \<Rightarrow> True | At y \<Rightarrow> (case a of NaT \<Rightarrow> False | At x \<Rightarrow> x \<le> y))"

definition less_tstamp :: "tstamp \<Rightarrow> tstamp \<Rightarrow> bool" where
  "less_tstamp a b = (a \<le> b \<and> \<not> b \<le> (a :: tstamp))"

instance
  by standard
    (auto simp: less_eq_tstamp_def less_tstamp_def split: tstamp.splits)

end

lemma tstamp_le_simps [simp]:
  "At x \<le> At y \<longleftrightarrow> x \<le> y"
  "a \<le> NaT"
  "NaT \<le> At y \<longleftrightarrow> False"
  by (simp_all add: less_eq_tstamp_def split: tstamp.splits)

lemma tstamp_less_simps [simp]:
  "At x < At y \<longleftrightarrow> x < y"
  "At x < NaT"
  "a < NaT \<longleftrightarrow> a \<noteq> NaT"
  "NaT < a \<longleftrightarrow> False"
  by (auto simp: less_tstamp_def less_eq_tstamp_def split: tstamp.splits)

definition ts_ge :: "tstamp \<Rightarrow> tstamp \<Rightarrow> bool" where
  "ts_ge a b = (case (a, b) of (At x, At y) \<Rightarrow> y \<le> x | _ \<Rightarrow> False)"

definition ts_le :: "tstamp \<Rightarrow> tstamp \<Rightarrow> bool" where
  "ts_le a b = (case (a, b) of (At x, At y) \<Rightarrow> x \<le> y | _ \<Rightarrow> False)"

lemma ts_ge_simps [simp]:
  "ts_ge (At x) (At y) \<longleftrightarrow> y \<le> x"
  "ts_ge NaT b \<longleftrightarrow> False"
  "ts_ge a NaT \<longleftrightarrow> False"
  by (simp_all add: ts_ge_def split: tstamp.splits)

lemma ts_le_simps [simp]:
  "ts_le (At x) (At y) \<longleftrightarrow> x \<le> y"
  "ts_le NaT b \<longleftrightarrow> False"
  "ts_le a NaT \<longleftrightarrow> False"
  by (simp_all add: ts_le_def split: tstamp.splits)

definition ns_per_day :: int where
  "ns_per_day = 86400000000000"

definition date_of :: "tstamp \<Rightarrow> int option" where
  "date_of a = (case a of NaT \<Rightarrow> None | At t \<Rightarrow> Some (t div ns_per_day))"

lemma date_of_simps [simp]:
  "date_of NaT = None"
  "date_of (At t) = Some (t div ns_per_day)"
  by (simp_all add: date_of_def)

subsection \<open>Rows, frames and errors\<close>

record 't row =
  user_id :: cell
  hashed_user_id :: cell
  session_id :: cell
  step_name :: cell
  question :: cell
  answer :: cell
  created_at :: 't

record 't frame =
  columns :: "string list"
  rows :: "'t row list"

datatype error =
    KeyError string
  | ValueError
  | MissingColumns "string list"
  | InvalidDate string
  | TypeError
  | ColumnNotFound
  | IndexError
  | ZeroDivisionError
  | EmptyDataError
  | NoDataToParse
  | Unexpected error

definition set_created_at :: "'b \<Rightarrow> 'a row \<Rightarrow> 'b row" where
  "set_created_at v r =
     \<lparr>user_id = user_id r, hashed_user_id = hashed_user_id r, session_id = session_id r,
      step_name = step_name r, question = question r, answer = answer r, created_at = v\<rparr>"

lemma set_created_at_simps [simp]:
  "user_id (set_created_at v r) = user_id r"
  "hashed_user_id (set_created_at v r) = hashed_user_id r"
  "session_id (set_created_at v r) = session_id r"
  "step_name (set_created_at v r) = step_name r"
  "question (set_created_at v r) = question r"
  "answer (set_created_at v r) = answer r"
  "created_at (set_created_at v r) = v"
  by (simp_all add: set_created_at_def)

definition with_rows :: "'a frame \<Rightarrow> 'b row list \<Rightarrow> 'b frame" where
  "with_rows df rs = \<lparr>columns = columns df, rows = rs\<rparr>"

lemma with_rows_simps [simp]:
  "columns (with_rows df rs) = columns df"
  "rows (with_rows df rs) = rs"
  by (simp_all add: with_rows_def)

definition require :: "string \<Rightarrow> 't frame \<Rightarrow> error + unit" where
  "require c df = (if c \<in> set (columns df) then Inr () else Inl (KeyError c))"

lemma require_simps [simp]:
  "c \<in> set (columns df) \<Longrightarrow> require c df = Inr ()"
  "c \<notin> set (columns df) \<Longrightarrow> require c df = Inl (KeyError c)"
  by (simp_all add: require_def)

definition missing_columns :: "string list \<Rightarrow> 't frame \<Rightarrow> string list" where
  "missing_columns required df = filter (\<lambda>c. c \<notin> set (columns df)) required"

lemma missing_columns_Nil_iff:
  "missing_columns required df = [] \<longleftrightarrow> set required \<subseteq> set (columns df)"
  by (auto simp: missing_columns_def filter_empty_conv)

lemma set_missing_columns:
  "set (missing_columns required df) = set required - set (columns df)"
  by (auto simp: missing_columns_def)

subsection \<open>Exceptions and exits\<close>

text \<open>
  \<open>error\<close> holds the ways a run ends early. \<open>KeyError\<close>, \<open>ValueError\<close>,
  \<open>TypeError\<close>, \<open>IndexError\<close>, \<open>ZeroDivisionError\<close> and \<open>EmptyDataError\<close> are
  the Python exceptions of those names, which an \<^verbatim>\<open>except Exception\<close> catches. The
  others are exits: the script has written a message to the standard error stream and
  called \<^verbatim>\<open>sys.exit(1)\<close>, which no \<^verbatim>\<open>except Exception\<close> catches;
  \<open>MissingColumns\<close> and \<open>InvalidDate\<close> carry what the message names, and
  \<open>ColumnNotFound\<close> is the exit of the answer filter.

  The two scripts that read the standard input wrap their whole body in
  \<^verbatim>\<open>try\<close> with the same two handlers: \<^verbatim>\<open>EmptyDataError\<close> ends with the message
  "No data to parse" (\<open>NoDataToParse\<close>), every other exception with the message "An
  unexpected error occurred" followed by the exception (\<open>Unexpected\<close>), both with
  status 1. \<open>stdin_handlers\<close> is that pair of handlers.
\<close>

fun is_exit :: "error \<Rightarrow> bool" where
  "is_exit (MissingColumns m) = True"
| "is_exit (InvalidDate s) = True"
| "is_exit ColumnNotFound = True"
| "is_exit NoDataToParse = True"
| "is_exit (Unexpected e) = True"
| "is_exit e = False"

definition stdin_handlers :: "error \<Rightarrow> error + 'a" where
  "stdin_handlers e =
     (if is_exit e then Inl e
      else if e = EmptyDataError then Inl NoDataToParse
      else Inl (Unexpected e))"

definition exit_code :: "error + 'a \<Rightarrow> nat" where
  "exit_code res = (case res of Inl _ \<Rightarrow> 1 | Inr _ \<Rightarrow> 0)"

lemma exit_code_simps [simp]:
  "exit_code (Inl e) = 1"
  "exit_code (Inr x) = 0"
  by (simp_all add: exit_code_def)

lemma stdin_handlers_simps [simp]:
  "stdin_handlers EmptyDataError = Inl NoDataToParse"
  "stdin_handlers ValueError = Inl (Unexpected ValueError)"
  "stdin_handlers TypeError = Inl (Unexpected TypeError)"
  "stdin_handlers (KeyError k) = Inl (Unexpected (KeyError k))"
  "stdin_handlers (MissingColumns m) = Inl (MissingColumns m)"
  "stdin_handlers (InvalidDate s) = Inl (InvalidDate s)"
  by (simp_all add: stdin_handlers_def)

lemma stdin_handlers_exit:
  "catch_err m stdin_handlers = Inl e \<Longrightarrow> is_exit e"
  by (cases m) (auto simp: stdin_handlers_def split: if_splits)

lemma stdin_handlers_Inr [simp]:
  "catch_err m stdin_handlers = Inr x \<longleftrightarrow> m = Inr x"
  by (cases m) (auto simp: stdin_handlers_def)

subsection \<open>Reading the file\<close>

text \<open>
  \<^verbatim>\<open>pd.read_csv\<close> raises \<^verbatim>\<open>EmptyDataError\<close> on input without a header line; a
  frame without columns stands for that input.
\<close>

definition read_csv :: "'t frame \<Rightarrow> error + 't frame" where
  "read_csv csv = (if columns csv = [] then Inl EmptyDataError else Inr csv)"

lemma read_csv_simps [simp]:
  "columns csv = [] \<Longrightarrow> read_csv csv = Inl EmptyDataError"
  "columns csv \<noteq> [] \<Longrightarrow> read_csv csv = Inr csv"
  by (simp_all add: read_csv_def)

subsection \<open>What a timestamp text denotes\<close>

text \<open>
  The date parser is pandas' own; the model takes it as a parameter \<open>parse\<close>. A text
  is rejected (\<open>Invalid\<close>), denotes the missing time (\<open>Missing\<close>, as the text
  \<^verbatim>\<open>NaT\<close> does), or denotes a \<open>stamp\<close>: a wall-clock time in nanoseconds and the
  zone it is written in, \<open>Naive\<close> when the text names none, \<open>Offset k\<close> when it is
  \<open>k\<close> nanoseconds ahead of UTC. The scripts read stamps in three ways.
  \<^item> \<^verbatim>\<open>pd.to_datetime(..., utc=True)\<close> (\<open>to_datetime\<close>, \<^verbatim>\<open>processEvacuate.py\<close>):
    every stamp becomes an instant in UTC, a naive one being taken as UTC; one rejected
    cell raises \<^verbatim>\<open>ValueError\<close>.
  \<^item> \<^verbatim>\<open>pd.to_datetime(...)\<close> (\<open>to_datetime_v1\<close>, the first version): the column keeps
    its zone, and the dates that \<^verbatim>\<open>.dt.date\<close> reads are wall-clock dates, so the
    model keeps the wall-clock time.
  \<^item> \<^verbatim>\<open>pd.to_datetime(..., errors='coerce')\<close> (\<open>to_datetime_coerce\<close>, the report): a
    rejected cell becomes NaT; the column keeps its zone, which the later comparison
    with the start date depends on, so the model returns the zone with the instants.
  Without \<^verbatim>\<open>utc=True\<close> a column needs one zone (\<open>column_zone\<close>). What pandas makes
  of a column that mixes zones depends on its version (an exception, a column of Python
  objects, missing values); the model raises \<^verbatim>\<open>ValueError\<close> at the parse, and the
  theorems that depend on the zone assume a column with one zone.
\<close>

datatype zone = Naive | Offset int

datatype stamp = Stamp int zone

datatype parsed = Invalid | Missing | Parsed stamp

type_synonym parser = "string \<Rightarrow> parsed"

fun wall :: "stamp \<Rightarrow> int" where
  "wall (Stamp w z) = w"

fun zone_of :: "stamp \<Rightarrow> zone" where
  "zone_of (Stamp w z) = z"

fun instant :: "stamp \<Rightarrow> int" where
  "instant (Stamp w Naive) = w"
| "instant (Stamp w (Offset k)) = w - k"

definition aware :: "zone \<Rightarrow> bool" where
  "aware z \<longleftrightarrow> z \<noteq> Naive"

definition parse_cell :: "parser \<Rightarrow> cell \<Rightarrow> parsed" where
  "parse_cell parse c = (case c of None \<Rightarrow> Missing | Some s \<Rightarrow> parse s)"

definition utc_cell :: "parsed \<Rightarrow> tstamp" where
  "utc_cell p = (case p of Parsed st \<Rightarrow> At (instant st) | _ \<Rightarrow> NaT)"

definition local_cell :: "parsed \<Rightarrow> tstamp" where
  "local_cell p = (case p of Parsed st \<Rightarrow> At (wall st) | _ \<Rightarrow> NaT)"

definition zones :: "parsed list \<Rightarrow> zone list" where
  "zones ps = remdups (concat (map (\<lambda>p. case p of Parsed st \<Rightarrow> [zone_of st] | _ \<Rightarrow> []) ps))"

definition column_zone :: "parsed list \<Rightarrow> zone option" where
  "column_zone ps = (case zones ps of [] \<Rightarrow> Some Naive | [z] \<Rightarrow> Some z | _ \<Rightarrow> None)"

definition parsed_column :: "parser \<Rightarrow> cell frame \<Rightarrow> parsed list" where
  "parsed_column parse df = map (\<lambda>r. parse_cell parse (created_at r)) (rows df)"

definition to_datetime :: "parser \<Rightarrow> cell frame \<Rightarrow> error + tstamp frame" where
  "to_datetime parse df =
     (if ''created_at'' \<notin> set (columns df) then Inl (KeyError ''created_at'')
      else if Invalid \<in> set (parsed_column parse df) then Inl ValueError
      else Inr (with_rows df
             (map (\<lambda>r. set_created_at (utc_cell (parse_cell parse (created_at r))) r) (rows df))))"

definition to_datetime_v1 :: "parser \<Rightarrow> cell frame \<Rightarrow> error + tstamp frame" where
  "to_datetime_v1 parse df =
     (if ''created_at'' \<notin> set (columns df) then Inl (KeyError ''created_at'')
      else if Invalid \<in> set (parsed_column parse df) then Inl ValueError
      else if column_zone (parsed_column parse df) = None then Inl ValueError
      else Inr (with_rows df
             (map (\<lambda>r. set_created_at (local_cell (parse_cell parse (created_at r))) r) (rows df))))"

definition to_datetime_coerce :: "parser \<Rightarrow> cell frame \<Rightarrow> error + zone \<times> tstamp frame" where
  "to_datetime_coerce parse df =
     (case column_zone (parsed_column parse df) of
        None \<Rightarrow> Inl ValueError
      | Some z \<Rightarrow>
          Inr (z, with_rows df
                 (map (\<lambda>r. set_created_at (utc_cell (parse_cell parse (created_at r))) r)
                    (rows df))))"

definition dropna_created_at :: "tstamp frame \<Rightarrow> tstamp frame" where
  "dropna_created_at df = with_rows df (filter (\<lambda>r. created_at r \<noteq> NaT) (rows df))"

lemmas parse_defs =
  parse_cell_def utc_cell_def local_cell_def zones_def column_zone_def parsed_column_def
  to_datetime_def to_datetime_v1_def to_datetime_coerce_def dropna_created_at_def aware_def

lemma parse_cell_simps [simp]:
  "parse_cell parse None = Missing"
  "parse_cell parse (Some s) = parse s"
  by (simp_all add: parse_cell_def)

lemma utc_cell_simps [simp]:
  "utc_cell Invalid = NaT"
  "utc_cell Missing = NaT"
  "utc_cell (Parsed st) = At (instant st)"
  by (simp_all add: utc_cell_def)

lemma local_cell_simps [simp]:
  "local_cell Invalid = NaT"
  "local_cell Missing = NaT"
  "local_cell (Parsed st) = At (wall st)"
  by (simp_all add: local_cell_def)

lemma aware_simps [simp]: "aware Naive = False" "aware (Offset k) = True"
  by (simp_all add: aware_def)

lemma set_zones: "set (zones ps) = {zone_of st |st. Parsed st \<in> set ps}"
  by (auto simp: zones_def split: parsed.splits)

lemma distinct_zones [simp]: "distinct (zones ps)"
  by (simp add: zones_def)

lemma column_zone_Some_iff:
  "column_zone ps = Some z \<longleftrightarrow>
   (\<forall>st. Parsed st \<in> set ps \<longrightarrow> zone_of st = z) \<and>
   (z = Naive \<or> (\<exists>st. Parsed st \<in> set ps))"
proof -
  have "zones ps = [] \<or> (\<exists>y. zones ps = [y]) \<or> (\<exists>x y ys. zones ps = x # y # ys)"
    by (metis list.exhaust)
  then show ?thesis
  proof (elim disjE exE)
    assume "zones ps = []"
    with set_zones [of ps] show ?thesis
      by (auto simp: column_zone_def)
  next
    fix y assume y: "zones ps = [y]"
    with set_zones [of ps] have eq: "{zone_of st |st. Parsed st \<in> set ps} = {y}"
      by simp
    then have "y \<in> {zone_of st |st. Parsed st \<in> set ps}"
      by simp
    then obtain st0 where "Parsed st0 \<in> set ps" "zone_of st0 = y"
      by auto
    moreover from eq have "zone_of st = y" if "Parsed st \<in> set ps" for st
      using that by auto
    ultimately show ?thesis
      by (auto simp: column_zone_def y)
  next
    fix x y ys assume xs: "zones ps = x # y # ys"
    with distinct_zones [of ps] have "x \<noteq> y" by auto
    moreover from xs set_zones [of ps] have "x \<in> {zone_of st |st. Parsed st \<in> set ps}"
      "y \<in> {zone_of st |st. Parsed st \<in> set ps}" by auto
    ultimately show ?thesis
      by (auto simp: column_zone_def xs)
  qed
qed

lemma column_zone_utc:
  assumes "column_zone ps = Some z" "z = Naive \<or> z = Offset 0" "p \<in> set ps"
  shows "local_cell p = utc_cell p"
proof (cases p)
  case (Parsed st)
  with assms have "zone_of st = z"
    by (auto simp: column_zone_Some_iff)
  with assms(2) Parsed show ?thesis
    by (cases st) auto
qed simp_all

lemma to_datetime_Inr_iff:
  "(\<exists>df'. to_datetime parse df = Inr df') \<longleftrightarrow>
   ''created_at'' \<in> set (columns df) \<and>
   (\<forall>r \<in> set (rows df). \<forall>s. created_at r = Some s \<longrightarrow> parse s \<noteq> Invalid)"
  by (auto simp: to_datetime_def parsed_column_def parse_cell_def image_iff split: option.splits)
     metis+

lemma to_datetime_rows:
  "to_datetime parse df = Inr df' \<Longrightarrow>
   rows df' = map (\<lambda>r. set_created_at (utc_cell (parse_cell parse (created_at r))) r) (rows df)"
  by (auto simp: to_datetime_def split: if_splits)

lemma to_datetime_length:
  "to_datetime parse df = Inr df' \<Longrightarrow> length (rows df') = length (rows df)"
  by (simp add: to_datetime_rows)

lemma to_datetime_columns:
  "to_datetime parse df = Inr df' \<Longrightarrow> columns df' = columns df"
  by (auto simp: to_datetime_def split: if_splits)

lemma to_datetime_v1_agrees:
  assumes "column_zone (parsed_column parse df) = Some z" "z = Naive \<or> z = Offset 0"
  shows "to_datetime_v1 parse df = to_datetime parse df"
proof -
  have "set_created_at (local_cell (parse_cell parse (created_at r))) r =
        set_created_at (utc_cell (parse_cell parse (created_at r))) r" if "r \<in> set (rows df)" for r
    using that column_zone_utc [OF assms, of "parse_cell parse (created_at r)"]
    by (simp add: parsed_column_def)
  then have "map (\<lambda>r. set_created_at (local_cell (parse_cell parse (created_at r))) r) (rows df) =
             map (\<lambda>r. set_created_at (utc_cell (parse_cell parse (created_at r))) r) (rows df)"
    by simp
  with assms(1) show ?thesis
    by (simp add: to_datetime_v1_def to_datetime_def)
qed

lemma to_datetime_coerce_Inr:
  "column_zone (parsed_column parse df) = Some z \<Longrightarrow>
   to_datetime_coerce parse df =
     Inr (z, with_rows df
            (map (\<lambda>r. set_created_at (utc_cell (parse_cell parse (created_at r))) r) (rows df)))"
  by (simp add: to_datetime_coerce_def)

lemma dropna_created_at_no_NaT:
  "r \<in> set (rows (dropna_created_at df)) \<Longrightarrow> created_at r \<noteq> NaT"
  by (simp add: dropna_created_at_def)

subsection \<open>The clock\<close>

text \<open>
  \<^verbatim>\<open>--today\<close> compares the dates of the rows with today's date. The current version
  takes today from the clock in UTC (\<open>today_utc\<close>), the first version from the local
  clock (\<open>today_local\<close>): one \<open>clock\<close>, the instant in UTC and the offset of the local
  zone, gives both.
\<close>

record clock =
  utc_now :: int
  local_offset :: int

definition today_utc :: "clock \<Rightarrow> int" where
  "today_utc clk = utc_now clk div ns_per_day"

definition today_local :: "clock \<Rightarrow> int" where
  "today_local clk = (utc_now clk + local_offset clk) div ns_per_day"

subsection \<open>Time-window filters\<close>

text \<open>
  Python truthiness of an optional command-line string: \<^verbatim>\<open>None\<close> and the empty
  string switch a filter off. A bound that does not parse raises; a bound that denotes
  the missing time compares false with every row.
\<close>

definition filter_today :: "int \<Rightarrow> tstamp row list \<Rightarrow> tstamp row list" where
  "filter_today today rs = filter (\<lambda>r. date_of (created_at r) = Some today) rs"

definition filter_from :: "int \<Rightarrow> tstamp row list \<Rightarrow> tstamp row list" where
  "filter_from t rs = filter (\<lambda>r. ts_ge (created_at r) (At t)) rs"

definition filter_until :: "int \<Rightarrow> tstamp row list \<Rightarrow> tstamp row list" where
  "filter_until t rs = filter (\<lambda>r. ts_le (created_at r) (At t)) rs"

definition with_bound ::
  "parser \<Rightarrow> (int \<Rightarrow> tstamp row list \<Rightarrow> tstamp row list) \<Rightarrow> string option \<Rightarrow>
   tstamp row list \<Rightarrow> error + tstamp row list" where
  "with_bound parse flt arg rs =
     (case arg of
        None \<Rightarrow> Inr rs
      | Some s \<Rightarrow>
          if s = [] then Inr rs
          else (case parse s of
                  Invalid \<Rightarrow> Inl ValueError
                | Missing \<Rightarrow> Inr []
                | Parsed st \<Rightarrow> Inr (flt (instant st) rs)))"

lemma with_bound_simps [simp]:
  "with_bound parse flt None rs = Inr rs"
  "with_bound parse flt (Some []) rs = Inr rs"
  "s \<noteq> [] \<Longrightarrow> parse s = Invalid \<Longrightarrow> with_bound parse flt (Some s) rs = Inl ValueError"
  "s \<noteq> [] \<Longrightarrow> parse s = Missing \<Longrightarrow> with_bound parse flt (Some s) rs = Inr []"
  "s \<noteq> [] \<Longrightarrow> parse s = Parsed st \<Longrightarrow> with_bound parse flt (Some s) rs = Inr (flt (instant st) rs)"
  by (simp_all add: with_bound_def)

lemmas window_defs = filter_today_def filter_from_def filter_until_def

lemma filter_from_bounds:
  "r \<in> set (filter_from t rs) \<longleftrightarrow> r \<in> set rs \<and> (\<exists>x. created_at r = At x \<and> t \<le> x)"
  by (cases "created_at r") (auto simp: filter_from_def)

lemma filter_until_bounds:
  "r \<in> set (filter_until t rs) \<longleftrightarrow> r \<in> set rs \<and> (\<exists>x. created_at r = At x \<and> x \<le> t)"
  by (cases "created_at r") (auto simp: filter_until_def)

lemma filter_today_bounds:
  "r \<in> set (filter_today today rs) \<longleftrightarrow>
   r \<in> set rs \<and> (\<exists>x. created_at r = At x \<and> x div ns_per_day = today)"
  by (cases "created_at r") (auto simp: filter_today_def)

lemma window_subseq:
  "subseq (filter_from t rs) rs" "subseq (filter_until t rs) rs" "subseq (filter_today d rs) rs"
  by (simp_all add: window_defs)

lemma window_idem [simp]:
  "filter_from t (filter_from t rs) = filter_from t rs"
  "filter_until t (filter_until t rs) = filter_until t rs"
  "filter_today d (filter_today d rs) = filter_today d rs"
  by (simp_all add: window_defs)

lemma filter_from_until_commute:
  "filter_from a (filter_until b rs) = filter_until b (filter_from a rs)"
  by (auto simp: window_defs intro: filter_cong)

lemma window_drops_NaT:
  "created_at r = NaT \<Longrightarrow> r \<notin> set (filter_from t rs)"
  "created_at r = NaT \<Longrightarrow> r \<notin> set (filter_until t rs)"
  "created_at r = NaT \<Longrightarrow> r \<notin> set (filter_today d rs)"
  by (simp_all add: window_defs)

subsection \<open>Example rows\<close>

text \<open>
  Two shapes of row occur in the exports: the evacuation game's
  (\<^verbatim>\<open>user_id\<close>, \<^verbatim>\<open>step_name\<close>, \<^verbatim>\<open>answer\<close>, \<^verbatim>\<open>created_at\<close>) and the
  survey's (\<^verbatim>\<open>hashed_user_id\<close>, \<^verbatim>\<open>session_id\<close>, \<^verbatim>\<open>question\<close>,
  \<^verbatim>\<open>answer\<close>, \<^verbatim>\<open>created_at\<close>). The concrete instances of the theorems are stated
  over them.
\<close>

definition game_row :: "string \<Rightarrow> string \<Rightarrow> string \<Rightarrow> 't \<Rightarrow> 't row" where
  "game_row u step a t =
     \<lparr>user_id = Some u, hashed_user_id = None, session_id = None, step_name = Some step,
      question = None, answer = Some a, created_at = t\<rparr>"

definition survey_row :: "string \<Rightarrow> string \<Rightarrow> cell \<Rightarrow> cell \<Rightarrow> 't \<Rightarrow> 't row" where
  "survey_row u s q a t =
     \<lparr>user_id = None, hashed_user_id = Some u, session_id = Some s, step_name = None,
      question = q, answer = a, created_at = t\<rparr>"

definition game_columns :: "string list" where
  "game_columns = [''user_id'', ''step_name'', ''answer'', ''created_at'']"

definition survey_columns :: "string list" where
  "survey_columns = [''hashed_user_id'', ''session_id'', ''question'', ''answer'', ''created_at'']"

text \<open>
  A date parser for the instances, given by a table of the texts it accepts: the text
  \<^verbatim>\<open>NaT\<close> denotes the missing time, a text outside the table is rejected.
\<close>

definition table_parser :: "(string \<times> stamp) list \<Rightarrow> parser" where
  "table_parser tbl s =
     (if s = ''NaT'' then Missing
      else case map_of tbl s of None \<Rightarrow> Invalid | Some st \<Rightarrow> Parsed st)"

lemmas example_defs =
  game_row_def survey_row_def game_columns_def survey_columns_def table_parser_def

subsection \<open>Properties\<close>

text \<open>
  C9. The time window of \<^verbatim>\<open>process_data\<close> is inclusive at both ends: a row
  survives \<^verbatim>\<open>--start a --end b\<close> exactly when it has a timestamp \<open>x\<close> with
  \<open>a \<le> x \<le> b\<close>; rows without a timestamp never survive.
\<close>

theorem window_inclusive_bounds:
  "r \<in> set (filter_until b (filter_from a rs)) \<longleftrightarrow>
   r \<in> set rs \<and> (\<exists>x. created_at r = At x \<and> a \<le> x \<and> x \<le> b)"
  by (auto simp: filter_from_bounds filter_until_bounds)

theorem window_inclusive_bounds_witness:
  "set (filter_until 20 (filter_from 10
     [game_row ''u'' ''s'' ''a'' (At 9), game_row ''u'' ''s'' ''b'' (At 10),
      game_row ''u'' ''s'' ''c'' (At 20), game_row ''u'' ''s'' ''d'' (At 21),
      game_row ''u'' ''s'' ''e'' NaT])) =
   {game_row ''u'' ''s'' ''b'' (At 10), game_row ''u'' ''s'' ''c'' (At 20)}"
  using window_inclusive_bounds [of "game_row ''u'' ''s'' ''b'' (At 10)" 20 10
      "[game_row ''u'' ''s'' ''a'' (At 9), game_row ''u'' ''s'' ''b'' (At 10),
        game_row ''u'' ''s'' ''c'' (At 20), game_row ''u'' ''s'' ''d'' (At 21),
        game_row ''u'' ''s'' ''e'' NaT]"]
  by (auto simp: window_defs game_row_def)

end
