(* ===== verification/Latest.thy ===== *)
theory Latest
  imports Frame
begin

text \<open>
  Latest-response extraction and the inner join, as \<^verbatim>\<open>process_data\<close> of
  \<^verbatim>\<open>src/processEvacuate.py\<close> (and its first version in
  \<^verbatim>\<open>src/firstworkingprocessEvacuate.py\<close>) performs them: normalise the answer
  labels, select the rows of a question group, sort them by \<^verbatim>\<open>created_at\<close>, keep
  the last row of every user, project to (user, answer), and join the player types with
  the evacuation choices on the user.

  \<^verbatim>\<open>sort_values('created_at')\<close> sorts by one column with pandas' default
  algorithm, which is not stable, so the code fixes the order of rows with equal
  timestamps only up to a permutation. The definitions named \<open>\<dots>_with\<close>
  (\<open>latest_rows_with\<close>, \<open>latest_answers_with\<close>, \<open>extract_and_merge_with\<close>,
  \<open>checked_merge\<close>, \<open>process_data_with\<close>) take the sort as a parameter \<open>srt\<close>, and
  their lemmas hold for every sort that satisfies \<^const>\<open>sorts_by\<close>; they are the
  translation of the code. \<open>latest_rows\<close>, \<open>latest_answers\<close>, \<open>extract_and_merge\<close>
  and \<open>process_data\<close> are the instances at the stable \<^const>\<open>sort_key\<close>, for
  which ties are broken by input order; the tie-break lemmas are stated for them only.

  The two versions differ in how they read time: the current one parses with
  \<^verbatim>\<open>utc=True\<close> and takes today's date from the clock in UTC, the first one keeps
  the wall-clock time of the column and takes the date from the local clock.
\<close>

subsection \<open>Definitions\<close>

definition replace_answer :: "'t row \<Rightarrow> 't row" where
  "replace_answer r =
     (if answer r = Some ''Petowner'' then r\<lparr>answer := Some ''Pet Owner''\<rparr> else r)"

definition in_group :: "string list \<Rightarrow> 't row \<Rightarrow> bool" where
  "in_group names r = (case step_name r of None \<Rightarrow> False | Some s \<Rightarrow> s \<in> set names)"

definition latest_rows_with ::
  "('t row list \<Rightarrow> 't row list) \<Rightarrow> string list \<Rightarrow> 't row list \<Rightarrow> 't row list" where
  "latest_rows_with srt names rs =
     drop_duplicates_last user_id (srt (filter (in_group names) rs))"

definition latest_rows :: "string list \<Rightarrow> ('t::linorder) row list \<Rightarrow> 't row list" where
  "latest_rows names rs = latest_rows_with (sort_key created_at) names rs"

definition latest_answers ::
  "string list \<Rightarrow> ('t::linorder) row list \<Rightarrow> (cell \<times> cell) list" where
  "latest_answers names rs = map (\<lambda>r. (user_id r, answer r)) (latest_rows names rs)"

record merged_row =
  uid :: cell
  player_type :: cell
  evacuate_choice :: cell

definition merge_inner :: "(cell \<times> cell) list \<Rightarrow> (cell \<times> cell) list \<Rightarrow> merged_row list" where
  "merge_inner ls rs =
     concat (map (\<lambda>l. map (\<lambda>r. \<lparr>uid = fst l, player_type = snd l, evacuate_choice = snd r\<rparr>)
                          (filter (\<lambda>r. fst r = fst l) rs)) ls)"

definition player_groups :: "string list" where
  "player_groups = [''player_select'', ''playerselect'']"

definition evac_groups :: "string list" where
  "evac_groups = [''evacuate_select'']"

definition latest_answers_with ::
  "('t row list \<Rightarrow> 't row list) \<Rightarrow> string list \<Rightarrow> 't row list \<Rightarrow> (cell \<times> cell) list" where
  "latest_answers_with srt names rs =
     map (\<lambda>r. (user_id r, answer r)) (latest_rows_with srt names rs)"

definition extract_and_merge_with ::
  "('t row list \<Rightarrow> 't row list) \<Rightarrow> 't row list \<Rightarrow> merged_row list" where
  "extract_and_merge_with srt rs =
     (let rs' = map replace_answer rs
      in merge_inner (latest_answers_with srt player_groups rs')
           (latest_answers_with srt evac_groups rs'))"

definition extract_and_merge :: "('t::linorder) row list \<Rightarrow> merged_row list" where
  "extract_and_merge rs =
     (let rs' = map replace_answer rs
      in merge_inner (latest_answers player_groups rs') (latest_answers evac_groups rs'))"

definition checked_merge ::
  "('t row list \<Rightarrow> 't row list) \<Rightarrow> 't frame \<Rightarrow> error + merged_row list" where
  "checked_merge srt df =
     bind_err (require ''answer'' df) (\<lambda>_.
     bind_err (require ''step_name'' df) (\<lambda>_.
     bind_err (require ''user_id'' df) (\<lambda>_.
     Inr (extract_and_merge_with srt (rows df)))))"

definition time_window ::
  "parser \<Rightarrow> clock \<Rightarrow> bool \<Rightarrow> string option \<Rightarrow> string option \<Rightarrow> tstamp row list \<Rightarrow>
   error + tstamp row list" where
  "time_window parse clk only_today start_time end_time rs =
     bind_err (with_bound parse filter_from start_time
                 (if only_today then filter_today (today_utc clk) rs else rs)) (\<lambda>rs1.
     with_bound parse filter_until end_time rs1)"

definition process_data_with ::
  "parser \<Rightarrow> (tstamp row list \<Rightarrow> tstamp row list) \<Rightarrow> clock \<Rightarrow> cell frame \<Rightarrow> bool \<Rightarrow>
   string option \<Rightarrow> string option \<Rightarrow> error + merged_row list option" where
  "process_data_with parse srt clk csv_file only_today start_time end_time =
     bind_err (read_csv csv_file) (\<lambda>csv.
     bind_err (to_datetime parse csv) (\<lambda>df.
     bind_err (time_window parse clk only_today start_time end_time (rows df)) (\<lambda>rs.
     if rs = [] then Inr None
     else bind_err (checked_merge srt (with_rows df rs)) (\<lambda>m. Inr (Some m)))))"

definition process_data ::
  "parser \<Rightarrow> clock \<Rightarrow> cell frame \<Rightarrow> bool \<Rightarrow> string option \<Rightarrow> string option \<Rightarrow>
   error + merged_row list option" where
  "process_data parse clk csv_file only_today start_time end_time =
     process_data_with parse (sort_key created_at) clk csv_file only_today start_time end_time"

definition process_data_v1 ::
  "parser \<Rightarrow> (tstamp row list \<Rightarrow> tstamp row list) \<Rightarrow> clock \<Rightarrow> cell frame \<Rightarrow> bool \<Rightarrow>
   error + merged_row list option" where
  "process_data_v1 parse srt clk csv_file only_today =
     bind_err (read_csv csv_file) (\<lambda>csv.
     bind_err (to_datetime_v1 parse csv) (\<lambda>df.
     let rs = (if only_today then filter_today (today_local clk) (rows df) else rows df)
     in if only_today \<and> rs = [] then Inr None
        else bind_err (checked_merge srt (with_rows df rs)) (\<lambda>m. Inr (Some m))))"

text \<open>
  What the extraction promises, as predicates of the rows: \<open>latest_of names rs r\<close> says
  that \<open>r\<close> is a row of \<open>rs\<close> in the question group with no later row of the same
  user in the group; \<open>in_window\<close> says that a timestamp passes the filters of
  \<^verbatim>\<open>--today\<close>, \<^verbatim>\<open>--start\<close> and \<^verbatim>\<open>--end\<close>; \<open>bad_bound\<close> says that a bound
  is given and does not parse.
\<close>

definition latest_of :: "string list \<Rightarrow> ('t::linorder) row list \<Rightarrow> 't row \<Rightarrow> bool" where
  "latest_of names rs r \<longleftrightarrow>
     r \<in> set rs \<and> in_group names r \<and>
     (\<forall>r' \<in> set rs. in_group names r' \<and> user_id r' = user_id r \<longrightarrow> created_at r' \<le> created_at r)"

definition bound_ok :: "parser \<Rightarrow> (tstamp \<Rightarrow> tstamp \<Rightarrow> bool) \<Rightarrow> string option \<Rightarrow> tstamp \<Rightarrow> bool" where
  "bound_ok parse cmp arg t =
     (case arg of None \<Rightarrow> True | Some s \<Rightarrow> s = [] \<or> cmp t (utc_cell (parse s)))"

definition bad_bound :: "parser \<Rightarrow> string option \<Rightarrow> bool" where
  "bad_bound parse arg = (case arg of None \<Rightarrow> False | Some s \<Rightarrow> s \<noteq> [] \<and> parse s = Invalid)"

definition in_window ::
  "parser \<Rightarrow> clock \<Rightarrow> bool \<Rightarrow> string option \<Rightarrow> string option \<Rightarrow> tstamp \<Rightarrow> bool" where
  "in_window parse clk only_today start_time end_time t \<longleftrightarrow>
     (only_today \<longrightarrow> date_of t = Some (today_utc clk)) \<and>
     bound_ok parse ts_ge start_time t \<and> bound_ok parse ts_le end_time t"

text \<open>
  The run of \<^verbatim>\<open>process_data\<close> by cases, in the order the code raises: \<open>stamped\<close>
  are the rows with their timestamps parsed, \<open>selected\<close> those inside the window.
\<close>

definition stamped :: "parser \<Rightarrow> cell frame \<Rightarrow> tstamp row list" where
  "stamped parse csv =
     map (\<lambda>r. set_created_at (utc_cell (parse_cell parse (created_at r))) r) (rows csv)"

definition selected ::
  "parser \<Rightarrow> clock \<Rightarrow> bool \<Rightarrow> string option \<Rightarrow> string option \<Rightarrow> cell frame \<Rightarrow> tstamp row list" where
  "selected parse clk only_today start_time end_time csv =
     filter (\<lambda>r. in_window parse clk only_today start_time end_time (created_at r))
       (stamped parse csv)"

lemmas latest_defs =
  latest_rows_def latest_rows_with_def latest_answers_def latest_answers_with_def in_group_def
  player_groups_def evac_groups_def

lemmas process_defs =
  process_data_def process_data_with_def process_data_v1_def time_window_def checked_merge_def
  extract_and_merge_def extract_and_merge_with_def
  merge_inner_def replace_answer_def to_datetime_def to_datetime_v1_def parsed_column_def
  window_defs latest_defs today_utc_def today_local_def
  stamped_def selected_def in_window_def bound_ok_def bad_bound_def

subsection \<open>Answer normalisation\<close>

lemma replace_answer_fields [simp]:
  "user_id (replace_answer r) = user_id r"
  "step_name (replace_answer r) = step_name r"
  "created_at (replace_answer r) = created_at r"
  by (simp_all add: replace_answer_def)

lemma replace_answer_answer:
  "answer (replace_answer r) =
     (if answer r = Some ''Petowner'' then Some ''Pet Owner'' else answer r)"
  by (simp add: replace_answer_def)

lemma replace_answer_idem [simp]: "replace_answer (replace_answer r) = replace_answer r"
  by (simp add: replace_answer_def)

lemma in_group_replace_answer [simp]: "in_group names (replace_answer r) = in_group names r"
  by (simp add: in_group_def)

subsection \<open>One row per user, for every sort\<close>

lemma latest_rows_with_distinct:
  "distinct (map user_id (latest_rows_with srt names rs))"
  by (simp add: latest_rows_with_def pd_simps)

lemma latest_rows_with_subset:
  assumes "sorts_by key srt"
  shows "set (latest_rows_with srt names rs) \<subseteq> {r \<in> set rs. in_group names r}"
  using set_drop_duplicates_last_subset [of user_id "srt (filter (in_group names) rs)"]
  by (auto simp: latest_rows_with_def sorts_by_set [OF assms])

lemma latest_rows_with_users:
  assumes "sorts_by key srt"
  shows "user_id ` set (latest_rows_with srt names rs) = user_id ` {r \<in> set rs. in_group names r}"
  by (auto simp: latest_rows_with_def pd_simps sorts_by_set [OF assms])

lemma latest_rows_with_max:
  assumes srt: "sorts_by created_at srt"
    and r: "r \<in> set (latest_rows_with srt names rs)"
    and r': "r' \<in> set rs" "in_group names r'" "user_id r' = user_id r"
  shows "created_at r' \<le> created_at r"
proof -
  let ?S = "srt (filter (in_group names) rs)"
  from r have "last (filter (\<lambda>y. user_id y = user_id r) ?S) = r"
    by (simp add: latest_rows_with_def drop_duplicates_last_is_last)
  moreover from r' have "r' \<in> set ?S"
    by (simp add: sorts_by_set [OF srt])
  moreover have "sorted (map created_at ?S)"
    by (rule sorts_by_sorted [OF srt])
  ultimately show ?thesis
    using sorted_last_filter_max [of created_at ?S r' "\<lambda>y. user_id y = user_id r"] r'(3)
    by simp
qed

subsection \<open>The stable sort: tie-break and idempotence\<close>

lemma latest_rows_distinct: "distinct (map user_id (latest_rows names rs))"
  by (simp add: latest_rows_def latest_rows_with_distinct)

lemma latest_rows_subset: "set (latest_rows names rs) \<subseteq> {r \<in> set rs. in_group names r}"
  unfolding latest_rows_def by (rule latest_rows_with_subset) (rule sorts_by_sort_key)

lemma latest_rows_users:
  "user_id ` set (latest_rows names rs) = user_id ` {r \<in> set rs. in_group names r}"
  unfolding latest_rows_def by (rule latest_rows_with_users) (rule sorts_by_sort_key)

lemma latest_rows_sorted: "sorted (map created_at (latest_rows names rs))"
  by (simp add: latest_rows_def latest_rows_with_def sorted_drop_duplicates_last)

lemma latest_answers_users:
  "fst ` set (latest_answers names rs) = user_id ` {r \<in> set rs. in_group names r}"
proof -
  have "fst ` set (latest_answers names rs) = user_id ` set (latest_rows names rs)"
    by (force simp: latest_answers_def)
  then show ?thesis by (simp add: latest_rows_users)
qed

lemma latest_answers_distinct: "distinct (map fst (latest_answers names rs))"
  using latest_rows_distinct [of names rs] by (simp add: latest_answers_def comp_def)

subsection \<open>The inner join\<close>

lemma uid_merge_inner:
  "uid ` set (merge_inner ls rs) = fst ` set ls \<inter> fst ` set rs"
  by (force simp: merge_inner_def)

lemma merge_inner_Nil [simp]: "merge_inner [] rs = []" "merge_inner ls [] = []"
  by (simp_all add: merge_inner_def)

lemma merge_inner_Cons:
  "merge_inner (l # ls) rs =
     map (\<lambda>r. \<lparr>uid = fst l, player_type = snd l, evacuate_choice = snd r\<rparr>)
       (filter (\<lambda>r. fst r = fst l) rs) @ merge_inner ls rs"
  by (simp add: merge_inner_def)

lemma merge_inner_member:
  "m \<in> set (merge_inner ls rs) \<longleftrightarrow>
   (uid m, player_type m) \<in> set ls \<and> (uid m, evacuate_choice m) \<in> set rs"
  by (cases m) (force simp: merge_inner_def)

lemma map_uid_merge_inner_Cons:
  "map uid (merge_inner (l # ls) rs) =
     replicate (length (filter (\<lambda>r. fst r = fst l) rs)) (fst l) @ map uid (merge_inner ls rs)"
  by (simp add: merge_inner_Cons map_replicate_const comp_def)

lemma distinct_filter_key_le1:
  "distinct (map fst rs) \<Longrightarrow> length (filter (\<lambda>r. fst r = k) rs) \<le> 1"
  by (induction rs) (auto simp: filter_empty_conv image_iff)

lemma merge_inner_distinct:
  assumes "distinct (map fst ls)" and rs: "distinct (map fst rs)"
  shows "distinct (map uid (merge_inner ls rs))"
  using assms(1)
proof (induction ls)
  case (Cons l ls)
  have "length (filter (\<lambda>r. fst r = fst l) rs) \<le> 1"
    by (rule distinct_filter_key_le1 [OF rs])
  then have "distinct (replicate (length (filter (\<lambda>r. fst r = fst l) rs)) (fst l))"
    by (cases "length (filter (\<lambda>r. fst r = fst l) rs)") auto
  moreover have "fst l \<notin> uid ` set (merge_inner ls rs)"
    using Cons.prems by (auto simp: uid_merge_inner)
  ultimately show ?case
    using Cons by (auto simp: map_uid_merge_inner_Cons image_iff)
qed simp

lemma users_replace_answer:
  "user_id ` {r \<in> replace_answer ` set rs. in_group names r} =
   user_id ` {r \<in> set rs. in_group names r}"
  by (force simp: image_iff)

subsection \<open>The stable instances\<close>

lemma latest_answers_stable:
  "latest_answers names rs = latest_answers_with (sort_key created_at) names rs"
  by (simp add: latest_answers_def latest_answers_with_def latest_rows_def)

lemma extract_and_merge_stable:
  "extract_and_merge rs = extract_and_merge_with (sort_key created_at) rs"
  by (simp add: extract_and_merge_def extract_and_merge_with_def latest_answers_stable)

subsection \<open>Soundness of the extraction and of the window\<close>

lemma latest_rows_with_latest_of:
  assumes "sorts_by created_at srt" and "r \<in> set (latest_rows_with srt names rs)"
  shows "latest_of names rs r"
  using latest_rows_with_subset [OF assms(1), of names rs] latest_rows_with_max [OF assms] assms(2)
  unfolding latest_of_def by blast

lemma latest_of_replace_answer:
  assumes "latest_of names (map replace_answer rs) r"
  obtains r0 where "latest_of names rs r0" and "r = replace_answer r0"
proof -
  from assms obtain r0 where r0: "r0 \<in> set rs" "r = replace_answer r0"
    by (auto simp: latest_of_def)
  with assms have "latest_of names rs r0"
    by (auto simp: latest_of_def)
  with r0 that show ?thesis by blast
qed

lemma latest_answers_with_member:
  assumes "sorts_by created_at srt"
    and "(u, a) \<in> set (latest_answers_with srt names (map replace_answer rs))"
  obtains r where "latest_of names rs r" and "user_id r = u" and "answer (replace_answer r) = a"
proof -
  from assms(2) obtain x where x: "x \<in> set (latest_rows_with srt names (map replace_answer rs))"
    "user_id x = u" "answer x = a"
    by (auto simp: latest_answers_with_def)
  from latest_rows_with_latest_of [OF assms(1) x(1)] obtain r
    where "latest_of names rs r" "x = replace_answer r"
    by (rule latest_of_replace_answer)
  with x that show ?thesis by simp
qed

lemma latest_answers_with_distinct: "distinct (map fst (latest_answers_with srt names rs))"
  using latest_rows_with_distinct [of srt names rs] by (simp add: latest_answers_with_def comp_def)

lemma extract_and_merge_with_distinct: "distinct (map uid (extract_and_merge_with srt rs))"
  by (simp add: extract_and_merge_with_def Let_def merge_inner_distinct latest_answers_with_distinct)

lemma extract_and_merge_with_sound:
  assumes "sorts_by created_at srt" and "m \<in> set (extract_and_merge_with srt rs)"
  shows "\<exists>p e. latest_of player_groups rs p \<and> latest_of evac_groups rs e \<and>
           user_id p = uid m \<and> user_id e = uid m \<and>
           player_type m = answer (replace_answer p) \<and>
           evacuate_choice m = answer (replace_answer e)"
proof -
  from assms(2) have
    "(uid m, player_type m) \<in> set (latest_answers_with srt player_groups (map replace_answer rs))"
    "(uid m, evacuate_choice m) \<in> set (latest_answers_with srt evac_groups (map replace_answer rs))"
    by (simp_all add: extract_and_merge_with_def Let_def merge_inner_member)
  then show ?thesis
    by (elim latest_answers_with_member [OF assms(1)]) metis
qed

lemma with_bound_cases:
  "with_bound parse filter_from arg rs =
     (if bad_bound parse arg then Inl ValueError
      else Inr (filter (\<lambda>r. bound_ok parse ts_ge arg (created_at r)) rs))"
  "with_bound parse filter_until arg rs =
     (if bad_bound parse arg then Inl ValueError
      else Inr (filter (\<lambda>r. bound_ok parse ts_le arg (created_at r)) rs))"
  by (auto simp: with_bound_def bad_bound_def bound_ok_def window_defs
      split: option.splits parsed.splits)

lemma time_window_cases:
  "time_window parse clk only_today start_time end_time rs =
     (if bad_bound parse start_time \<or> bad_bound parse end_time then Inl ValueError
      else Inr (filter (\<lambda>r. in_window parse clk only_today start_time end_time (created_at r)) rs))"
  by (auto simp: time_window_def with_bound_cases in_window_def filter_today_def
      intro: filter_cong)

lemma time_window_Inr:
  assumes "time_window parse clk only_today start_time end_time rs = Inr rs'"
  shows "rs' = filter (\<lambda>r. in_window parse clk only_today start_time end_time (created_at r)) rs"
  using assms by (simp add: time_window_cases split: if_splits)

lemma checked_merge_cases:
  "checked_merge srt df =
     (if ''answer'' \<notin> set (columns df) then Inl (KeyError ''answer'')
      else if ''step_name'' \<notin> set (columns df) then Inl (KeyError ''step_name'')
      else if ''user_id'' \<notin> set (columns df) then Inl (KeyError ''user_id'')
      else Inr (extract_and_merge_with srt (rows df)))"
  by (simp add: checked_merge_def)

lemma to_datetime_cases:
  "to_datetime parse csv =
     (if ''created_at'' \<notin> set (columns csv) then Inl (KeyError ''created_at'')
      else if Invalid \<in> set (parsed_column parse csv) then Inl ValueError
      else Inr (with_rows csv (stamped parse csv)))"
  by (simp add: to_datetime_def stamped_def)

lemma process_data_with_cases:
  "process_data_with parse srt clk csv only_today start_time end_time =
     (if columns csv = [] then Inl EmptyDataError
      else if ''created_at'' \<notin> set (columns csv) then Inl (KeyError ''created_at'')
      else if Invalid \<in> set (parsed_column parse csv) then Inl ValueError
      else if bad_bound parse start_time \<or> bad_bound parse end_time then Inl ValueError
      else if selected parse clk only_today start_time end_time csv = [] then Inr None
      else if ''answer'' \<notin> set (columns csv) then Inl (KeyError ''answer'')
      else if ''step_name'' \<notin> set (columns csv) then Inl (KeyError ''step_name'')
      else if ''user_id'' \<notin> set (columns csv) then Inl (KeyError ''user_id'')
      else Inr (Some (extract_and_merge_with srt
                        (selected parse clk only_today start_time end_time csv))))"
  by (simp add: process_data_with_def to_datetime_cases time_window_cases checked_merge_cases
      selected_def)

lemma process_data_with_Some:
  assumes "process_data_with parse srt clk csv only_today start_time end_time = Inr (Some ms)"
  obtains df where "to_datetime parse csv = Inr df"
    and "ms = extract_and_merge_with srt
           (filter (\<lambda>r. in_window parse clk only_today start_time end_time (created_at r)) (rows df))"
proof -
  from assms have "to_datetime parse csv = Inr (with_rows csv (stamped parse csv))"
    and "ms = extract_and_merge_with srt (selected parse clk only_today start_time end_time csv)"
    by (simp_all add: process_data_with_cases to_datetime_cases split: if_splits)
  with that show ?thesis
    by (simp add: selected_def)
qed

lemma uid_extract_and_merge_with:
  assumes "sorts_by created_at srt"
  shows "uid ` set (extract_and_merge_with srt rs) =
     user_id ` {r \<in> set rs. in_group player_groups r} \<inter>
     user_id ` {r \<in> set rs. in_group evac_groups r}"
proof -
  have "fst ` set (latest_answers_with srt names xs) = user_id ` {r \<in> set xs. in_group names r}"
    for names and xs :: "'a row list"
    using latest_rows_with_users [OF assms, of names xs]
    by (simp add: latest_answers_with_def image_image)
  then show ?thesis
    by (simp add: extract_and_merge_with_def Let_def uid_merge_inner users_replace_answer)
qed

subsection \<open>Properties\<close>

text \<open>
  C2. Latest-response extraction is sound for every correct sort, stable or not: the
  result has one row per user, every row of it is a row of the input that belongs to
  the question group, and no row of the same user in the group has a later timestamp.
\<close>

theorem latest_rows_with_sound:
  assumes "sorts_by created_at srt"
  shows "distinct (map user_id (latest_rows_with srt names rs)) \<and>
         (\<forall>r \<in> set (latest_rows_with srt names rs).
            r \<in> set rs \<and> in_group names r \<and>
            (\<forall>r' \<in> set rs. in_group names r' \<and> user_id r' = user_id r \<longrightarrow>
               created_at r' \<le> created_at r))"
  using latest_rows_with_distinct [of srt names rs] latest_rows_with_subset [OF assms, of names rs]
    latest_rows_with_max [OF assms]
  by blast

theorem latest_rows_with_sound_witness:
  "sorts_by created_at (sort_key created_at :: tstamp row list \<Rightarrow> tstamp row list) \<and>
   latest_rows_with (sort_key created_at) [''player_select'']
     [game_row ''u1'' ''player_select'' ''Renter'' (At 5),
      game_row ''u2'' ''player_select'' ''Pet Owner'' (At 3),
      game_row ''u1'' ''player_select'' ''Home Owner'' (At 2)] =
     [game_row ''u2'' ''player_select'' ''Pet Owner'' (At 3),
      game_row ''u1'' ''player_select'' ''Renter'' (At 5)]"
  using latest_rows_with_sound [OF sorts_by_sort_key, of "[''player_select'']"
      "[game_row ''u1'' ''player_select'' ''Renter'' (At 5),
        game_row ''u2'' ''player_select'' ''Pet Owner'' (At 3),
        game_row ''u1'' ''player_select'' ''Home Owner'' (At 2)]"]
  by (simp add: latest_defs game_row_def)

text \<open>
  C3. Latest-response extraction is idempotent: extracting from its own result changes
  nothing.
\<close>

theorem latest_rows_idem: "latest_rows names (latest_rows names rs) = latest_rows names rs"
proof -
  let ?L = "latest_rows names rs"
  have "filter (in_group names) ?L = ?L"
    using latest_rows_subset [of names rs] by (auto intro: filter_True)
  moreover have "sort_key created_at ?L = ?L"
    by (simp add: sort_key_id_if_sorted latest_rows_sorted)
  moreover have "drop_duplicates_last user_id ?L = ?L"
    by (simp add: drop_duplicates_last_distinct_id latest_rows_distinct)
  ultimately show ?thesis
    by (simp add: latest_rows_def [of names ?L] latest_rows_with_def)
qed

text \<open>
  C4. The merged table of \<^verbatim>\<open>process_data\<close> holds exactly the users who answered
  both a player-type step and the evacuation step, each of them once.
\<close>

theorem extract_and_merge_users:
  "uid ` set (extract_and_merge rs) =
     user_id ` {r \<in> set rs. in_group player_groups r} \<inter>
     user_id ` {r \<in> set rs. in_group evac_groups r} \<and>
   distinct (map uid (extract_and_merge rs))"
  by (simp add: extract_and_merge_def Let_def uid_merge_inner latest_answers_users
      users_replace_answer merge_inner_distinct latest_answers_distinct)

text \<open>
  C8. Extraction yields exactly one row for a user who answered within the group and
  none for any other user.
\<close>

theorem latest_exactly_one_row_per_user:
  "length (filter (\<lambda>r. user_id r = u) (latest_rows names rs)) =
     (if \<exists>r \<in> set rs. in_group names r \<and> user_id r = u then 1 else 0)"
proof -
  have "u \<in> user_id ` set (latest_rows names rs) \<longleftrightarrow>
        (\<exists>r \<in> set rs. in_group names r \<and> user_id r = u)"
    by (auto simp: latest_rows_users)
  then show ?thesis
    by (simp add: length_filter_distinct_key [OF latest_rows_distinct])
qed

text \<open>
  C11. With the stable sort, ties are broken by input order: the row kept for a user is
  the last row of the input among that user's rows in the group that carry the kept
  timestamp.
\<close>

theorem latest_rows_tie_break:
  assumes r: "r \<in> set (latest_rows names rs)"
  shows "last (filter (\<lambda>y. user_id y = user_id r \<and> created_at y = created_at r)
           (filter (in_group names) rs)) = r"
proof -
  let ?G = "filter (in_group names) rs"
  let ?U = "\<lambda>y. user_id y = user_id r"
  let ?K = "\<lambda>y. created_at y = created_at r"
  from r have last: "last (filter ?U (sort_key created_at ?G)) = r"
    by (simp add: latest_rows_def latest_rows_with_def drop_duplicates_last_is_last)
  from r have "r \<in> set ?G"
    using latest_rows_subset [of names rs] by auto
  then have ne: "filter ?U (sort_key created_at ?G) \<noteq> []"
    by (auto simp: filter_empty_conv)
  have "filter (\<lambda>y. ?U y \<and> ?K y) ?G = filter ?U (filter ?K ?G)"
    by (auto intro!: filter_cong)
  also have "\<dots> = filter ?U (filter ?K (sort_key created_at ?G))"
    by (simp only: sort_key_stable)
  also have "\<dots> = filter ?K (filter ?U (sort_key created_at ?G))"
    by (auto intro!: filter_cong)
  finally have eq: "filter (\<lambda>y. ?U y \<and> ?K y) ?G = filter ?K (filter ?U (sort_key created_at ?G))" .
  have "last (filter ?K (filter ?U (sort_key created_at ?G))) = last (filter ?U (sort_key created_at ?G))"
    using ne last by (intro last_filter_last) simp_all
  then show ?thesis
    by (simp only: eq last)
qed

theorem latest_rows_tie_break_witness:
  "latest_rows [''evacuate_select'']
     [game_row ''u1'' ''evacuate_select'' ''Yep, evacuate!'' (At 7),
      game_row ''u1'' ''evacuate_select'' ''Heck no! dont evacuate'' (At 7)] =
     [game_row ''u1'' ''evacuate_select'' ''Heck no! dont evacuate'' (At 7 :: tstamp)]"
  using latest_rows_tie_break [of "game_row ''u1'' ''evacuate_select'' ''Heck no! dont evacuate'' (At 7)"
      "[''evacuate_select'']"
      "[game_row ''u1'' ''evacuate_select'' ''Yep, evacuate!'' (At 7),
        game_row ''u1'' ''evacuate_select'' ''Heck no! dont evacuate'' (At 7)]"]
  by (simp add: latest_defs game_row_def)

text \<open>
  C16. \<^verbatim>\<open>process_data\<close> is sound from the file to the merged table, for every
  correct sort: when it returns a table, the timestamp column parsed, no user occurs
  twice in the table, and every line of it joins two rows of the file that lie inside
  the time window, one of a player-type step and one of the evacuation step of the same
  user, each the latest such row of that user inside the window, with the answers
  normalised.
\<close>

theorem process_data_sound:
  assumes "sorts_by created_at srt"
    and "process_data_with parse srt clk csv only_today start_time end_time = Inr (Some ms)"
  shows "\<exists>df. to_datetime parse csv = Inr df \<and> distinct (map uid ms) \<and>
     (\<forall>m \<in> set ms. \<exists>p e.
        latest_of player_groups
          (filter (\<lambda>r. in_window parse clk only_today start_time end_time (created_at r)) (rows df)) p \<and>
        latest_of evac_groups
          (filter (\<lambda>r. in_window parse clk only_today start_time end_time (created_at r)) (rows df)) e \<and>
        user_id p = uid m \<and> user_id e = uid m \<and>
        player_type m = answer (replace_answer p) \<and>
        evacuate_choice m = answer (replace_answer e))"
proof -
  from assms(2) obtain df where df: "to_datetime parse csv = Inr df"
    and ms: "ms = extract_and_merge_with srt
      (filter (\<lambda>r. in_window parse clk only_today start_time end_time (created_at r)) (rows df))"
    by (rule process_data_with_Some)
  from df show ?thesis
    unfolding ms using extract_and_merge_with_distinct extract_and_merge_with_sound [OF assms(1)]
    by blast
qed

theorem process_data_sound_witness:
  "process_data_with
     (table_parser [(''t1'', Stamp 1 Naive), (''t2'', Stamp 2 Naive), (''t3'', Stamp 3 Naive),
                    (''t4'', Stamp 4 Naive)])
     (sort_key created_at) \<lparr>utc_now = 0, local_offset = 0\<rparr>
     \<lparr>columns = game_columns,
      rows = [game_row ''u1'' ''playerselect'' ''Petowner'' (Some ''t2''),
              game_row ''u1'' ''player_select'' ''Renter'' (Some ''t1''),
              game_row ''u1'' ''evacuate_select'' ''Yep, evacuate!'' (Some ''t2''),
              game_row ''u1'' ''evacuate_select'' ''Heck no! dont evacuate'' (Some ''t4''),
              game_row ''u2'' ''player_select'' ''Home Owner'' (Some ''t2'')]\<rparr>
     False (Some ''t1'') (Some ''t3'') =
   Inr (Some [\<lparr>uid = Some ''u1'', player_type = Some ''Pet Owner'',
               evacuate_choice = Some ''Yep, evacuate!''\<rparr>])"
  using process_data_sound [OF sorts_by_sort_key, of
      "table_parser [(''t1'', Stamp 1 Naive), (''t2'', Stamp 2 Naive), (''t3'', Stamp 3 Naive),
                     (''t4'', Stamp 4 Naive)]"
      "\<lparr>utc_now = 0, local_offset = 0\<rparr>"
      "\<lparr>columns = game_columns,
        rows = [game_row ''u1'' ''playerselect'' ''Petowner'' (Some ''t2''),
                game_row ''u1'' ''player_select'' ''Renter'' (Some ''t1''),
                game_row ''u1'' ''evacuate_select'' ''Yep, evacuate!'' (Some ''t2''),
                game_row ''u1'' ''evacuate_select'' ''Heck no! dont evacuate'' (Some ''t4''),
                game_row ''u2'' ''player_select'' ''Home Owner'' (Some ''t2'')]\<rparr>"
      False "Some ''t1''" "Some ''t3''"]
  by (simp add: process_defs example_defs set_created_at_def)

text \<open>
  C17. \<^verbatim>\<open>process_data\<close> is complete, for every correct sort: when it returns a table,
  the users of the table are exactly the users who have a player-type row and an
  evacuation row inside the time window.
\<close>

theorem process_data_complete:
  assumes "sorts_by created_at srt"
    and "process_data_with parse srt clk csv only_today start_time end_time = Inr (Some ms)"
  shows "uid ` set ms =
     user_id ` {r \<in> set (selected parse clk only_today start_time end_time csv).
                  in_group player_groups r} \<inter>
     user_id ` {r \<in> set (selected parse clk only_today start_time end_time csv).
                  in_group evac_groups r}"
proof -
  from assms(2) have
    "ms = extract_and_merge_with srt (selected parse clk only_today start_time end_time csv)"
    by (simp add: process_data_with_cases split: if_splits)
  then show ?thesis
    by (simp only: uid_extract_and_merge_with [OF assms(1)])
qed

theorem process_data_complete_witness:
  "uid ` set [\<lparr>uid = Some ''u1'', player_type = Some ''Renter'',
               evacuate_choice = Some ''Yep, evacuate!''\<rparr>] =
   user_id ` {r \<in> set (selected (table_parser [(''t1'', Stamp 1 Naive), (''t2'', Stamp 2 Naive)])
                          \<lparr>utc_now = 0, local_offset = 0\<rparr> False None (Some ''t1'')
                          \<lparr>columns = game_columns,
                            rows = [game_row ''u1'' ''player_select'' ''Renter'' (Some ''t1''),
                                    game_row ''u1'' ''evacuate_select'' ''Yep, evacuate!'' (Some ''t1''),
                                    game_row ''u2'' ''player_select'' ''Renter'' (Some ''t1''),
                                    game_row ''u2'' ''evacuate_select'' ''Yep, evacuate!'' (Some ''t2'')]\<rparr>).
                in_group player_groups r} \<inter>
   user_id ` {r \<in> set (selected (table_parser [(''t1'', Stamp 1 Naive), (''t2'', Stamp 2 Naive)])
                          \<lparr>utc_now = 0, local_offset = 0\<rparr> False None (Some ''t1'')
                          \<lparr>columns = game_columns,
                            rows = [game_row ''u1'' ''player_select'' ''Renter'' (Some ''t1''),
                                    game_row ''u1'' ''evacuate_select'' ''Yep, evacuate!'' (Some ''t1''),
                                    game_row ''u2'' ''player_select'' ''Renter'' (Some ''t1''),
                                    game_row ''u2'' ''evacuate_select'' ''Yep, evacuate!'' (Some ''t2'')]\<rparr>).
                in_group evac_groups r}"
  by (rule process_data_complete [OF sorts_by_sort_key])
     (simp add: process_defs example_defs set_created_at_def)

text \<open>
  C21. \<^verbatim>\<open>process_data\<close> returns (a table or the "no data" result) exactly when the
  file has a header line with the column \<^verbatim>\<open>created_at\<close>, every present timestamp
  parses, both bounds parse if they are given, and either no row lies inside the window
  or the columns \<^verbatim>\<open>answer\<close>, \<^verbatim>\<open>step_name\<close> and \<^verbatim>\<open>user_id\<close> are present. In every
  other case it raises: one timestamp that does not parse loses the whole run.
\<close>

theorem process_data_returns_iff:
  "(\<exists>res. process_data_with parse srt clk csv only_today start_time end_time = Inr res) \<longleftrightarrow>
   columns csv \<noteq> [] \<and> ''created_at'' \<in> set (columns csv) \<and>
   (\<forall>r \<in> set (rows csv). \<forall>s. created_at r = Some s \<longrightarrow> parse s \<noteq> Invalid) \<and>
   \<not> bad_bound parse start_time \<and> \<not> bad_bound parse end_time \<and>
   (selected parse clk only_today start_time end_time csv = [] \<or>
    {''answer'', ''step_name'', ''user_id''} \<subseteq> set (columns csv))"
proof -
  have "Invalid \<in> set (parsed_column parse csv) \<longleftrightarrow>
        \<not> (\<forall>r \<in> set (rows csv). \<forall>s. created_at r = Some s \<longrightarrow> parse s \<noteq> Invalid)"
    by (auto simp: parsed_column_def parse_cell_def image_iff split: option.splits) metis+
  then show ?thesis
    by (simp add: process_data_with_cases)
qed

theorem process_data_returns_iff_witness:
  "process_data_with (table_parser [(''t1'', Stamp 1 Naive)]) (sort_key created_at)
     \<lparr>utc_now = 0, local_offset = 0\<rparr>
     \<lparr>columns = game_columns,
      rows = [game_row ''u1'' ''player_select'' ''Renter'' (Some ''t1''),
              game_row ''u1'' ''evacuate_select'' ''Yep, evacuate!'' (Some ''yesterday'')]\<rparr>
     False None None = Inl ValueError"
  using process_data_returns_iff [of "table_parser [(''t1'', Stamp 1 Naive)]" "sort_key created_at"
      "\<lparr>utc_now = 0, local_offset = 0\<rparr>"
      "\<lparr>columns = game_columns,
        rows = [game_row ''u1'' ''player_select'' ''Renter'' (Some ''t1''),
                game_row ''u1'' ''evacuate_select'' ''Yep, evacuate!'' (Some ''yesterday'')]\<rparr>"
      False None None]
  by (simp add: process_data_with_cases parse_defs example_defs)

text \<open>
  C34. The two versions of \<^verbatim>\<open>process_data\<close> agree only under conditions on the
  data and on the clock. The first version keeps the wall-clock time of the column and
  takes today's date from the local clock; the current one converts to UTC and takes the
  date in UTC. When every timestamp of the file is written without a zone or in UTC, no
  start or end bound is given, the local date equals the date in UTC whenever
  \<^verbatim>\<open>--today\<close> is set, and the file has rows or \<^verbatim>\<open>--today\<close> is set, both versions
  return the same.
\<close>

theorem process_data_v1_agrees:
  assumes "column_zone (parsed_column parse csv) = Some z" and "z = Naive \<or> z = Offset 0"
    and "only_today \<longrightarrow> today_local clk = today_utc clk"
    and "only_today \<or> rows csv \<noteq> []"
  shows "process_data_with parse srt clk csv only_today None None =
         process_data_v1 parse srt clk csv only_today"
proof (cases "read_csv csv")
  case (Inl e)
  then show ?thesis
    by (simp add: process_data_with_def process_data_v1_def)
next
  case csv: (Inr csv')
  then have [simp]: "csv' = csv"
    by (auto simp: read_csv_def split: if_splits)
  note v1 = to_datetime_v1_agrees [OF assms(1,2)]
  show ?thesis
  proof (cases "to_datetime parse csv")
    case (Inl e)
    with csv v1 show ?thesis
      by (simp add: process_data_with_def process_data_v1_def)
  next
    case (Inr df)
    then have "rows df = [] \<longleftrightarrow> rows csv = []"
      using to_datetime_length [OF Inr] by auto
    with Inr csv v1 assms(3,4) show ?thesis
      by (auto simp: process_data_with_def process_data_v1_def time_window_def Let_def)
  qed
qed

theorem process_data_v1_agrees_witness:
  "process_data_with (table_parser [(''t1'', Stamp 1 (Offset 0))]) (sort_key created_at)
     \<lparr>utc_now = 0, local_offset = 0\<rparr>
     \<lparr>columns = game_columns, rows = [game_row ''u1'' ''player_select'' ''Renter'' (Some ''t1'')]\<rparr>
     False None None =
   process_data_v1 (table_parser [(''t1'', Stamp 1 (Offset 0))]) (sort_key created_at)
     \<lparr>utc_now = 0, local_offset = 0\<rparr>
     \<lparr>columns = game_columns, rows = [game_row ''u1'' ''player_select'' ''Renter'' (Some ''t1'')]\<rparr>
     False"
  using process_data_v1_agrees [of "table_parser [(''t1'', Stamp 1 (Offset 0))]"
      "\<lparr>columns = game_columns, rows = [game_row ''u1'' ''player_select'' ''Renter'' (Some ''t1'')]\<rparr>"
      "Offset 0" False "\<lparr>utc_now = 0, local_offset = 0\<rparr>" "sort_key created_at"]
  by (simp add: parse_defs example_defs)

text \<open>
  C35. With \<^verbatim>\<open>--today\<close> the two versions disagree whenever the local date differs
  from the date in UTC: on a file all of whose rows are of today in UTC, the current
  version returns a table and the first version reports that there are no responses
  today.
\<close>

theorem today_depends_on_clock:
  assumes "today_local clk \<noteq> today_utc clk"
    and "set game_columns \<subseteq> set (columns csv)"
    and "column_zone (parsed_column parse csv) = Some z" and "z = Naive \<or> z = Offset 0"
    and "Invalid \<notin> set (parsed_column parse csv)"
    and "rows csv \<noteq> []"
    and "\<forall>r \<in> set (rows csv).
           date_of (utc_cell (parse_cell parse (created_at r))) = Some (today_utc clk)"
  shows "process_data_v1 parse srt clk csv True = Inr None \<and>
         (\<exists>ms. process_data_with parse srt clk csv True None None = Inr (Some ms))"
proof -
  let ?df = "with_rows csv
      (map (\<lambda>r. set_created_at (utc_cell (parse_cell parse (created_at r))) r) (rows csv))"
  from assms(2) have cols: "columns csv \<noteq> []" "''created_at'' \<in> set (columns csv)"
    "''answer'' \<in> set (columns csv)" "''step_name'' \<in> set (columns csv)"
    "''user_id'' \<in> set (columns csv)"
    by (auto simp: game_columns_def)
  with assms(5) have df: "to_datetime parse csv = Inr ?df"
    by (simp add: to_datetime_def)
  then have v1: "to_datetime_v1 parse csv = Inr ?df"
    by (simp add: to_datetime_v1_agrees [OF assms(3,4)])
  from assms(7) have all: "filter_today (today_utc clk) (rows ?df) = rows ?df"
    by (auto simp: filter_today_def intro!: filter_True)
  from assms(1,7) have none: "filter_today (today_local clk) (rows ?df) = []"
    by (auto simp: filter_today_def filter_empty_conv)
  from cols v1 none have "process_data_v1 parse srt clk csv True = Inr None"
    by (simp add: process_data_v1_def)
  moreover from cols df all assms(6) have
    "\<exists>ms. process_data_with parse srt clk csv True None None = Inr (Some ms)"
    by (simp add: process_data_with_def time_window_def checked_merge_def)
  ultimately show ?thesis ..
qed

theorem today_depends_on_clock_witness:
  "process_data_v1 (table_parser [(''t1'', Stamp 3600000000000 Naive)]) (sort_key created_at)
     \<lparr>utc_now = 7200000000000, local_offset = - 18000000000000\<rparr>
     \<lparr>columns = game_columns, rows = [game_row ''u1'' ''player_select'' ''Renter'' (Some ''t1'')]\<rparr>
     True = Inr None \<and>
   process_data_with (table_parser [(''t1'', Stamp 3600000000000 Naive)]) (sort_key created_at)
     \<lparr>utc_now = 7200000000000, local_offset = - 18000000000000\<rparr>
     \<lparr>columns = game_columns, rows = [game_row ''u1'' ''player_select'' ''Renter'' (Some ''t1'')]\<rparr>
     True None None = Inr (Some [])"
  using today_depends_on_clock [of "\<lparr>utc_now = 7200000000000, local_offset = - 18000000000000\<rparr>"
      "\<lparr>columns = game_columns, rows = [game_row ''u1'' ''player_select'' ''Renter'' (Some ''t1'')]\<rparr>"
      "table_parser [(''t1'', Stamp 3600000000000 Naive)]" Naive "sort_key created_at"]
  by (simp add: process_defs parse_defs example_defs ns_per_day_def set_created_at_def)

text \<open>
  C37. A row whose timestamp is missing sorts after every dated row, so it is taken as
  the user's latest answer: if a user has a row without timestamp in the group, the row
  kept for that user has no timestamp.
\<close>

theorem missing_timestamp_wins:
  assumes "r \<in> set rs" and "in_group names r" and "created_at r = NaT"
    and "x \<in> set (latest_rows names rs)" and "user_id x = user_id r"
  shows "created_at x = NaT"
proof -
  have "created_at r \<le> created_at x"
    using assms latest_rows_with_max [OF sorts_by_sort_key, of x names rs r]
    by (simp add: latest_rows_def)
  with assms(3) show ?thesis
    by (cases "created_at x") simp_all
qed

theorem missing_timestamp_wins_witness:
  "latest_answers [''evacuate_select'']
     [game_row ''u1'' ''evacuate_select'' ''Heck no! dont evacuate'' NaT,
      game_row ''u1'' ''evacuate_select'' ''Yep, evacuate!'' (At 1767312000)] =
     [(Some ''u1'', Some ''Heck no! dont evacuate'')]"
  using missing_timestamp_wins [of "game_row ''u1'' ''evacuate_select'' ''Heck no! dont evacuate'' NaT"
      "[game_row ''u1'' ''evacuate_select'' ''Heck no! dont evacuate'' NaT,
        game_row ''u1'' ''evacuate_select'' ''Yep, evacuate!'' (At 1767312000)]"
      "[''evacuate_select'']"
      "game_row ''u1'' ''evacuate_select'' ''Heck no! dont evacuate'' NaT"]
  by (simp add: latest_defs game_row_def)

end
