(* ===== verification/Breakdown.thy ===== *)
theory Breakdown
  imports Frame
begin

text \<open>
  The prefix-filtered percentage breakdown:
  \<^verbatim>\<open>calculate_aggregated_answer_percentages\<close> of
  \<^verbatim>\<open>src/genetedatefilterprocess.py\<close>. Rows whose question starts with the prefix
  are selected, the answers are counted with \<^verbatim>\<open>value_counts\<close> (which drops
  missing answers and orders by falling count), each count is divided by the sum of the
  counts, and the table is sorted by falling percentage.

  The selection is \<^verbatim>\<open>df['question'].astype(str).str.startswith(prefix, na=False)\<close>.
  \<open>astype_str\<close> is the conversion on a column of Python objects, as pandas 1 and 2
  read a text column: it turns a missing question into the text \<^verbatim>\<open>nan\<close>, so that
  \<^verbatim>\<open>na=False\<close> (the \<open>None\<close> case of \<open>str_startswith\<close>) finds nothing missing.
  Under a string dtype that keeps missing values through the conversion, the missing
  question is excluded instead. \<open>question_startswith_iff\<close> shows that the two readings
  select the same rows for every prefix that is not a prefix of \<^verbatim>\<open>nan\<close>, which
  holds for the prefixes the scripts pass.

  \<^verbatim>\<open>value_counts\<close> and \<^verbatim>\<open>sort_values(by='percentage', ascending=False)\<close> fix the
  order of equal counts and equal percentages only up to a permutation. The definitions
  named \<open>\<dots>_with\<close> take the two sorts as parameters and are the translation of the
  code; \<open>value_counts\<close> and \<open>calculate_aggregated_answer_percentages\<close> are their
  instances at the stable \<^const>\<open>sort_values_desc\<close>, in which ties stay in order of
  first appearance.
\<close>

subsection \<open>Definitions\<close>

definition astype_str :: "cell \<Rightarrow> cell" where
  "astype_str c = (case c of None \<Rightarrow> Some ''nan'' | Some s \<Rightarrow> Some s)"

definition str_startswith :: "string \<Rightarrow> cell \<Rightarrow> bool" where
  "str_startswith p c = (case c of None \<Rightarrow> False | Some s \<Rightarrow> prefix p s)"

definition question_startswith :: "string \<Rightarrow> 't row \<Rightarrow> bool" where
  "question_startswith p r = str_startswith p (astype_str (question r))"

definition value_counts_with ::
  "(('a \<times> nat) list \<Rightarrow> ('a \<times> nat) list) \<Rightarrow> 'a option list \<Rightarrow> ('a \<times> nat) list" where
  "value_counts_with srt cs =
     (let vs = dropna cs
      in srt (map (\<lambda>v. (v, count_list vs v)) (unique vs)))"

definition calculate_aggregated_answer_percentages_with ::
  "((string \<times> nat) list \<Rightarrow> (string \<times> nat) list) \<Rightarrow>
   ((string \<times> rat) list \<Rightarrow> (string \<times> rat) list) \<Rightarrow>
   't row list \<Rightarrow> string \<Rightarrow> (string \<times> rat) list" where
  "calculate_aggregated_answer_percentages_with srt_counts srt_pct df_input question_prefix =
     (let filtered = filter (question_startswith question_prefix) df_input
      in if filtered = [] then []
         else
           let answer_counts = value_counts_with srt_counts (map answer filtered);
               total_answers = sum_list (map snd answer_counts)
           in if total_answers = 0 then []
              else srt_pct
                     (map (\<lambda>ac. (fst ac, percentage (snd ac) total_answers)) answer_counts))"

definition value_counts :: "'a option list \<Rightarrow> ('a \<times> nat) list" where
  "value_counts cs =
     (let vs = dropna cs
      in sort_values_desc snd (map (\<lambda>v. (v, count_list vs v)) (unique vs)))"

definition calculate_aggregated_answer_percentages ::
  "'t row list \<Rightarrow> string \<Rightarrow> (string \<times> rat) list" where
  "calculate_aggregated_answer_percentages df_input question_prefix =
     (let filtered = filter (question_startswith question_prefix) df_input
      in if filtered = [] then []
         else
           let answer_counts = value_counts (map answer filtered);
               total_answers = sum_list (map snd answer_counts)
           in if total_answers = 0 then []
              else sort_values_desc snd
                     (map (\<lambda>ac. (fst ac, percentage (snd ac) total_answers)) answer_counts))"

text \<open>The answers that enter the table: those of matching rows, missing ones dropped.\<close>

definition matched_answers :: "'t row list \<Rightarrow> string \<Rightarrow> string list" where
  "matched_answers rs p = dropna (map answer (filter (question_startswith p) rs))"

lemmas breakdown_defs =
  calculate_aggregated_answer_percentages_def value_counts_def question_startswith_def
  calculate_aggregated_answer_percentages_with_def value_counts_with_def
  astype_str_def str_startswith_def sort_values_desc_def percentage_def

subsection \<open>The prefix test\<close>

lemma astype_str_simps [simp]:
  "astype_str None = Some ''nan''"
  "astype_str (Some s) = Some s"
  by (simp_all add: astype_str_def)

lemma str_startswith_simps [simp]:
  "str_startswith p None = False"
  "str_startswith p (Some s) = prefix p s"
  by (simp_all add: str_startswith_def)

lemma question_startswith_simps:
  "question r = None \<Longrightarrow> question_startswith p r \<longleftrightarrow> prefix p ''nan''"
  "question r = Some s \<Longrightarrow> question_startswith p r \<longleftrightarrow> prefix p s"
  by (simp_all add: question_startswith_def)

lemma question_startswith_iff:
  assumes "\<not> prefix p ''nan''"
  shows "question_startswith p r \<longleftrightarrow> str_startswith p (question r)"
  using assms by (cases "question r") (simp_all add: question_startswith_def)

subsection \<open>Counting\<close>

lemma value_counts_eq:
  "value_counts cs =
     sort_values_desc snd (map (\<lambda>v. (v, count_list (dropna cs) v)) (unique (dropna cs)))"
  by (simp add: value_counts_def Let_def)

lemma mset_value_counts:
  "mset (value_counts cs) =
   mset (map (\<lambda>v. (v, count_list (dropna cs) v)) (unique (dropna cs)))"
  by (simp add: value_counts_eq pd_simps)

lemma set_value_counts:
  "set (value_counts cs) = (\<lambda>v. (v, count_list (dropna cs) v)) ` set (dropna cs)"
  by (simp add: value_counts_eq pd_simps)

lemma value_counts_Nil_iff: "value_counts cs = [] \<longleftrightarrow> dropna cs = []"
  by (simp add: value_counts_eq)

lemma sum_value_counts: "sum_list (map snd (value_counts cs)) = length (dropna cs)"
proof -
  have "sum_list (map snd (value_counts cs)) =
        sum_list (map snd (map (\<lambda>v. (v, count_list (dropna cs) v)) (unique (dropna cs))))"
    by (simp add: value_counts_eq pd_simps)
  also have "\<dots> = sum_list (map (count_list (dropna cs)) (unique (dropna cs)))"
    by (simp add: comp_def)
  finally show ?thesis
    by (simp add: sum_count_unique)
qed

lemma distinct_value_counts: "distinct (map fst (value_counts cs))"
  by (simp add: value_counts_eq pd_simps comp_def)

lemma sorted_value_counts: "sorted (rev (map snd (value_counts cs)))"
  by (simp add: value_counts_eq pd_simps)

lemma value_counts_entry:
  "(v, c) \<in> set (value_counts cs) \<Longrightarrow> c = count_list (dropna cs) v \<and> 0 < c"
  by (auto simp: set_value_counts count_list_pos_iff)

lemma map_of_value_counts:
  "map_of (value_counts cs) k =
     (if k \<in> set (dropna cs) then Some (count_list (dropna cs) k) else None)"
proof (cases "k \<in> set (dropna cs)")
  case True
  then have "(k, count_list (dropna cs) k) \<in> set (value_counts cs)"
    by (simp add: set_value_counts)
  with True show ?thesis
    by (simp add: distinct_value_counts)
next
  case False
  then have "k \<notin> fst ` set (value_counts cs)"
    by (auto simp: set_value_counts)
  with False show ?thesis
    by (simp add: map_of_eq_None_iff)
qed

lemma lookup_value_counts:
  "(case map_of (value_counts cs) k of None \<Rightarrow> 0 | Some n \<Rightarrow> n) = count_list (dropna cs) k"
  by (simp add: map_of_value_counts count_list_0_iff)

subsection \<open>The percentage table\<close>

text \<open>
  \<open>pct_table\<close> names the table before the final sort, so that the lemmas about the
  result can be split into what the counting gives and what the sort preserves.
\<close>

definition pct_table :: "'a option list \<Rightarrow> ('a \<times> rat) list" where
  "pct_table cs =
     map (\<lambda>ac. (fst ac, percentage (snd ac) (length (dropna cs)))) (value_counts cs)"

lemma calculate_alt:
  "calculate_aggregated_answer_percentages rs p =
     (if matched_answers rs p = [] then []
      else sort_values_desc snd (pct_table (map answer (filter (question_startswith p) rs))))"
proof (cases "filter (question_startswith p) rs = []")
  case True
  then show ?thesis
    by (simp add: calculate_aggregated_answer_percentages_def matched_answers_def)
next
  case False
  let ?vc = "value_counts (map answer (filter (question_startswith p) rs))"
  from False have "calculate_aggregated_answer_percentages rs p =
     (if sum_list (map snd ?vc) = 0 then []
      else sort_values_desc snd
             (map (\<lambda>ac. (fst ac, percentage (snd ac) (sum_list (map snd ?vc)))) ?vc))"
    by (simp add: calculate_aggregated_answer_percentages_def Let_def del: sum_list_eq_0_iff)
  then show ?thesis
    by (simp add: sum_value_counts matched_answers_def pct_table_def del: sum_list_eq_0_iff)
qed

lemma pct_table_Nil_iff [simp]: "pct_table cs = [] \<longleftrightarrow> dropna cs = []"
  by (simp add: pct_table_def value_counts_Nil_iff)

lemma calculate_Nil_iff:
  "calculate_aggregated_answer_percentages rs p = [] \<longleftrightarrow> matched_answers rs p = []"
  by (simp add: calculate_alt matched_answers_def)

lemma sum_pct_table:
  "dropna cs \<noteq> [] \<Longrightarrow> sum_list (map snd (pct_table cs)) = 100"
proof -
  assume ne: "dropna cs \<noteq> []"
  have "sum_list (map snd (pct_table cs)) =
        sum_list (map (\<lambda>ac. percentage (snd ac) (length (dropna cs))) (value_counts cs))"
    by (simp add: pct_table_def comp_def)
  also have "\<dots> = percentage (sum_list (map snd (value_counts cs))) (length (dropna cs))"
    by (rule sum_list_percentage)
  also have "\<dots> = 100"
    using ne by (simp add: sum_value_counts)
  finally show ?thesis .
qed

lemma map_fst_pct_table [simp]: "map fst (pct_table cs) = map fst (value_counts cs)"
  by (simp add: pct_table_def comp_def)

lemma sorted_pct_table: "sorted (rev (map snd (pct_table cs)))"
proof -
  have "map snd (pct_table cs) =
        map (\<lambda>c. percentage c (length (dropna cs))) (map snd (value_counts cs))"
    by (simp add: pct_table_def comp_def)
  moreover have "sorted (map (\<lambda>c. percentage c (length (dropna cs))) (rev (map snd (value_counts cs))))"
    by (rule sorted_map_mono [OF sorted_value_counts]) (simp add: mono_on_def percentage_mono)
  ultimately show ?thesis
    by (simp add: rev_map)
qed

lemma set_pct_table:
  "set (pct_table cs) =
   (\<lambda>v. (v, percentage (count_list (dropna cs) v) (length (dropna cs)))) ` set (dropna cs)"
  by (force simp: pct_table_def set_value_counts)

subsection \<open>Abstract specification\<close>

text \<open>
  What a breakdown promises, independent of how the table is computed and ordered: a
  finite map from each answer that occurs to its share of all counted answers.
\<close>

definition breakdown_spec :: "string list \<Rightarrow> string \<rightharpoonup> rat" where
  "breakdown_spec answers =
     (\<lambda>a. if a \<in> set answers
          then Some (percentage (count_list answers a) (length answers)) else None)"

lemma map_of_breakdown_spec:
  assumes "distinct (map fst t)"
    and "set t = (\<lambda>v. (v, percentage (count_list M v) (length M))) ` set M"
  shows "map_of t = breakdown_spec M"
proof
  fix a
  show "map_of t a = breakdown_spec M a"
  proof (cases "a \<in> set M")
    case True
    with assms(2) have "(a, percentage (count_list M a) (length M)) \<in> set t"
      by auto
    with assms(1) True show ?thesis
      by (simp add: breakdown_spec_def)
  next
    case False
    with assms(2) have "a \<notin> fst ` set t"
      by auto
    with False show ?thesis
      by (simp add: breakdown_spec_def map_of_eq_None_iff)
  qed
qed

lemma set_calculate:
  "set (calculate_aggregated_answer_percentages rs p) =
   (\<lambda>v. (v, percentage (count_list (matched_answers rs p) v) (length (matched_answers rs p))))
     ` set (matched_answers rs p)"
  by (simp add: calculate_alt set_sort_values_desc set_pct_table matched_answers_def)

lemma distinct_calculate:
  "distinct (map fst (calculate_aggregated_answer_percentages rs p))"
  by (simp add: calculate_alt pd_simps distinct_value_counts)

subsection \<open>Every correct sort\<close>

text \<open>
  The lemmas of the stable instance that do not depend on the order of ties, for the
  translation with the sorts as parameters.
\<close>

lemma value_counts_stable: "value_counts_with (sort_values_desc snd) cs = value_counts cs"
  by (simp add: value_counts_def value_counts_with_def)

lemma calculate_stable:
  "calculate_aggregated_answer_percentages_with (sort_values_desc snd) (sort_values_desc snd) rs p =
   calculate_aggregated_answer_percentages rs p"
  unfolding calculate_aggregated_answer_percentages_def
    calculate_aggregated_answer_percentages_with_def value_counts_stable ..

lemma mset_value_counts_with:
  "sorts_desc_by snd srt \<Longrightarrow> mset (value_counts_with srt cs) = mset (value_counts cs)"
  by (simp add: value_counts_with_def value_counts_eq Let_def sorts_desc_by_mset pd_simps)

lemma set_value_counts_with:
  "sorts_desc_by snd srt \<Longrightarrow> set (value_counts_with srt cs) = set (value_counts cs)"
  by (metis mset_value_counts_with set_mset_mset)

lemma sum_value_counts_with:
  assumes "sorts_desc_by snd srt"
  shows "sum_list (map snd (value_counts_with srt cs)) = length (dropna cs)"
proof -
  have "sum_mset (mset (map snd (value_counts_with srt cs))) =
        sum_mset (mset (map snd (value_counts cs)))"
    by (simp add: mset_value_counts_with [OF assms])
  then show ?thesis
    by (simp only: sum_mset_sum_list sum_value_counts)
qed

lemma sorted_value_counts_with:
  "sorts_desc_by snd srt \<Longrightarrow> sorted (rev (map snd (value_counts_with srt cs)))"
  by (simp add: value_counts_with_def Let_def sorts_desc_by_sorted)

definition pct_table_with ::
  "(('a \<times> nat) list \<Rightarrow> ('a \<times> nat) list) \<Rightarrow> 'a option list \<Rightarrow> ('a \<times> rat) list" where
  "pct_table_with srt cs =
     map (\<lambda>ac. (fst ac, percentage (snd ac) (length (dropna cs)))) (value_counts_with srt cs)"

lemma mset_pct_table_with:
  "sorts_desc_by snd srt \<Longrightarrow> mset (pct_table_with srt cs) = mset (pct_table cs)"
  by (simp add: pct_table_with_def pct_table_def mset_value_counts_with)

lemma sorted_pct_table_with:
  assumes "sorts_desc_by snd srt"
  shows "sorted (rev (map snd (pct_table_with srt cs)))"
proof -
  have "map snd (pct_table_with srt cs) =
        map (\<lambda>c. percentage c (length (dropna cs))) (map snd (value_counts_with srt cs))"
    by (simp add: pct_table_with_def comp_def)
  moreover have "sorted (map (\<lambda>c. percentage c (length (dropna cs)))
                   (rev (map snd (value_counts_with srt cs))))"
    by (rule sorted_map_mono [OF sorted_value_counts_with [OF assms]])
       (simp add: mono_on_def percentage_mono)
  ultimately show ?thesis
    by (simp add: rev_map)
qed

lemma calculate_with_alt:
  assumes "sorts_desc_by snd srt_counts"
  shows "calculate_aggregated_answer_percentages_with srt_counts srt_pct rs p =
     (if matched_answers rs p = [] then []
      else srt_pct (pct_table_with srt_counts (map answer (filter (question_startswith p) rs))))"
proof (cases "filter (question_startswith p) rs = []")
  case True
  then show ?thesis
    by (simp add: calculate_aggregated_answer_percentages_with_def matched_answers_def)
next
  case False
  then show ?thesis
    by (simp add: calculate_aggregated_answer_percentages_with_def Let_def
        sum_value_counts_with [OF assms] matched_answers_def pct_table_with_def
        del: sum_list_eq_0_iff)
qed

lemma mset_calculate_with:
  assumes "sorts_desc_by snd srt_counts" and "sorts_desc_by snd srt_pct"
  shows "mset (calculate_aggregated_answer_percentages_with srt_counts srt_pct rs p) =
         mset (calculate_aggregated_answer_percentages rs p)"
  by (simp add: calculate_with_alt [OF assms(1)] calculate_alt sorts_desc_by_mset [OF assms(2)]
      mset_pct_table_with [OF assms(1)] pd_simps)

lemma sorted_calculate_with:
  assumes "sorts_desc_by snd srt_counts" and "sorts_desc_by snd srt_pct"
  shows "sorted (rev (map snd (calculate_aggregated_answer_percentages_with srt_counts srt_pct rs p)))"
  by (simp add: calculate_with_alt [OF assms(1)] sorts_desc_by_sorted [OF assms(2)])

subsection \<open>Properties\<close>

text \<open>
  C1. The percentages of a global breakdown sum to 100 whenever the table is not empty,
  and the table is empty exactly when no matching row carries an answer.
\<close>

theorem breakdown_sums_to_100:
  "sum_list (map snd (calculate_aggregated_answer_percentages rs p)) =
     (if matched_answers rs p = [] then 0 else 100)"
  by (simp add: calculate_alt pd_simps sum_pct_table matched_answers_def)

text \<open>
  C6. The breakdown implements its specification: read as a map from answers to
  percentages, the table gives every counted answer its count divided by the number of
  counted answers, times 100, and nothing else. The divisor is the number of matching
  rows that carry an answer.
\<close>

theorem breakdown_refines_spec:
  "map_of (calculate_aggregated_answer_percentages rs p) = breakdown_spec (matched_answers rs p)"
  by (rule map_of_breakdown_spec) (simp_all add: distinct_calculate set_calculate)

text \<open>
  C15. The table lists every answer once and is ordered by falling percentage.
\<close>

theorem breakdown_sorted_distinct:
  "distinct (map fst (calculate_aggregated_answer_percentages rs p)) \<and>
   sorted (rev (map snd (calculate_aggregated_answer_percentages rs p)))"
  using distinct_calculate [of rs p] by (simp add: calculate_alt pd_simps)

text \<open>
  C18. The breakdown meets its specification whatever the sorts do with ties: for every
  pair of correct descending sorts, the table read as a map gives each counted answer
  its count divided by the number of counted answers, times 100, and nothing else; it
  lists every answer once, in order of falling percentage, and it is a permutation of
  the table that the stable sorts give.
\<close>

theorem breakdown_with_refines_spec:
  assumes "sorts_desc_by snd srt_counts" and "sorts_desc_by snd srt_pct"
  shows "map_of (calculate_aggregated_answer_percentages_with srt_counts srt_pct rs p) =
           breakdown_spec (matched_answers rs p) \<and>
         distinct (map fst (calculate_aggregated_answer_percentages_with srt_counts srt_pct rs p)) \<and>
         sorted (rev (map snd (calculate_aggregated_answer_percentages_with srt_counts srt_pct rs p))) \<and>
         mset (calculate_aggregated_answer_percentages_with srt_counts srt_pct rs p) =
           mset (calculate_aggregated_answer_percentages rs p)"
proof -
  let ?t = "calculate_aggregated_answer_percentages_with srt_counts srt_pct rs p"
  note m = mset_calculate_with [OF assms, of rs p]
  then have set: "set ?t = set (calculate_aggregated_answer_percentages rs p)"
    by (metis set_mset_mset)
  from m have dist: "distinct (map fst ?t)"
    using distinct_calculate [of rs p] by (metis mset_eq_imp_distinct_iff mset_map)
  have "map_of ?t = breakdown_spec (matched_answers rs p)"
    by (rule map_of_breakdown_spec [OF dist]) (simp add: set set_calculate)
  with dist sorted_calculate_with [OF assms] m show ?thesis by simp
qed

theorem breakdown_with_refines_spec_witness:
  "sorts_desc_by snd (sort_values_desc snd :: (string \<times> nat) list \<Rightarrow> _) \<and>
   sorts_desc_by snd (\<lambda>xs :: (string \<times> rat) list. rev (sort_key snd xs)) \<and>
   calculate_aggregated_answer_percentages_with (sort_values_desc snd) (\<lambda>xs. rev (sort_key snd xs))
     [survey_row ''u1'' ''s1'' (Some ''Now, drought?'') (Some ''A'') NaT,
      survey_row ''u2'' ''s2'' (Some ''Now, drought?'') (Some ''B'') NaT,
      survey_row ''u3'' ''s3'' (Some ''Now, flood?'') (Some ''C'') NaT,
      survey_row ''u4'' ''s4'' (Some ''Now, flood?'') (Some ''C'') NaT] ''Now,'' =
     [(''C'', 50), (''B'', 25), (''A'', 25)]"
  using breakdown_with_refines_spec [of "sort_values_desc snd" "\<lambda>xs. rev (sort_key snd xs)"
      "[survey_row ''u1'' ''s1'' (Some ''Now, drought?'') (Some ''A'') NaT,
        survey_row ''u2'' ''s2'' (Some ''Now, drought?'') (Some ''B'') NaT,
        survey_row ''u3'' ''s3'' (Some ''Now, flood?'') (Some ''C'') NaT,
        survey_row ''u4'' ''s4'' (Some ''Now, flood?'') (Some ''C'') NaT]" "''Now,''"]
  by (simp add: sorts_desc_by_def breakdown_defs survey_row_def rev_map)

text \<open>
  C22. The explicit sort by percentage at the end of
  \<^verbatim>\<open>calculate_aggregated_answer_percentages\<close> can only reorder answers with equal
  percentages: \<^verbatim>\<open>value_counts\<close> has already put the table in order of falling
  count, so for every pair of correct sorts the percentage column is the same before and
  after the final sort, and when no two answers have the same percentage the final sort
  returns the table unchanged.
\<close>

theorem final_sort_permutes_ties:
  assumes "sorts_desc_by snd srt_counts" and "sorts_desc_by snd srt_pct"
    and "matched_answers rs p \<noteq> []"
  shows "map snd (calculate_aggregated_answer_percentages_with srt_counts srt_pct rs p) =
           map snd (pct_table_with srt_counts (map answer (filter (question_startswith p) rs))) \<and>
         (distinct (map snd (pct_table_with srt_counts (map answer (filter (question_startswith p) rs))))
            \<longrightarrow> calculate_aggregated_answer_percentages_with srt_counts srt_pct rs p =
                 pct_table_with srt_counts (map answer (filter (question_startswith p) rs)))"
proof -
  let ?t = "pct_table_with srt_counts (map answer (filter (question_startswith p) rs))"
  have eq: "calculate_aggregated_answer_percentages_with srt_counts srt_pct rs p = srt_pct ?t"
    using assms(3) by (simp add: calculate_with_alt [OF assms(1)])
  have m: "mset ?t = mset (srt_pct ?t)"
    by (simp add: sorts_desc_by_mset [OF assms(2)])
  note s1 = sorted_pct_table_with [OF assms(1)] and s2 = sorts_desc_by_sorted [OF assms(2)]
  have "map snd (srt_pct ?t) = map snd ?t"
    by (rule sorted_desc_keys_unique [OF m s1 s2, symmetric])
  moreover have "srt_pct ?t = ?t" if "distinct (map snd ?t)"
    by (rule sorted_desc_unique [OF m s1 s2 that, symmetric])
  ultimately show ?thesis
    unfolding eq by blast
qed

theorem final_sort_permutes_ties_witness:
  "calculate_aggregated_answer_percentages_with (sort_values_desc snd) (\<lambda>xs. rev (sort_key snd xs))
     [survey_row ''u1'' ''s1'' (Some ''Now, drought?'') (Some ''A'') NaT,
      survey_row ''u3'' ''s3'' (Some ''Now, flood?'') (Some ''C'') NaT,
      survey_row ''u4'' ''s4'' (Some ''Now, flood?'') (Some ''C'') NaT] ''Now,'' =
   pct_table_with (sort_values_desc snd) [Some ''A'', Some ''C'', Some ''C'']"
  using final_sort_permutes_ties [of "sort_values_desc snd" "\<lambda>xs. rev (sort_key snd xs)"
      "[survey_row ''u1'' ''s1'' (Some ''Now, drought?'') (Some ''A'') NaT,
        survey_row ''u3'' ''s3'' (Some ''Now, flood?'') (Some ''C'') NaT,
        survey_row ''u4'' ''s4'' (Some ''Now, flood?'') (Some ''C'') NaT]" "''Now,''"]
  by (simp add: sorts_desc_by_def breakdown_defs pct_table_with_def survey_row_def rev_map)

text \<open>
  Every percentage of a breakdown is positive and at most 100.
\<close>

theorem breakdown_percentage_bounds:
  assumes "(a, q) \<in> set (calculate_aggregated_answer_percentages rs p)"
  shows "0 < q \<and> q \<le> 100"
proof -
  let ?M = "matched_answers rs p"
  from assms have a: "a \<in> set ?M" and q: "q = percentage (count_list ?M a) (length ?M)"
    by (auto simp: set_calculate)
  from a have "0 < count_list ?M a" and "0 < length ?M"
    by (auto simp: count_list_pos_iff)
  then have "0 < q"
    unfolding q percentage_def by simp
  moreover have "q \<le> 100"
    unfolding q by (rule percentage_le_100) (rule count_le_length)
  ultimately show ?thesis ..
qed

theorem breakdown_percentage_bounds_witness:
  "(''B'', 200 / 3) \<in> set (calculate_aggregated_answer_percentages
     [survey_row ''u1'' ''s1'' (Some ''Now, drought?'') (Some ''A'') NaT,
      survey_row ''u1'' ''s1'' (Some ''Now, flood?'') (Some ''B'') NaT,
      survey_row ''u2'' ''s2'' (Some ''Now, flood?'') (Some ''B'') NaT] ''Now,'') \<and>
   (0 :: rat) < 200 / 3 \<and> (200 / 3 :: rat) \<le> 100"
  using breakdown_percentage_bounds [of "''B''" "200 / 3"
      "[survey_row ''u1'' ''s1'' (Some ''Now, drought?'') (Some ''A'') NaT,
        survey_row ''u1'' ''s1'' (Some ''Now, flood?'') (Some ''B'') NaT,
        survey_row ''u2'' ''s2'' (Some ''Now, flood?'') (Some ''B'') NaT]" "''Now,''"]
  by (simp add: breakdown_defs survey_row_def)

end
