(* ===== verification/Report.thy ===== *)
theory Report
  imports Breakdown
begin

text \<open>
  The three-part report of \<^verbatim>\<open>process_and_output_percentages\<close> in
  \<^verbatim>\<open>src/genetedatefilterprocess.py\<close>: the required-column check, the coercing
  timestamp parse, the optional start-date filter, and the three outputs (the breakdown
  of the \<^verbatim>\<open>Now,\<close> questions over all rows, the share of \<^verbatim>\<open>2009\<close> among the
  answers to \<^verbatim>\<open>First\<close> questions, and the breakdown restricted to the sessions
  that answered \<^verbatim>\<open>2009\<close>). What the script prints is modelled by its content:
  each output is either a table or the message that replaces it, as a constructor of
  its own.

  The body of the function (\<open>report_body\<close>) runs inside \<^verbatim>\<open>try\<close>; its handlers
  are \<^const>\<open>stdin_handlers\<close>. The start-date filter (\<open>start_filter\<close>) runs inside
  an inner \<^verbatim>\<open>try\<close> that catches \<^verbatim>\<open>ValueError\<close> only. It compares the
  timestamp column with the parsed start date, and pandas refuses to compare a column
  that carries a time zone with a date that carries none (and the reverse): that
  \<^verbatim>\<open>TypeError\<close> passes the inner handler and ends the run in the outer one. Every
  \<open>Inl\<close> result of \<open>process_and_output_percentages\<close> is an exit with status 1.
\<close>

subsection \<open>Definitions\<close>

datatype section1 = AllData "(string \<times> rat) list" | NoNowQuestions

datatype section2 = Pct2009 rat | NoFirstQuestions | NoFirstAnswers

datatype section3 = NoSessions | Filtered "(string \<times> rat) list" | NoNowInFiltered

datatype outcome = NoDataAfter string | Report section1 section2 section3

definition required_cols :: "string list" where
  "required_cols = [''hashed_user_id'', ''question'', ''answer'', ''session_id'', ''created_at'']"

definition first_output :: "'t row list \<Rightarrow> section1" where
  "first_output df =
     (let all_data_percentages = calculate_aggregated_answer_percentages df ''Now,''
      in if all_data_percentages \<noteq> [] then AllData all_data_percentages else NoNowQuestions)"

definition second_output :: "'t row list \<Rightarrow> section2" where
  "second_output df =
     (let first_questions = filter (question_startswith ''First'') df
      in if first_questions = [] then NoFirstQuestions
         else
           let total_first = length first_questions;
               answers_2009 = length (filter (\<lambda>r. answer r = Some ''2009'') first_questions)
           in if 0 < total_first then Pct2009 (percentage answers_2009 total_first)
              else NoFirstAnswers)"

definition sessions_with_2009_answer :: "'t row list \<Rightarrow> cell list" where
  "sessions_with_2009_answer df =
     unique (map session_id
       (filter (\<lambda>r. answer r = Some ''2009'') (filter (question_startswith ''First'') df)))"

definition third_output :: "'t row list \<Rightarrow> section3" where
  "third_output df =
     (let sessions = sessions_with_2009_answer df
      in if length sessions = 0 then NoSessions
         else
           let filtered_df = filter (\<lambda>r. session_id r \<in> set sessions) df;
               filtered_percentages = calculate_aggregated_answer_percentages filtered_df ''Now,''
           in if filtered_percentages \<noteq> [] then Filtered filtered_percentages
              else NoNowInFiltered)"

definition three_outputs :: "'t row list \<Rightarrow> outcome" where
  "three_outputs df = Report (first_output df) (second_output df) (third_output df)"

definition start_filter ::
  "parser \<Rightarrow> zone \<Rightarrow> string \<Rightarrow> tstamp row list \<Rightarrow> error + tstamp row list" where
  "start_filter parse z start_date df =
     (case parse start_date of
        Invalid \<Rightarrow> Inl ValueError
      | Missing \<Rightarrow> Inr []
      | Parsed start_datetime \<Rightarrow>
          if aware (zone_of start_datetime) \<noteq> aware z then Inl TypeError
          else Inr (filter_from (instant start_datetime) df))"

definition report_body :: "parser \<Rightarrow> cell frame \<Rightarrow> string option \<Rightarrow> error + outcome" where
  "report_body parse stdin start_date =
     bind_err (read_csv stdin) (\<lambda>csv.
     let missing = missing_columns required_cols csv
     in if missing \<noteq> [] then Inl (MissingColumns missing)
        else
          bind_err (to_datetime_coerce parse csv) (\<lambda>(z, parsed).
          let df = rows (dropna_created_at parsed)
          in case start_date of
               None \<Rightarrow> Inr (three_outputs df)
             | Some s \<Rightarrow>
                 if s = [] then Inr (three_outputs df)
                 else
                   bind_err
                     (catch_err (start_filter parse z s df)
                        (\<lambda>e. if e = ValueError then Inl (InvalidDate s) else Inl e))
                     (\<lambda>df'. if df' = [] then Inr (NoDataAfter s)
                            else Inr (three_outputs df'))))"

definition process_and_output_percentages ::
  "parser \<Rightarrow> cell frame \<Rightarrow> string option \<Rightarrow> error + outcome" where
  "process_and_output_percentages parse stdin start_date =
     catch_err (report_body parse stdin start_date) stdin_handlers"

lemmas report_defs =
  process_and_output_percentages_def three_outputs_def first_output_def second_output_def
  third_output_def sessions_with_2009_answer_def required_cols_def missing_columns_def
  report_body_def start_filter_def read_csv_def
  to_datetime_coerce_def dropna_created_at_def filter_from_def exit_code_def

subsection \<open>The three outputs\<close>

lemma first_output_cases:
  "first_output df =
     (if matched_answers df ''Now,'' = [] then NoNowQuestions
      else AllData (calculate_aggregated_answer_percentages df ''Now,''))"
  by (simp add: first_output_def Let_def calculate_Nil_iff)

lemma second_output_cases:
  "second_output df =
     (let fq = filter (question_startswith ''First'') df
      in if fq = [] then NoFirstQuestions
         else Pct2009 (percentage (length (filter (\<lambda>r. answer r = Some ''2009'') fq)) (length fq)))"
  by (simp add: second_output_def Let_def)

lemma sessions_with_2009_answer_Nil_iff:
  "sessions_with_2009_answer df = [] \<longleftrightarrow>
   (\<forall>r \<in> set df. question_startswith ''First'' r \<longrightarrow> answer r \<noteq> Some ''2009'')"
  by (auto simp: sessions_with_2009_answer_def filter_empty_conv)

lemma set_sessions_with_2009_answer:
  "set (sessions_with_2009_answer df) =
   session_id ` {r \<in> set df. question_startswith ''First'' r \<and> answer r = Some ''2009''}"
  by (auto simp: sessions_with_2009_answer_def)

lemma third_output_cases:
  "third_output df =
     (let ss = sessions_with_2009_answer df;
          fd = filter (\<lambda>r. session_id r \<in> set ss) df
      in if ss = [] then NoSessions
         else if matched_answers fd ''Now,'' = [] then NoNowInFiltered
         else Filtered (calculate_aggregated_answer_percentages fd ''Now,''))"
  by (simp add: third_output_def Let_def calculate_Nil_iff)

subsection \<open>The whole run\<close>

text \<open>
  The run by cases: what ends it before the outputs, in the order the code tests.
\<close>

definition after_start ::
  "parser \<Rightarrow> zone \<Rightarrow> tstamp row list \<Rightarrow> string option \<Rightarrow> error + outcome" where
  "after_start parse z df start_date =
     (case start_date of
        None \<Rightarrow> Inr (three_outputs df)
      | Some s \<Rightarrow>
          if s = [] then Inr (three_outputs df)
          else (case parse s of
                  Invalid \<Rightarrow> Inl (InvalidDate s)
                | Missing \<Rightarrow> Inr (NoDataAfter s)
                | Parsed st \<Rightarrow>
                    if aware (zone_of st) \<noteq> aware z then Inl (Unexpected TypeError)
                    else if filter_from (instant st) df = [] then Inr (NoDataAfter s)
                    else Inr (three_outputs (filter_from (instant st) df))))"

definition coerced_rows :: "parser \<Rightarrow> cell frame \<Rightarrow> tstamp row list" where
  "coerced_rows parse csv =
     filter (\<lambda>r. created_at r \<noteq> NaT)
       (map (\<lambda>r. set_created_at (utc_cell (parse_cell parse (created_at r))) r) (rows csv))"

lemma process_cases:
  "process_and_output_percentages parse csv start_date =
     (if columns csv = [] then Inl NoDataToParse
      else if \<not> set required_cols \<subseteq> set (columns csv)
        then Inl (MissingColumns (missing_columns required_cols csv))
      else (case column_zone (parsed_column parse csv) of
              None \<Rightarrow> Inl (Unexpected ValueError)
            | Some z \<Rightarrow> after_start parse z (coerced_rows parse csv) start_date))"
  by (simp add: process_and_output_percentages_def report_body_def start_filter_def
      after_start_def coerced_rows_def to_datetime_coerce_def dropna_created_at_def
      missing_columns_Nil_iff Let_def split: option.splits parsed.splits)

lemma after_start_not_MissingColumns [simp]:
  "after_start parse z df start_date \<noteq> Inl (MissingColumns m)"
  by (simp add: after_start_def split: option.splits parsed.splits)

lemma after_start_Inr_iff:
  "(\<exists>out. after_start parse z df start_date = Inr out) \<longleftrightarrow>
   (\<forall>s. start_date = Some s \<and> s \<noteq> [] \<longrightarrow>
      parse s \<noteq> Invalid \<and> (\<forall>st. parse s = Parsed st \<longrightarrow> aware (zone_of st) = aware z))"
  by (auto simp: after_start_def split: option.splits parsed.splits)

lemma exit_code_0_iff: "exit_code res = 0 \<longleftrightarrow> (\<exists>x. res = Inr x)"
  by (cases res) simp_all

text \<open>
  Example input of the survey report: a parser for the timestamps of the examples
  (nanoseconds since the epoch; the texts that end in \<^verbatim>\<open>Z\<close> are in UTC, the others
  name no zone), a file of four answers in two sessions, and the same file as an export
  writes it, with timestamps in UTC.
\<close>

definition example_parse :: parser where
  "example_parse = table_parser
     [(''2026-01-01T23:59:59'', Stamp 1767311999000000000 Naive),
      (''2026-01-02'', Stamp 1767312000000000000 Naive),
      (''2026-01-02T08:00:00'', Stamp 1767340800000000000 Naive),
      (''2026-01-01T23:59:59Z'', Stamp 1767311999000000000 (Offset 0)),
      (''2026-01-02T00:00:00Z'', Stamp 1767312000000000000 (Offset 0)),
      (''2026-01-02T08:00:00Z'', Stamp 1767340800000000000 (Offset 0))]"

definition example_rows :: "string \<Rightarrow> string \<Rightarrow> cell row list" where
  "example_rows t1 t2 =
     [survey_row ''u1'' ''s1'' (Some ''First, which year?'') (Some ''2009'') (Some t1),
      survey_row ''u1'' ''s1'' (Some ''Now, drought?'') (Some ''A'') (Some t1),
      survey_row ''u2'' ''s2'' (Some ''First, which year?'') (Some ''2011'') (Some t2),
      survey_row ''u2'' ''s2'' (Some ''Now, drought?'') (Some ''B'') (Some t2)]"

definition example_csv :: "cell frame" where
  "example_csv =
     \<lparr>columns = survey_columns, rows = example_rows ''2026-01-01T23:59:59'' ''2026-01-02T08:00:00''\<rparr>"

definition example_csv_utc :: "cell frame" where
  "example_csv_utc =
     \<lparr>columns = survey_columns, rows = example_rows ''2026-01-01T23:59:59Z'' ''2026-01-02T08:00:00Z''\<rparr>"

lemmas example_report_defs =
  example_parse_def example_csv_def example_csv_utc_def example_rows_def example_defs

lemma example_zones:
  "column_zone (parsed_column example_parse example_csv) = Some Naive"
  "column_zone (parsed_column example_parse example_csv_utc) = Some (Offset 0)"
  by (simp_all add: example_report_defs parse_defs)

subsection \<open>Properties\<close>

text \<open>
  C5. The conditional breakdown distinguishes an empty condition set from an empty
  result: it reports "no sessions" exactly when no \<^verbatim>\<open>First\<close> question was answered
  \<^verbatim>\<open>2009\<close>, and it never prints an empty table.
\<close>

theorem conditional_breakdown_no_sessions:
  "(third_output df = NoSessions \<longleftrightarrow>
      (\<forall>r \<in> set df. question_startswith ''First'' r \<longrightarrow> answer r \<noteq> Some ''2009'')) \<and>
   third_output df \<noteq> Filtered []"
  by (auto simp: third_output_cases Let_def sessions_with_2009_answer_Nil_iff calculate_Nil_iff)

theorem conditional_breakdown_no_sessions_witness:
  "third_output
     [survey_row ''u2'' ''s2'' (Some ''First, which year?'') (Some ''2011'') NaT,
      survey_row ''u2'' ''s2'' (Some ''Now, drought?'') (Some ''B'') NaT] = NoSessions"
  using conditional_breakdown_no_sessions
      [of "[survey_row ''u2'' ''s2'' (Some ''First, which year?'') (Some ''2011'') NaT,
            survey_row ''u2'' ''s2'' (Some ''Now, drought?'') (Some ''B'') NaT]"]
  by (simp add: question_startswith_def survey_row_def)

text \<open>
  C10. A file that lacks required columns is rejected with an error that names exactly
  the absent ones, in the order of the required list; no other input produces that
  error. (A file without a header line is rejected before, as empty.)
\<close>

theorem missing_columns_reported:
  "process_and_output_percentages parse csv start_date = Inl (MissingColumns m) \<longleftrightarrow>
   columns csv \<noteq> [] \<and> m \<noteq> [] \<and> m = filter (\<lambda>c. c \<notin> set (columns csv)) required_cols"
  by (auto simp: process_cases missing_columns_Nil_iff missing_columns_def filter_empty_conv
      split: option.splits)

theorem missing_columns_reported_witness:
  "process_and_output_percentages example_parse
     \<lparr>columns = [''hashed_user_id'', ''answer'', ''created_at''], rows = []\<rparr> None =
   Inl (MissingColumns [''question'', ''session_id''])"
  using missing_columns_reported [of example_parse
      "\<lparr>columns = [''hashed_user_id'', ''answer'', ''created_at''], rows = []\<rparr>" None
      "[''question'', ''session_id'']"]
  by (simp add: required_cols_def)

text \<open>
  C19. The report ends with status 0 exactly when the input has a header line with all
  required columns, the timestamps of the file agree on their time zone, and the start
  date, if one is given, parses and carries a time zone exactly when the timestamps of
  the file do. Every other run ends with status 1; an empty result of the date filter is
  not an error.
\<close>

theorem exit_code_zero_iff:
  "exit_code (process_and_output_percentages parse csv start_date) = 0 \<longleftrightarrow>
   columns csv \<noteq> [] \<and> set required_cols \<subseteq> set (columns csv) \<and>
   (\<exists>z. column_zone (parsed_column parse csv) = Some z \<and>
      (\<forall>s. start_date = Some s \<and> s \<noteq> [] \<longrightarrow>
         parse s \<noteq> Invalid \<and>
         (\<forall>st. parse s = Parsed st \<longrightarrow> aware (zone_of st) = aware z)))"
  using after_start_Inr_iff [of parse _ "coerced_rows parse csv" start_date]
  by (auto simp: exit_code_0_iff process_cases split: option.splits)

theorem exit_code_zero_iff_witness:
  "exit_code (process_and_output_percentages example_parse example_csv (Some ''2026-01-02'')) = 0 \<and>
   exit_code (process_and_output_percentages example_parse example_csv (Some ''yesterday'')) = 1 \<and>
   exit_code (process_and_output_percentages example_parse example_csv_utc (Some ''2026-01-02'')) = 1"
  using exit_code_zero_iff [of example_parse example_csv "Some ''2026-01-02''"]
    exit_code_zero_iff [of example_parse example_csv "Some ''yesterday''"]
    exit_code_zero_iff [of example_parse example_csv_utc "Some ''2026-01-02''"]
  by (simp add: example_zones)
     (simp add: example_parse_def example_csv_def example_csv_utc_def example_defs
        required_cols_def exit_code_def split: sum.splits)

text \<open>
  C20. A start date without a time zone cannot be used on a file whose timestamps carry
  one: whatever the rows and the date are, the comparison raises and the run ends with
  the message for unexpected errors and no output. The timestamps in the examples of the
  specification are written in UTC (they end in \<^verbatim>\<open>Z\<close>), and the documented form
  of the start date is \<^verbatim>\<open>YYYY-MM-DD\<close>.
\<close>

theorem naive_start_date_on_zoned_rows:
  assumes "set required_cols \<subseteq> set (columns csv)"
    and "column_zone (parsed_column parse csv) = Some z" and "aware z"
    and "s \<noteq> []" and "parse s = Parsed st" and "zone_of st = Naive"
  shows "process_and_output_percentages parse csv (Some s) = Inl (Unexpected TypeError)"
proof -
  from assms(1) have "columns csv \<noteq> []"
    by (auto simp: required_cols_def)
  with assms show ?thesis
    by (simp add: process_cases after_start_def)
qed

theorem naive_start_date_on_zoned_rows_witness:
  "process_and_output_percentages example_parse example_csv_utc (Some ''2026-01-02'') =
   Inl (Unexpected TypeError)"
  using naive_start_date_on_zoned_rows [of example_csv_utc example_parse "Offset 0"
      "''2026-01-02''" "Stamp 1767312000000000000 Naive"]
  by (simp add: example_zones)
     (simp add: example_parse_def example_csv_utc_def example_defs required_cols_def)

text \<open>
  C39. When the start date leaves no row, the run stops with the "no data" message and
  none of the three outputs is produced. (The start date and the timestamps of the file
  both carry a time zone or both carry none; otherwise the comparison raises.)
\<close>

theorem start_date_no_data:
  assumes "set required_cols \<subseteq> set (columns csv)" and "s \<noteq> []" and "parse s = Parsed st"
    and "column_zone (parsed_column parse csv) = Some z" and "aware (zone_of st) = aware z"
    and "\<forall>r \<in> set (rows csv). \<forall>x.
           utc_cell (parse_cell parse (created_at r)) = At x \<longrightarrow> x < instant st"
  shows "process_and_output_percentages parse csv (Some s) = Inr (NoDataAfter s)"
proof -
  from assms(1) have cols: "columns csv \<noteq> []"
    by (auto simp: required_cols_def)
  have "r \<notin> set (filter_from (instant st) (coerced_rows parse csv))" for r
    using assms(6) by (fastforce simp: filter_from_bounds coerced_rows_def)
  then have "filter_from (instant st) (coerced_rows parse csv) = []"
    by (metis list.set_intros(1) neq_Nil_conv)
  with cols assms(1-5) show ?thesis
    by (simp add: process_cases after_start_def)
qed

theorem start_date_no_data_witness:
  "process_and_output_percentages example_parse
     \<lparr>columns = survey_columns,
      rows = [survey_row ''u1'' ''s1'' (Some ''Now, drought?'') (Some ''A'')
                (Some ''2026-01-01T23:59:59'')]\<rparr>
     (Some ''2026-01-02'') = Inr (NoDataAfter ''2026-01-02'')"
  using start_date_no_data [of
      "\<lparr>columns = survey_columns,
        rows = [survey_row ''u1'' ''s1'' (Some ''Now, drought?'') (Some ''A'')
                  (Some ''2026-01-01T23:59:59'')]\<rparr>"
      "''2026-01-02''" example_parse "Stamp 1767312000000000000 Naive" Naive]
  by (simp add: example_parse_def example_defs required_cols_def parse_defs)

text \<open>
  C38. The second output is a percentage between 0 and 100 whenever a \<^verbatim>\<open>First\<close>
  question exists; the branch that would print "No answers found" cannot be reached.
\<close>

theorem second_output_range:
  "second_output df \<noteq> NoFirstAnswers \<and>
   (\<forall>q. second_output df = Pct2009 q \<longrightarrow> 0 \<le> q \<and> q \<le> 100)"
  by (auto simp: second_output_cases Let_def intro!: percentage_le_100 length_filter_conj_le)

theorem second_output_range_witness:
  "second_output
     [survey_row ''u1'' ''s1'' (Some ''First, which year?'') (Some ''2009'') NaT,
      survey_row ''u2'' ''s2'' (Some ''First, which year?'') (Some ''2011'') NaT] = Pct2009 50"
  using second_output_range
      [of "[survey_row ''u1'' ''s1'' (Some ''First, which year?'') (Some ''2009'') NaT,
            survey_row ''u2'' ''s2'' (Some ''First, which year?'') (Some ''2011'') NaT]"]
  by (simp add: second_output_def question_startswith_def survey_row_def percentage_def)

end
