(* ===== verification/PerUser.thy ===== *)
theory PerUser
  imports Breakdown
begin

text \<open>
  The per-user percentage breakdown:
  \<^verbatim>\<open>calculate_drought_answer_percentages\<close> of \<^verbatim>\<open>src/geneteprocess.py\<close>.
  The rows of the \<^verbatim>\<open>Now,\<close> questions are grouped by user and answer
  (\<^verbatim>\<open>groupby(...).size()\<close>: groups in key order, rows with a missing key left
  out), the counts are summed per user, the two tables are merged on the user, each
  count is divided by its user's total, and the result is sorted by user and falling
  percentage. The two-key sort is stable; it is modelled as pandas computes it, by the
  stable sort on the second key followed by the stable sort on the first.

  The body of the function (\<open>drought_body\<close>) runs inside \<^verbatim>\<open>try\<close>; its handlers
  are \<^const>\<open>stdin_handlers\<close>, so an input without header line ends with the message
  "No data to parse" and status 1.

  \<open>per_user_table_alt\<close> is the closed form that the lemmas use: the merge is one-to-one,
  and a user's total is the number of that user's counted answers. \<open>user_part\<close> reads
  the rows of one user as a table of answers and percentages.
\<close>

subsection \<open>Definitions\<close>

datatype per_user_outcome = NoNowQuestionsInInput | PerUserTable "(string \<times> string \<times> rat) list"

definition per_user_required :: "string list" where
  "per_user_required = [''hashed_user_id'', ''question'', ''answer'']"

definition present_pairs :: "'t row list \<Rightarrow> (string \<times> string) list" where
  "present_pairs rs =
     concat (map (\<lambda>r. case hashed_user_id r of
                          None \<Rightarrow> []
                        | Some u \<Rightarrow> (case answer r of None \<Rightarrow> [] | Some a \<Rightarrow> [(u, a)])) rs)"

definition groupby_sum :: "('k::linorder \<times> nat) list \<Rightarrow> ('k \<times> nat) list" where
  "groupby_sum kcs =
     map (\<lambda>k. (k, sum_list (map snd (filter (\<lambda>kc. fst kc = k) kcs))))
       (sort (remdups (map fst kcs)))"

definition merge_on_user ::
  "((string \<times> string) \<times> nat) list \<Rightarrow> (string \<times> nat) list \<Rightarrow>
   (string \<times> string \<times> nat \<times> nat) list" where
  "merge_on_user answer_counts totals =
     concat (map (\<lambda>ac. map (\<lambda>ut. (fst (fst ac), snd (fst ac), snd ac, snd ut))
                          (filter (\<lambda>ut. fst ut = fst (fst ac)) totals)) answer_counts)"

definition sort_user_percentage ::
  "(string \<times> string \<times> rat) list \<Rightarrow> (string \<times> string \<times> rat) list" where
  "sort_user_percentage tbl = sort_key fst (sort_values_desc (\<lambda>r. snd (snd r)) tbl)"

definition per_user_table :: "'t row list \<Rightarrow> (string \<times> string \<times> rat) list" where
  "per_user_table filtered =
     (let answer_counts = groupby_size (present_pairs filtered);
          total_answers_per_user = groupby_sum (map (\<lambda>ac. (fst (fst ac), snd ac)) answer_counts);
          merged_df = merge_on_user answer_counts total_answers_per_user
      in sort_user_percentage
           (map (\<lambda>m. (fst m, fst (snd m), percentage (fst (snd (snd m))) (snd (snd (snd m)))))
              merged_df))"

definition drought_body :: "'t frame \<Rightarrow> error + per_user_outcome" where
  "drought_body stdin =
     bind_err (read_csv stdin) (\<lambda>df.
     let missing = missing_columns per_user_required df
     in if missing \<noteq> [] then Inl (MissingColumns missing)
        else
          let filtered = filter (question_startswith ''Now,'') (rows df)
          in if filtered = [] then Inr NoNowQuestionsInInput
             else Inr (PerUserTable (per_user_table filtered)))"

definition calculate_drought_answer_percentages :: "'t frame \<Rightarrow> error + per_user_outcome" where
  "calculate_drought_answer_percentages stdin = catch_err (drought_body stdin) stdin_handlers"

lemmas per_user_defs =
  calculate_drought_answer_percentages_def drought_body_def read_csv_def
  per_user_table_def sort_user_percentage_def
  merge_on_user_def groupby_sum_def groupby_size_def present_pairs_def per_user_required_def

subsection \<open>Grouping\<close>

lemma sum_counts_of_group:
  "sum_list (map (count_list ks) (filter P (sort (remdups ks)))) = length (filter P ks)"
proof -
  have "sum_list (map (count_list ks) (filter P (sort (remdups ks)))) =
        sum (count_list ks) (set (filter P ks))"
    by (subst sum_list_distinct_conv_sum_set) (auto simp: distinct_filter)
  also have "\<dots> = sum (count_list (filter P ks)) (set (filter P ks))"
    by (rule sum.cong) (auto simp: count_list_filter)
  also have "\<dots> = length (filter P ks)"
    by (rule sum_count_set) simp_all
  finally show ?thesis .
qed

lemma groupby_sum_lookup:
  assumes "u \<in> fst ` set kcs"
  shows "filter (\<lambda>ut. fst ut = u) (groupby_sum kcs) =
         [(u, sum_list (map snd (filter (\<lambda>kc. fst kc = u) kcs)))]"
proof -
  let ?g = "\<lambda>k. (k, sum_list (map snd (filter (\<lambda>kc. fst kc = k) kcs)))"
  have "filter (\<lambda>ut. fst ut = u) (groupby_sum kcs) =
        map ?g (filter (\<lambda>k. k = u) (sort (remdups (map fst kcs))))"
    by (simp add: groupby_sum_def filter_map comp_def)
  also have "filter (\<lambda>k. k = u) (sort (remdups (map fst kcs))) = [u]"
    using assms by (intro filter_eq_singleton) auto
  finally show ?thesis by simp
qed

text \<open>The number of counted answers of a user.\<close>

definition answers_of :: "string \<Rightarrow> (string \<times> string) list \<Rightarrow> string list" where
  "answers_of u ks = map snd (filter (\<lambda>k. fst k = u) ks)"

lemma user_total:
  "sum_list (map snd (filter (\<lambda>kc. fst kc = u)
     (map (\<lambda>ac. (fst (fst ac), snd ac)) (groupby_size ks)))) = length (answers_of u ks)"
proof -
  have "filter (\<lambda>kc. fst kc = u) (map (\<lambda>ac. (fst (fst ac), snd ac)) (groupby_size ks)) =
        map (\<lambda>k. (fst k, count_list ks k)) (filter (\<lambda>k. fst k = u) (sort (remdups ks)))"
    by (simp add: groupby_size_def filter_map comp_def)
  then show ?thesis
    by (simp add: comp_def sum_counts_of_group answers_of_def)
qed

definition per_user_unsorted :: "(string \<times> string) list \<Rightarrow> (string \<times> string \<times> rat) list" where
  "per_user_unsorted ks =
     map (\<lambda>kc. (fst (fst kc), snd (fst kc), percentage (snd kc) (length (answers_of (fst (fst kc)) ks))))
       (groupby_size ks)"

lemma per_user_table_alt:
  "per_user_table rs = sort_user_percentage (per_user_unsorted (present_pairs rs))"
proof -
  let ?ks = "present_pairs rs"
  let ?ac = "groupby_size ?ks"
  let ?tot = "groupby_sum (map (\<lambda>ac. (fst (fst ac), snd ac)) ?ac)"
  have one: "map (\<lambda>ut. (fst (fst kc), snd (fst kc), snd kc, snd ut))
               (filter (\<lambda>ut. fst ut = fst (fst kc)) ?tot) =
             [(fst (fst kc), snd (fst kc), snd kc, length (answers_of (fst (fst kc)) ?ks))]"
    if "kc \<in> set ?ac" for kc
  proof -
    from that have "fst (fst kc) \<in> fst ` set (map (\<lambda>ac. (fst (fst ac), snd ac)) ?ac)"
      by force
    then show ?thesis
      by (simp add: groupby_sum_lookup user_total)
  qed
  have "merge_on_user ?ac ?tot =
        map (\<lambda>kc. (fst (fst kc), snd (fst kc), snd kc, length (answers_of (fst (fst kc)) ?ks))) ?ac"
    unfolding merge_on_user_def
    by (rule concat_map_singleton) (rule one)
  then show ?thesis
    by (simp add: per_user_table_def Let_def per_user_unsorted_def comp_def)
qed

subsection \<open>The rows of one user\<close>

definition user_part :: "string \<Rightarrow> (string \<times> string \<times> rat) list \<Rightarrow> (string \<times> rat) list" where
  "user_part u tbl = map snd (filter (\<lambda>r. fst r = u) tbl)"

lemma user_part_sorted_table:
  "user_part u (sort_user_percentage tbl) = sort_values_desc snd (user_part u tbl)"
proof -
  have "filter (\<lambda>r. fst r = u) (sort_user_percentage tbl) =
        sort_values_desc (\<lambda>r. snd (snd r)) (filter (\<lambda>r. fst r = u) tbl)"
    by (simp only: sort_user_percentage_def sort_key_stable filter_sort_values_desc)
  then show ?thesis
    by (simp add: user_part_def map_sort_values_desc)
qed

lemma count_pair_eq: "count_list ks (u, a) = count_list (answers_of u ks) a"
  by (induction ks) (auto simp: answers_of_def)

lemma user_part_unsorted:
  "user_part u (per_user_unsorted ks) =
     map (\<lambda>a. (a, percentage (count_list (answers_of u ks) a) (length (answers_of u ks))))
       (map snd (filter (\<lambda>k. fst k = u) (sort (remdups ks))))"
proof -
  have "filter (\<lambda>r. fst r = u) (per_user_unsorted ks) =
        map (\<lambda>k. (fst k, snd k, percentage (count_list ks k) (length (answers_of (fst k) ks))))
          (filter (\<lambda>k. fst k = u) (sort (remdups ks)))"
    by (simp add: per_user_unsorted_def groupby_size_def filter_map comp_def)
  then have "user_part u (per_user_unsorted ks) =
        map (\<lambda>k. (snd k, percentage (count_list ks k) (length (answers_of (fst k) ks))))
          (filter (\<lambda>k. fst k = u) (sort (remdups ks)))"
    by (simp add: user_part_def comp_def)
  also have "\<dots> = map (\<lambda>k. (snd k, percentage (count_list (answers_of u ks) (snd k))
                                   (length (answers_of u ks))))
                       (filter (\<lambda>k. fst k = u) (sort (remdups ks)))"
    by (rule map_cong) (auto simp: count_pair_eq [symmetric])
  finally show ?thesis by (simp add: comp_def)
qed

lemma user_answers_distinct:
  "distinct (map snd (filter (\<lambda>k. fst k = u) (sort (remdups ks))))"
  by (auto simp: distinct_map inj_on_def intro!: distinct_filter)

lemma user_answers_set:
  "set (map snd (filter (\<lambda>k. fst k = u) (sort (remdups ks)))) = set (answers_of u ks)"
  by (auto simp: answers_of_def)

lemma set_user_part:
  "set (user_part u (per_user_table rs)) =
   (\<lambda>a. (a, percentage (count_list (answers_of u (present_pairs rs)) a)
                        (length (answers_of u (present_pairs rs)))))
     ` set (answers_of u (present_pairs rs))"
  by (simp add: per_user_table_alt user_part_sorted_table pd_simps
      user_part_unsorted image_image flip: user_answers_set set_map)

lemma distinct_user_part: "distinct (map fst (user_part u (per_user_table rs)))"
  by (simp add: per_user_table_alt user_part_sorted_table pd_simps
      user_part_unsorted comp_def user_answers_distinct [unfolded comp_def])

lemma user_part_refines_spec:
  "map_of (user_part u (per_user_table rs)) = breakdown_spec (answers_of u (present_pairs rs))"
  by (rule map_of_breakdown_spec) (simp_all add: distinct_user_part set_user_part)

lemma answers_of_present_pairs:
  "answers_of u (present_pairs (filter (question_startswith p) rs)) =
   matched_answers (filter (\<lambda>r. hashed_user_id r = Some u) rs) p"
  by (induction rs)
    (auto simp: answers_of_def present_pairs_def matched_answers_def split: option.splits)

lemma drought_cases:
  "calculate_drought_answer_percentages df =
     (if columns df = [] then Inl NoDataToParse
      else if \<not> set per_user_required \<subseteq> set (columns df)
        then Inl (MissingColumns (missing_columns per_user_required df))
      else if filter (question_startswith ''Now,'') (rows df) = [] then Inr NoNowQuestionsInInput
      else Inr (PerUserTable (per_user_table (filter (question_startswith ''Now,'') (rows df)))))"
  by (simp add: calculate_drought_answer_percentages_def drought_body_def Let_def
      missing_columns_Nil_iff)

lemma drought_with_columns:
  assumes "set per_user_required \<subseteq> set (columns df)"
  shows "calculate_drought_answer_percentages df =
     (if filter (question_startswith ''Now,'') (rows df) = [] then Inr NoNowQuestionsInInput
      else Inr (PerUserTable (per_user_table (filter (question_startswith ''Now,'') (rows df)))))"
proof -
  from assms have "columns df \<noteq> []"
    by (auto simp: per_user_required_def)
  with assms show ?thesis
    by (simp add: drought_cases)
qed

lemma present_pairs_Nil_iff:
  "present_pairs rs = [] \<longleftrightarrow> (\<forall>r \<in> set rs. hashed_user_id r = None \<or> answer r = None)"
  by (induction rs) (auto simp: present_pairs_def split: option.splits)

lemma length_per_user_table: "length (per_user_table rs) = length (remdups (present_pairs rs))"
  by (simp add: per_user_table_alt sort_user_percentage_def per_user_unsorted_def
      groupby_size_def pd_simps)

lemma per_user_table_Nil_iff: "per_user_table rs = [] \<longleftrightarrow> present_pairs rs = []"
  by (metis length_0_conv length_per_user_table remdups_eq_nil_iff)

subsection \<open>Properties\<close>

text \<open>
  C7. In the per-user table the percentages of every user who has a counted answer sum
  to 100; a user without counted answers has no rows.
\<close>

theorem per_user_sums_to_100:
  "sum_list (map snd (user_part u (per_user_table rs))) =
     (if answers_of u (present_pairs rs) = [] then 0 else 100)"
proof -
  let ?A = "answers_of u (present_pairs rs)"
  let ?D = "map snd (filter (\<lambda>k. fst k = u) (sort (remdups (present_pairs rs))))"
  have "sum_list (map snd (user_part u (per_user_table rs))) =
        sum_list (map (\<lambda>a. percentage (count_list ?A a) (length ?A)) ?D)"
    by (simp add: per_user_table_alt user_part_sorted_table pd_simps
        user_part_unsorted comp_def)
  also have "\<dots> = percentage (sum_list (map (count_list ?A) ?D)) (length ?A)"
    by (rule sum_list_percentage)
  also have "sum_list (map (count_list ?A) ?D) = sum (count_list ?A) (set ?A)"
    by (simp only: sum_list_distinct_conv_sum_set [OF user_answers_distinct] user_answers_set)
  also have "\<dots> = length ?A"
    by (rule sum_count_set) simp_all
  finally show ?thesis
    by (cases "?A = []") simp_all
qed

text \<open>
  C14. The per-user table is ordered by user, and within each user by falling percentage;
  no pair of user and answer occurs twice.
\<close>

theorem per_user_sorted:
  "sorted (map fst (per_user_table rs)) \<and>
   sorted (rev (map snd (user_part u (per_user_table rs)))) \<and>
   distinct (map fst (user_part u (per_user_table rs)))"
proof -
  have "sorted (map fst (per_user_table rs))"
    by (simp add: per_user_table_alt sort_user_percentage_def)
  moreover have "sorted (rev (map snd (user_part u (per_user_table rs))))"
    by (simp add: per_user_table_alt user_part_sorted_table pd_simps)
  ultimately show ?thesis
    by (simp add: distinct_user_part)
qed

text \<open>
  C36. The per-user script prints a table without rows (the header line alone) exactly
  when the input has the required columns and rows of \<^verbatim>\<open>Now,\<close> questions, but none
  of these rows has both a user and an answer. The message that no such question was
  found is not printed in that case.
\<close>

theorem drought_empty_table_iff:
  "calculate_drought_answer_percentages df = Inr (PerUserTable []) \<longleftrightarrow>
   columns df \<noteq> [] \<and> set per_user_required \<subseteq> set (columns df) \<and>
   (\<exists>r \<in> set (rows df). question_startswith ''Now,'' r) \<and>
   (\<forall>r \<in> set (rows df). question_startswith ''Now,'' r \<longrightarrow>
      hashed_user_id r = None \<or> answer r = None)"
  by (auto simp: drought_cases per_user_table_Nil_iff present_pairs_Nil_iff filter_empty_conv)

theorem drought_empty_table_iff_witness:
  "calculate_drought_answer_percentages
     \<lparr>columns = survey_columns,
      rows = [survey_row ''u1'' ''s1'' (Some ''Now, drought?'') None NaT,
              survey_row ''u2'' ''s2'' (Some ''First, which year?'') (Some ''2009'') NaT]\<rparr> =
   Inr (PerUserTable [])"
  using drought_empty_table_iff [of
      "\<lparr>columns = survey_columns,
        rows = [survey_row ''u1'' ''s1'' (Some ''Now, drought?'') None NaT,
                survey_row ''u2'' ''s2'' (Some ''First, which year?'') (Some ''2009'') NaT]\<rparr>"]
  by (simp add: per_user_required_def question_startswith_def example_defs)

text \<open>
  A worked table: user u1 answered B twice and A once, user u2 answered B once (a
  fourth row of u1 has no answer and is not counted); u1 comes first, with B before A.
\<close>

theorem per_user_scenario:
  "per_user_table
     [survey_row ''u2'' ''s'' (Some ''Now, a'') (Some ''B'') t,
      survey_row ''u1'' ''s'' (Some ''Now, a'') (Some ''B'') t,
      survey_row ''u1'' ''s'' (Some ''Now, b'') (Some ''A'') t,
      survey_row ''u1'' ''s'' (Some ''Now, c'') (Some ''B'') t,
      survey_row ''u1'' ''s'' (Some ''Now, c'') None t] =
   [(''u1'', ''B'', 200 / 3), (''u1'', ''A'', 100 / 3), (''u2'', ''B'', 100)]"
  by (simp add: per_user_defs survey_row_def breakdown_defs)

end
