(* ===== verification/Summary.thy ===== *)
theory Summary
  imports Frame
begin

text \<open>
  The answer summaries of \<^verbatim>\<open>src/summarize_noki.py\<close>. The script reads the export
  as it is: \<^verbatim>\<open>created_at\<close> is not parsed, so the table is a \<open>cell frame\<close> and times
  are compared as strings.
  \<^item> \<open>get_unique_answers_for_question\<close>: the present answers of the rows whose
    question is exactly the given text, each once, in order of first appearance.
  \<^item> \<open>generate_full_summary\<close>: one row per group of (user, time, question) with the
    distinct answers of the group joined by a comma. \<^verbatim>\<open>groupby\<close> leaves out the rows
    with a missing key and orders the groups by key (\<open>group_keys\<close>); the function
    applied to a group (\<open>join_unique\<close>) raises \<^verbatim>\<open>TypeError\<close> when the group holds a
    missing answer, because \<^verbatim>\<open>str.join\<close> takes strings only; the final sort by user
    and time is two stable passes (\<open>sort_user_time\<close>).
  \<^item> \<open>process_data_from_stdin\<close>: reading the input, with the handlers that end the
    run with status 1 when the input is empty.
  \<^item> \<open>main_summary\<close>: reading the input and the choice between the two by the option
    \<^verbatim>\<open>--filter-question\<close>, which Python tests for truth.
  The lemmas give the closed form of the summary (\<open>summary_table\<close>), show that the
  final sort does not change it, and characterise the inputs on which it fails.
\<close>

subsection \<open>Definitions\<close>

type_synonym group = "string \<times> string \<times> string"
type_synonym summary_line = "string \<times> string \<times> string \<times> string"

datatype summary_output = Answers "string list" | SummaryTable "summary_line list"

definition process_data_from_stdin :: "'t frame \<Rightarrow> error + 't frame" where
  "process_data_from_stdin stdin = catch_err (read_csv stdin) stdin_handlers"

definition get_unique_answers_for_question :: "'t frame \<Rightarrow> string \<Rightarrow> error + string list" where
  "get_unique_answers_for_question df question_text =
     (if ''question'' \<notin> set (columns df) \<or> ''answer'' \<notin> set (columns df)
      then Inl ColumnNotFound
      else
        let filtered_df = filter (\<lambda>r. question r = Some question_text) (rows df);
            unique_answers = unique (dropna (map answer filtered_df))
        in Inr unique_answers)"

definition summary_required :: "string list" where
  "summary_required = [''hashed_user_id'', ''created_at'', ''question'', ''answer'']"

definition group_key :: "cell row \<Rightarrow> group option" where
  "group_key r =
     (case hashed_user_id r of
        None \<Rightarrow> None
      | Some u \<Rightarrow>
          (case created_at r of
             None \<Rightarrow> None
           | Some t \<Rightarrow> (case question r of None \<Rightarrow> None | Some q \<Rightarrow> Some (u, t, q))))"

definition group_keys :: "cell row list \<Rightarrow> group list" where
  "group_keys rs = sort (remdups (dropna (map group_key rs)))"

definition group_answers :: "group \<Rightarrow> cell row list \<Rightarrow> cell list" where
  "group_answers k rs = map answer (filter (\<lambda>r. group_key r = Some k) rs)"

definition join_unique :: "cell list \<Rightarrow> error + string" where
  "join_unique x =
     (if None \<in> set (unique x) then Inl TypeError
      else Inr (join_str '', '' (dropna (unique x))))"

definition reset_index :: "group \<Rightarrow> string \<Rightarrow> summary_line" where
  "reset_index k a = (fst k, fst (snd k), snd (snd k), a)"

definition groupby_apply_join :: "cell row list \<Rightarrow> error + summary_line list" where
  "groupby_apply_join rs =
     traverse_err
       (\<lambda>k. bind_err (join_unique (group_answers k rs)) (\<lambda>a. Inr (reset_index k a)))
       (group_keys rs)"

definition sort_user_time :: "summary_line list \<Rightarrow> summary_line list" where
  "sort_user_time tbl = sort_key fst (sort_key (\<lambda>l. fst (snd l)) tbl)"

definition generate_full_summary :: "cell frame \<Rightarrow> error + summary_line list" where
  "generate_full_summary df =
     (if \<not> (\<forall>col \<in> set summary_required. col \<in> set (columns df))
      then Inl (MissingColumns (missing_columns summary_required df))
      else bind_err (groupby_apply_join (rows df))
             (\<lambda>summary_df. Inr (sort_user_time summary_df)))"

definition main_summary :: "string option \<Rightarrow> cell frame \<Rightarrow> error + summary_output" where
  "main_summary filter_question stdin =
     bind_err (process_data_from_stdin stdin) (\<lambda>data_frame.
     case filter_question of
       Some question_to_filter \<Rightarrow>
         if question_to_filter \<noteq> []
         then bind_err (get_unique_answers_for_question data_frame question_to_filter)
                (\<lambda>answers. Inr (Answers answers))
         else bind_err (generate_full_summary data_frame) (\<lambda>t. Inr (SummaryTable t))
     | None \<Rightarrow> bind_err (generate_full_summary data_frame) (\<lambda>t. Inr (SummaryTable t)))"

lemmas summary_defs =
  get_unique_answers_for_question_def generate_full_summary_def groupby_apply_join_def
  group_keys_def group_answers_def group_key_def join_unique_def reset_index_def
  sort_user_time_def summary_required_def main_summary_def process_data_from_stdin_def

text \<open>
  The closed form: the table that \<open>generate_full_summary\<close> prints when it does not
  fail, and the rows on which it fails.
\<close>

definition summary_table :: "cell row list \<Rightarrow> summary_line list" where
  "summary_table rs =
     map (\<lambda>k. reset_index k (join_str '', '' (unique (dropna (group_answers k rs)))))
       (group_keys rs)"

definition unjoinable :: "cell row \<Rightarrow> bool" where
  "unjoinable r \<longleftrightarrow> group_key r \<noteq> None \<and> answer r = None"

subsection \<open>Groups\<close>

lemma group_key_Some_iff:
  "group_key r = Some (u, t, q) \<longleftrightarrow>
   hashed_user_id r = Some u \<and> created_at r = Some t \<and> question r = Some q"
  by (auto simp: group_key_def split: option.splits)

lemma set_group_keys: "set (group_keys rs) = {k. \<exists>r\<in>set rs. group_key r = Some k}"
  by (auto simp: group_keys_def pd_simps intro: rev_image_eqI)

lemma sorted_group_keys [simp]: "sorted (group_keys rs)"
  by (simp add: group_keys_def)

lemma distinct_group_keys [simp]: "distinct (group_keys rs)"
  by (simp add: group_keys_def)

lemma group_keys_Nil_iff: "group_keys rs = [] \<longleftrightarrow> (\<forall>r\<in>set rs. group_key r = None)"
proof -
  have "group_keys rs = [] \<longleftrightarrow> dropna (map group_key rs) = []"
    unfolding group_keys_def by (metis set_empty set_remdups set_sort)
  then show ?thesis by (simp add: dropna_Nil_iff)
qed

lemma group_answers_nonempty: "k \<in> set (group_keys rs) \<Longrightarrow> group_answers k rs \<noteq> []"
  by (auto simp: set_group_keys group_answers_def filter_empty_conv)

lemma None_in_group_answers:
  "None \<in> set (group_answers k rs) \<longleftrightarrow> (\<exists>r\<in>set rs. group_key r = Some k \<and> answer r = None)"
  by (auto simp: group_answers_def image_iff)

lemma dropna_unique: "None \<notin> set x \<Longrightarrow> dropna (unique x) = unique (dropna x)"
proof (induction x rule: unique.induct)
  case (2 c cs)
  then obtain v where v: "c = Some v" by (cases c) auto
  have "dropna (filter (\<lambda>y. y \<noteq> Some v) cs) = filter (\<lambda>y. y \<noteq> v) (dropna cs)"
    by (induction cs) (auto split: option.splits)
  with 2 v show ?case by simp
qed simp

lemma join_unique_cases:
  "join_unique x =
     (if None \<in> set x then Inl TypeError else Inr (join_str '', '' (unique (dropna x))))"
  by (simp add: join_unique_def dropna_unique)

subsection \<open>The summary\<close>

lemma reset_index_key [simp]:
  "(\<lambda>l. (fst l, fst (snd l), fst (snd (snd l)))) (reset_index k a) = k"
  by (simp add: reset_index_def)

lemma map_key_summary_table:
  "map (\<lambda>l. (fst l, fst (snd l), fst (snd (snd l)))) (summary_table rs) = group_keys rs"
  by (simp add: summary_table_def comp_def reset_index_def)

lemma sorted_fst_if_sorted_triple:
  fixes ks :: "('a::linorder \<times> 'b::linorder \<times> 'c::linorder) list"
  shows "sorted ks \<Longrightarrow> sorted (map (\<lambda>k. (fst k, fst (snd k))) ks)"
  by (induction ks) (auto simp: less_eq_prod_def less_prod_def)

lemma sort_user_time_summary_table: "sort_user_time (summary_table rs) = summary_table rs"
proof -
  have "sorted (map (\<lambda>k. (fst k, fst (snd k))) (group_keys rs))"
    by (rule sorted_fst_if_sorted_triple) simp
  then have "sorted (map (\<lambda>l. (fst l, fst (snd l))) (summary_table rs))"
    by (simp add: summary_table_def comp_def reset_index_def)
  then show ?thesis
    unfolding sort_user_time_def by (rule sort_key_two_pass_id)
qed

lemma groupby_apply_join_ok:
  assumes "\<forall>r\<in>set rs. \<not> unjoinable r"
  shows "groupby_apply_join rs = Inr (summary_table rs)"
  unfolding groupby_apply_join_def summary_table_def
proof (rule traverse_err_map)
  fix k assume "k \<in> set (group_keys rs)"
  from assms have "None \<notin> set (group_answers k rs)"
    unfolding None_in_group_answers unjoinable_def by (metis option.distinct(1))
  then show "bind_err (join_unique (group_answers k rs)) (\<lambda>a. Inr (reset_index k a)) =
             Inr (reset_index k (join_str '', '' (unique (dropna (group_answers k rs)))))"
    by (simp add: join_unique_cases)
qed

lemma groupby_apply_join_fails:
  assumes "r \<in> set rs" "unjoinable r"
  shows "groupby_apply_join rs = Inl TypeError"
proof -
  from assms obtain k where k: "group_key r = Some k" "answer r = None"
    by (auto simp: unjoinable_def)
  with assms have "k \<in> set (group_keys rs)" "None \<in> set (group_answers k rs)"
    by (auto simp: set_group_keys None_in_group_answers)
  then have "\<not> (\<forall>k\<in>set (group_keys rs). \<exists>y.
      bind_err (join_unique (group_answers k rs)) (\<lambda>a. Inr (reset_index k a)) = Inr y)"
    by (auto simp: join_unique_cases)
  then obtain e where e: "groupby_apply_join rs = Inl e"
    unfolding groupby_apply_join_def traverse_err_total [symmetric]
    by (cases "traverse_err (\<lambda>k. bind_err (join_unique (group_answers k rs))
          (\<lambda>a. Inr (reset_index k a))) (group_keys rs)") auto
  then have "e = TypeError"
    unfolding groupby_apply_join_def
    by (auto dest!: traverse_err_Inl simp: bind_err_eq_Inl join_unique_cases split: if_splits)
  with e show ?thesis by simp
qed

lemma generate_full_summary_cases:
  "generate_full_summary df =
     (if \<not> set summary_required \<subseteq> set (columns df)
        then Inl (MissingColumns (missing_columns summary_required df))
      else if \<exists>r\<in>set (rows df). unjoinable r then Inl TypeError
      else Inr (summary_table (rows df)))"
  by (auto simp: generate_full_summary_def subset_iff groupby_apply_join_fails
      groupby_apply_join_ok sort_user_time_summary_table)

subsection \<open>Unique answers\<close>

lemma get_unique_answers_with_columns:
  assumes "''question'' \<in> set (columns df)" "''answer'' \<in> set (columns df)"
  shows "get_unique_answers_for_question df q =
         Inr (unique (dropna (map answer (filter (\<lambda>r. question r = Some q) (rows df)))))"
  using assms by (simp add: get_unique_answers_for_question_def)

lemma set_unique_answers:
  assumes "get_unique_answers_for_question df q = Inr answers"
  shows "distinct answers"
    and "set answers = {a. \<exists>r\<in>set (rows df). question r = Some q \<and> answer r = Some a}"
proof -
  from assms have
    eq: "answers = unique (dropna (map answer (filter (\<lambda>r. question r = Some q) (rows df))))"
    by (simp add: get_unique_answers_for_question_def split: if_splits)
  show "distinct answers" by (simp add: eq pd_simps)
  show "set answers = {a. \<exists>r\<in>set (rows df). question r = Some q \<and> answer r = Some a}"
    unfolding eq by (auto simp: pd_simps image_iff)
qed

lemma group_filter_eq:
  "filter (\<lambda>r. group_key r = Some (u, t, q)) rs =
   filter (\<lambda>r. hashed_user_id r = Some u \<and> created_at r = Some t \<and> question r = Some q) rs"
  by (simp add: group_key_Some_iff)

subsection \<open>Example export\<close>

definition example_export :: "cell frame" where
  "example_export =
     \<lparr>columns = survey_columns,
      rows = [survey_row ''u2'' ''s2'' (Some ''Q1'') (Some ''x'') (Some ''2024-01-02''),
              survey_row ''u1'' ''s1'' (Some ''Q1'') (Some ''b'') (Some ''2024-01-01''),
              survey_row ''u1'' ''s1'' (Some ''Q1'') (Some ''a'') (Some ''2024-01-01''),
              survey_row ''u1'' ''s1'' (Some ''Q1'') (Some ''b'') (Some ''2024-01-01''),
              survey_row ''u1'' ''s1'' None None (Some ''2024-01-01'')]\<rparr>"

definition example_export_gap :: "cell frame" where
  "example_export_gap =
     \<lparr>columns = survey_columns,
      rows = rows example_export @
             [survey_row ''u3'' ''s3'' (Some ''Q2'') None (Some ''2024-01-03'')]\<rparr>"

lemmas example_export_defs = example_export_def example_export_gap_def example_defs

subsection \<open>Properties\<close>

text \<open>
  C29. The full summary has exactly one line for every combination of user, time and
  question that occurs in a row with all three present; the lines are in ascending
  order of (user, time, question) and no combination occurs twice.
\<close>

theorem full_summary_one_line_per_group:
  assumes "generate_full_summary df = Inr tbl"
  shows "sorted (map (\<lambda>l. (fst l, fst (snd l), fst (snd (snd l)))) tbl) \<and>
         distinct (map (\<lambda>l. (fst l, fst (snd l), fst (snd (snd l)))) tbl) \<and>
         set (map (\<lambda>l. (fst l, fst (snd l), fst (snd (snd l)))) tbl) =
           {(u, t, q). \<exists>r\<in>set (rows df). hashed_user_id r = Some u \<and>
                          created_at r = Some t \<and> question r = Some q}"
proof -
  from assms have "tbl = summary_table (rows df)"
    by (simp add: generate_full_summary_cases split: if_splits)
  then show ?thesis
    by (auto simp: map_key_summary_table set_group_keys group_key_Some_iff)
qed

theorem full_summary_one_line_per_group_witness:
  "generate_full_summary example_export =
     Inr [(''u1'', ''2024-01-01'', ''Q1'', ''b, a''), (''u2'', ''2024-01-02'', ''Q1'', ''x'')] \<and>
   (''u1'', ''2024-01-01'', ''Q1'') \<in>
     {(u, t, q). \<exists>r\<in>set (rows example_export). hashed_user_id r = Some u \<and>
                    created_at r = Some t \<and> question r = Some q}"
  using full_summary_one_line_per_group [of example_export
      "[(''u1'', ''2024-01-01'', ''Q1'', ''b, a''), (''u2'', ''2024-01-02'', ''Q1'', ''x'')]"]
  by (simp add: summary_defs example_export_defs)

text \<open>
  C30. The answer cell of a summary line is the comma-joined list of the distinct
  answers of its group, in the order in which they first appear in the input.
\<close>

theorem full_summary_line:
  assumes "generate_full_summary df = Inr tbl" "(u, t, q, a) \<in> set tbl"
  shows "a = join_str '', ''
               (unique (dropna (map answer
                  (filter (\<lambda>r. hashed_user_id r = Some u \<and> created_at r = Some t \<and>
                                question r = Some q) (rows df)))))"
proof -
  from assms have "(u, t, q, a) \<in> set (summary_table (rows df))"
    by (simp add: generate_full_summary_cases split: if_splits)
  then show ?thesis
    by (auto simp: summary_table_def reset_index_def group_answers_def group_filter_eq)
qed

theorem full_summary_line_witness:
  "join_str '', ''
     (unique (dropna (map answer
        (filter (\<lambda>r. hashed_user_id r = Some ''u1'' \<and> created_at r = Some ''2024-01-01'' \<and>
                      question r = Some ''Q1'') (rows example_export))))) = ''b, a''"
  using full_summary_line [of example_export
      "[(''u1'', ''2024-01-01'', ''Q1'', ''b, a''), (''u2'', ''2024-01-02'', ''Q1'', ''x'')]"
      "''u1''" "''2024-01-01''" "''Q1''" "''b, a''"]
  by (simp add: summary_defs example_export_defs)

text \<open>
  C28. The full summary is produced exactly when the four columns are present and no row
  that belongs to a group lacks its answer: one such row makes \<^verbatim>\<open>str.join\<close> raise,
  and the whole summary is lost, not only the line of that group.
\<close>

theorem full_summary_returns_iff:
  "(\<exists>tbl. generate_full_summary df = Inr tbl) \<longleftrightarrow>
   set summary_required \<subseteq> set (columns df) \<and>
   (\<forall>r\<in>set (rows df). hashed_user_id r = None \<or> created_at r = None \<or>
                         question r = None \<or> answer r \<noteq> None)"
proof -
  have "unjoinable r \<longleftrightarrow> \<not> (hashed_user_id r = None \<or> created_at r = None \<or>
                              question r = None \<or> answer r \<noteq> None)" for r :: "cell row"
    by (auto simp: unjoinable_def group_key_def split: option.splits)
  then show ?thesis
    by (auto simp: generate_full_summary_cases)
qed

theorem full_summary_returns_iff_witness:
  "generate_full_summary example_export_gap = Inl TypeError \<and>
   set summary_required \<subseteq> set (columns example_export_gap)"
  using full_summary_returns_iff [of example_export_gap]
  by (simp add: summary_defs example_export_defs)

text \<open>
  C33. The sort by user and time that follows the grouping changes nothing: the grouped
  table is already in that order.
\<close>

theorem summary_final_sort_is_identity:
  assumes "groupby_apply_join rs = Inr tbl"
  shows "sort_user_time tbl = tbl"
proof (cases "\<exists>r\<in>set rs. unjoinable r")
  case True
  with assms show ?thesis by (auto simp: groupby_apply_join_fails)
next
  case False
  with assms have "tbl = summary_table rs"
    by (simp add: groupby_apply_join_ok)
  then show ?thesis
    by (simp add: sort_user_time_summary_table)
qed

theorem summary_final_sort_is_identity_witness:
  "sort_user_time [(''u1'', ''2024-01-01'', ''Q1'', ''b, a''), (''u2'', ''2024-01-02'', ''Q1'', ''x'')] =
   [(''u1'', ''2024-01-01'', ''Q1'', ''b, a''), (''u2'', ''2024-01-02'', ''Q1'', ''x'')]"
  using summary_final_sort_is_identity [of "rows example_export"
      "[(''u1'', ''2024-01-01'', ''Q1'', ''b, a''), (''u2'', ''2024-01-02'', ''Q1'', ''x'')]"]
  by (simp add: summary_defs example_export_defs)

text \<open>
  C31. With both columns present, \<^verbatim>\<open>--filter-question\<close> prints every present answer
  of the rows whose question is exactly the given text, each answer once.
\<close>

theorem unique_answers_sound:
  assumes "''question'' \<in> set (columns df)" "''answer'' \<in> set (columns df)"
  shows "\<exists>answers. get_unique_answers_for_question df q = Inr answers \<and> distinct answers \<and>
           set answers = {a. \<exists>r\<in>set (rows df). question r = Some q \<and> answer r = Some a}"
proof -
  from assms have "get_unique_answers_for_question df q =
      Inr (unique (dropna (map answer (filter (\<lambda>r. question r = Some q) (rows df)))))"
    by (rule get_unique_answers_with_columns)
  from this set_unique_answers [OF this] show ?thesis by blast
qed

theorem unique_answers_sound_witness:
  "get_unique_answers_for_question example_export ''Q1'' = Inr [''x'', ''b'', ''a'']"
  using unique_answers_sound [of example_export "''Q1''"]
  by (simp add: summary_defs example_export_defs)

text \<open>
  The entry point: an input without header line ends the run before either summary, and
  an empty \<^verbatim>\<open>--filter-question\<close> counts as no option.
\<close>

lemma process_data_from_stdin_cases:
  "process_data_from_stdin stdin =
     (if columns stdin = [] then Inl NoDataToParse else Inr stdin)"
  by (simp add: process_data_from_stdin_def)

lemma main_summary_cases:
  "main_summary filter_question stdin =
     (if columns stdin = [] then Inl NoDataToParse
      else if filter_question = None \<or> filter_question = Some []
        then bind_err (generate_full_summary stdin) (\<lambda>t. Inr (SummaryTable t))
      else bind_err (get_unique_answers_for_question stdin (the filter_question))
             (\<lambda>answers. Inr (Answers answers)))"
  by (auto simp: main_summary_def process_data_from_stdin_cases split: option.splits)

end
