(* ===== verification/Charts.thy ===== *)
theory Charts
  imports Latest Breakdown
begin

text \<open>
  The numbers on the charts: \<^verbatim>\<open>generate_plots\<close>, \<^verbatim>\<open>create_html_report\<close> and the
  entry point of \<^verbatim>\<open>src/processEvacuate.py\<close>, with the plots of the first version
  \<^verbatim>\<open>src/firstworkingprocessEvacuate.py\<close> where they differ. The drawing is
  matplotlib's; what is modelled is what the code computes and writes on the bars:
  \<^item> plot 1, the player types: a bar per type in the order of \<^verbatim>\<open>value_counts\<close>,
    labelled with count and percentage (\<open>plot1_labels\<close>);
  \<^item> plot 2, the evacuation choices: in the current version the counts are reindexed
    to the fixed order \<open>EVAC_ORDER\<close> (\<open>ev_counts\<close>) and divided by their sum, which
    is a division of floats: \<open>None\<close> is NaN (\<open>plot2_labels\<close>); in the first version it
    is computed as plot 1 (\<open>plot2_labels_v1\<close>);
  \<^item> plot 3, choices by player type: the cross table \<open>grouped\<close> (a \<open>crosstab\<close>:
    row labels, column labels, cells), its row totals, and the loop over the drawn bars
    (\<open>plot3_labels\<close>) that finds the cell of bar \<open>i\<close> as row \<open>i mod n_groups\<close>, column
    \<open>i div n_groups\<close>. The bars are drawn column by column (\<open>patch_heights\<close>).
    Positional access is checked (\<open>iloc\<close>, \<open>iloc2\<close>): an index out of range is
    \<open>IndexError\<close>, a modulus by zero \<open>ZeroDivisionError\<close>.
  \<^item> the title of the report (\<open>time_info\<close>, \<open>create_html_report\<close>) and the entry point
    (\<open>main_evacuate\<close>).
  The lemmas show that the loop of plot 3 never fails on a well-formed cross table and
  labels every bar with its own cell, that the shares in a row of plot 3 and in plot 2
  sum to 100 or are undefined, and what the entry point produces.
\<close>

subsection \<open>Plots 1 and 2\<close>

definition EVAC_ORDER :: "string list" where
  "EVAC_ORDER = [''Yep, evacuate!'', ''Heck no! dont evacuate'']"

definition COLOR_MAP :: "(string \<times> string) list" where
  "COLOR_MAP = [(''Yep, evacuate!'', ''lightgreen''), (''Heck no! dont evacuate'', ''coral'')]"

definition value_counts_pct :: "'a option list \<Rightarrow> ('a \<times> rat) list" where
  "value_counts_pct cs =
     (let vc = value_counts cs; n = sum_list (map snd vc)
      in map (\<lambda>ac. (fst ac, percentage (snd ac) n)) vc)"

definition plot1_labels :: "merged_row list \<Rightarrow> (nat \<times> rat) list" where
  "plot1_labels df =
     (let counts = value_counts (map player_type df);
          pcts = value_counts_pct (map player_type df)
      in zip (map snd counts) (map snd pcts))"

definition plot2_labels_v1 :: "merged_row list \<Rightarrow> (nat \<times> rat) list" where
  "plot2_labels_v1 df =
     (let ev_counts = value_counts (map evacuate_choice df);
          ev_pcts = value_counts_pct (map evacuate_choice df)
      in zip (map snd ev_counts) (map snd ev_pcts))"

definition reindex :: "'k list \<Rightarrow> 'v \<Rightarrow> ('k \<times> 'v) list \<Rightarrow> ('k \<times> 'v) list" where
  "reindex order fill_value s =
     map (\<lambda>k. (k, case map_of s k of None \<Rightarrow> fill_value | Some v \<Rightarrow> v)) order"

definition ev_counts :: "merged_row list \<Rightarrow> (string \<times> nat) list" where
  "ev_counts df = reindex EVAC_ORDER 0 (value_counts (map evacuate_choice df))"

definition float_pct :: "nat \<Rightarrow> nat \<Rightarrow> rat option" where
  "float_pct c s = (if s = 0 then None else Some (percentage c s))"

definition iloc :: "'a list \<Rightarrow> nat \<Rightarrow> error + 'a" where
  "iloc xs i = (if i < length xs then Inr (xs ! i) else Inl IndexError)"

definition colors :: "error + string list" where
  "colors =
     traverse_err
       (\<lambda>choice. case map_of COLOR_MAP choice of
                    None \<Rightarrow> Inl (KeyError choice)
                  | Some c \<Rightarrow> Inr c)
       EVAC_ORDER"

definition plot2_labels :: "merged_row list \<Rightarrow> error + (nat \<times> rat option) list" where
  "plot2_labels df =
     (let ev = map snd (ev_counts df);
          ev_pcts = map (\<lambda>c. float_pct c (sum_list ev)) ev
      in traverse_err (\<lambda>iv. bind_err (iloc ev_pcts (fst iv)) (\<lambda>p. Inr (snd iv, p)))
           (enumerate 0 ev))"

subsection \<open>Plot 3\<close>

record crosstab =
  index :: "string list"
  cols :: "string list"
  cells :: "nat list list"

definition wf_crosstab :: "crosstab \<Rightarrow> bool" where
  "wf_crosstab ct \<longleftrightarrow>
     length (cells ct) = length (index ct) \<and>
     list_all (\<lambda>row. length row = length (cols ct)) (cells ct)"

definition type_choice_pairs :: "merged_row list \<Rightarrow> (string \<times> string) list" where
  "type_choice_pairs df =
     concat (map (\<lambda>r. case player_type r of
                          None \<Rightarrow> []
                        | Some p \<Rightarrow> (case evacuate_choice r of None \<Rightarrow> [] | Some e \<Rightarrow> [(p, e)])) df)"

definition unstack :: "((string \<times> string) \<times> nat) list \<Rightarrow> crosstab" where
  "unstack sz =
     (let idx = sort (remdups (map (\<lambda>kc. fst (fst kc)) sz));
          cs = sort (remdups (map (\<lambda>kc. snd (fst kc)) sz))
      in \<lparr>index = idx, cols = cs,
          cells = map (\<lambda>g. map (\<lambda>c. case map_of sz (g, c) of None \<Rightarrow> 0 | Some n \<Rightarrow> n) cs) idx\<rparr>)"

definition reindex_columns :: "string list \<Rightarrow> crosstab \<Rightarrow> crosstab" where
  "reindex_columns order ct =
     \<lparr>index = index ct, cols = order,
      cells = map (\<lambda>row. map (\<lambda>c. case map_of (zip (cols ct) row) c of
                                       None \<Rightarrow> 0
                                     | Some n \<Rightarrow> n) order) (cells ct)\<rparr>"

definition grouped_v1 :: "merged_row list \<Rightarrow> crosstab" where
  "grouped_v1 df = unstack (groupby_size (type_choice_pairs df))"

definition grouped :: "merged_row list \<Rightarrow> crosstab" where
  "grouped df = reindex_columns EVAC_ORDER (unstack (groupby_size (type_choice_pairs df)))"

definition row_totals :: "crosstab \<Rightarrow> nat list" where
  "row_totals ct = map sum_list (cells ct)"

definition patch_heights :: "crosstab \<Rightarrow> nat list" where
  "patch_heights ct =
     concat (map (\<lambda>c. map (\<lambda>row. row ! c) (cells ct)) [0..<length (cols ct)])"

definition iloc2 :: "crosstab \<Rightarrow> nat \<Rightarrow> nat \<Rightarrow> error + nat" where
  "iloc2 ct g c =
     (if g < length (cells ct) \<and> c < length (cols ct) then Inr (cells ct ! g ! c)
      else Inl IndexError)"

definition annotate_patch :: "crosstab \<Rightarrow> nat \<Rightarrow> nat \<Rightarrow> error + (nat \<times> rat) option" where
  "annotate_patch ct i height =
     (let n_groups = length (index ct)
      in if n_groups = 0 then Inl ZeroDivisionError
         else
           let group_idx = i mod n_groups;
               cat_idx = i div n_groups
           in bind_err (iloc2 ct group_idx cat_idx) (\<lambda>count.
              bind_err (iloc (row_totals ct) group_idx) (\<lambda>total_g.
              let pct = (if total_g > 0 then percentage count total_g else 0)
              in Inr (if height > 0 then Some (count, pct) else None))))"

definition plot3_labels :: "crosstab \<Rightarrow> error + (nat \<times> rat) option list" where
  "plot3_labels ct =
     traverse_err (\<lambda>ih. annotate_patch ct (fst ih) (snd ih)) (enumerate 0 (patch_heights ct))"

subsection \<open>The plots, the report and the entry point\<close>

record plots =
  player_breakdown :: "(nat \<times> rat) list"
  evacuation_overall :: "(nat \<times> rat option) list"
  evacuation_by_type :: "(nat \<times> rat) option list"

definition generate_plots :: "merged_row list option \<Rightarrow> error + plots option" where
  "generate_plots df =
     (case df of
        None \<Rightarrow> Inr None
      | Some rs \<Rightarrow>
          if rs = [] then Inr None
          else
            bind_err colors (\<lambda>_.
            bind_err (plot2_labels rs) (\<lambda>l2.
            bind_err (plot3_labels (grouped rs)) (\<lambda>l3.
            Inr (Some \<lparr>player_breakdown = plot1_labels rs, evacuation_overall = l2,
                       evacuation_by_type = l3\<rparr>)))))"

definition or_default :: "string option \<Rightarrow> string \<Rightarrow> string" where
  "or_default s d = (case s of None \<Rightarrow> d | Some t \<Rightarrow> if t = [] then d else t)"

definition time_info :: "string option \<Rightarrow> string option \<Rightarrow> bool \<Rightarrow> string" where
  "time_info start end only_today =
     (if only_today then '' (Today)''
      else if truthy start \<or> truthy end
        then '' (Range: '' @ or_default start ''Min'' @ '' to '' @ or_default end ''Max'' @ '')''
      else [])"

definition create_html_report :: "string option \<Rightarrow> string option \<Rightarrow> bool \<Rightarrow> string" where
  "create_html_report start end only_today =
     ''Hurricane Evacuation Report'' @ time_info start end only_today"

datatype run = NoReport | Success "plots option" string

definition main_evacuate ::
  "parser \<Rightarrow> clock \<Rightarrow> cell frame \<Rightarrow> bool \<Rightarrow> string option \<Rightarrow> string option \<Rightarrow> error + run" where
  "main_evacuate parse now csv today start end =
     bind_err (process_data parse now csv today start end) (\<lambda>data.
       case data of
         None \<Rightarrow> Inr NoReport
       | Some df \<Rightarrow>
           bind_err (generate_plots (Some df)) (\<lambda>p.
           Inr (Success p (create_html_report start end today))))"

text \<open>
  The first version: plot 2 is computed as plot 1, the cross table keeps the columns
  that occur, the report has a fixed title and there is no time range.
\<close>

record plots_v1 =
  player_breakdown_v1 :: "(nat \<times> rat) list"
  evacuation_overall_v1 :: "(nat \<times> rat) list"
  evacuation_by_type_v1 :: "(nat \<times> rat) option list"

definition generate_plots_v1 :: "merged_row list option \<Rightarrow> error + plots_v1 option" where
  "generate_plots_v1 df =
     (case df of
        None \<Rightarrow> Inr None
      | Some rs \<Rightarrow>
          if rs = [] then Inr None
          else
            bind_err (plot3_labels (grouped_v1 rs)) (\<lambda>l3.
            Inr (Some \<lparr>player_breakdown_v1 = plot1_labels rs,
                       evacuation_overall_v1 = plot2_labels_v1 rs,
                       evacuation_by_type_v1 = l3\<rparr>)))"

datatype run_v1 = NoReport_v1 | Success_v1 "plots_v1 option"

definition main_evacuate_v1 :: "parser \<Rightarrow> clock \<Rightarrow> cell frame \<Rightarrow> bool \<Rightarrow> error + run_v1" where
  "main_evacuate_v1 parse now csv today =
     bind_err (process_data_v1 parse (sort_key created_at) now csv today) (\<lambda>data.
       case data of
         None \<Rightarrow> Inr NoReport_v1
       | Some df \<Rightarrow> bind_err (generate_plots_v1 (Some df)) (\<lambda>p. Inr (Success_v1 p)))"

lemmas chart_defs =
  plot1_labels_def plot2_labels_v1_def value_counts_pct_def plot2_labels_def ev_counts_def
  reindex_def float_pct_def iloc_def colors_def EVAC_ORDER_def COLOR_MAP_def
  grouped_def grouped_v1_def unstack_def reindex_columns_def type_choice_pairs_def
  row_totals_def patch_heights_def iloc2_def annotate_patch_def plot3_labels_def
  generate_plots_def time_info_def truthy_def or_default_def create_html_report_def
  main_evacuate_def generate_plots_v1_def main_evacuate_v1_def

text \<open>
  What the labels are, in terms of the merged table: \<open>rows_with\<close> counts the rows of a
  player type with a choice, \<open>choice_count\<close> the rows with a choice, \<open>player_types\<close>
  are the row labels of the cross table. \<open>bar_label\<close> is the label of the bar of a
  cell, \<open>share_label\<close> the same from the data.
\<close>

definition bar_label :: "crosstab \<Rightarrow> nat \<Rightarrow> nat \<Rightarrow> (nat \<times> rat) option" where
  "bar_label ct g c =
     (let count = cells ct ! g ! c
      in if count > 0 then Some (count, percentage count (sum_list (cells ct ! g))) else None)"

definition rows_with :: "merged_row list \<Rightarrow> string \<Rightarrow> string \<Rightarrow> nat" where
  "rows_with df p e =
     length (filter (\<lambda>r. player_type r = Some p \<and> evacuate_choice r = Some e) df)"

definition player_types :: "merged_row list \<Rightarrow> string list" where
  "player_types df = sort (remdups (map fst (type_choice_pairs df)))"

definition share_label :: "merged_row list \<Rightarrow> string \<Rightarrow> string \<Rightarrow> (nat \<times> rat) option" where
  "share_label df p e =
     (let count = rows_with df p e
      in if count > 0
         then Some (count, percentage count (sum_list (map (rows_with df p) EVAC_ORDER)))
         else None)"

definition choice_count :: "merged_row list \<Rightarrow> string \<Rightarrow> nat" where
  "choice_count df e = length (filter (\<lambda>r. evacuate_choice r = Some e) df)"

subsection \<open>Well-formed cross tables\<close>

lemma wf_unstack [simp]: "wf_crosstab (unstack sz)"
  by (simp add: unstack_def wf_crosstab_def Let_def list_all_iff)

lemma wf_reindex_columns [simp]: "wf_crosstab ct \<Longrightarrow> wf_crosstab (reindex_columns order ct)"
  by (simp add: reindex_columns_def wf_crosstab_def list_all_iff)

lemma wf_grouped [simp]: "wf_crosstab (grouped df)" "wf_crosstab (grouped_v1 df)"
  by (simp_all add: grouped_def grouped_v1_def)

lemma wf_row_length:
  "wf_crosstab ct \<Longrightarrow> g < length (index ct) \<Longrightarrow> length (cells ct ! g) = length (cols ct)"
  by (simp add: wf_crosstab_def list_all_length)

lemma patch_heights_grid:
  assumes "wf_crosstab ct"
  shows "patch_heights ct =
         concat (map (\<lambda>c. map (\<lambda>g. cells ct ! g ! c) [0..<length (index ct)])
                   [0..<length (cols ct)])"
proof -
  have "map (\<lambda>row. row ! c) (cells ct) = map (\<lambda>g. cells ct ! g ! c) [0..<length (index ct)]" for c
    using assms by (intro nth_equalityI) (simp_all add: wf_crosstab_def)
  then show ?thesis by (simp add: patch_heights_def)
qed

lemma length_patch_heights:
  "wf_crosstab ct \<Longrightarrow> length (patch_heights ct) = length (cols ct) * length (index ct)"
  by (simp add: patch_heights_grid length_concat_grid)

lemma cell_le_row_total:
  assumes "wf_crosstab ct" "g < length (index ct)" "c < length (cols ct)"
  shows "cells ct ! g ! c \<le> sum_list (cells ct ! g)"
  using assms by (intro member_le_sum_list) (simp_all add: wf_row_length)

subsection \<open>The loop over the bars\<close>

lemma annotate_patch_ok:
  assumes wf: "wf_crosstab ct" and i: "i < length (cols ct) * length (index ct)"
  shows "annotate_patch ct i (patch_heights ct ! i) =
         Inr (bar_label ct (i mod length (index ct)) (i div length (index ct)))"
proof -
  let ?n = "length (index ct)"
  from i have n: "0 < ?n" by (cases "?n") auto
  then have g: "i mod ?n < ?n" by simp
  from i have c: "i div ?n < length (cols ct)"
    by (simp add: less_mult_imp_div_less)
  have h: "patch_heights ct ! i = cells ct ! (i mod ?n) ! (i div ?n)"
    using wf i by (simp add: patch_heights_grid nth_concat_grid)
  have "0 < cells ct ! (i mod ?n) ! (i div ?n) \<Longrightarrow> 0 < sum_list (cells ct ! (i mod ?n))"
    using cell_le_row_total [OF wf g c] by simp
  with wf n g c h show ?thesis
    by (simp add: annotate_patch_def Let_def iloc2_def iloc_def row_totals_def bar_label_def
        wf_crosstab_def)
qed

lemma plot3_labels_wf:
  assumes "wf_crosstab ct"
  shows "plot3_labels ct =
         Inr (concat (map (\<lambda>c. map (\<lambda>g. bar_label ct g c) [0..<length (index ct)])
                        [0..<length (cols ct)]))"
proof -
  have "plot3_labels ct =
        Inr (map (\<lambda>i. bar_label ct (i mod length (index ct)) (i div length (index ct)))
               [0..<length (patch_heights ct)])"
    unfolding plot3_labels_def
    by (rule traverse_err_enumerate) (simp add: annotate_patch_ok assms length_patch_heights)
  then show ?thesis
    by (simp add: length_patch_heights assms grid_by_index [where f = "\<lambda>c g. bar_label ct g c"])
qed

subsection \<open>What the cross table counts\<close>

lemma count_type_choice_pairs: "count_list (type_choice_pairs df) (p, e) = rows_with df p e"
  by (induction df) (auto simp: type_choice_pairs_def rows_with_def split: option.splits)

lemma unstack_groupby_size:
  "unstack (groupby_size ks) =
     \<lparr>index = sort (remdups (map fst ks)), cols = sort (remdups (map snd ks)),
      cells = map (\<lambda>p. map (\<lambda>e. count_list ks (p, e)) (sort (remdups (map snd ks))))
                (sort (remdups (map fst ks)))\<rparr>"
proof -
  have "sort (remdups (map (\<lambda>kc. fst (fst kc)) (groupby_size ks))) = sort (remdups (map fst ks))"
       "sort (remdups (map (\<lambda>kc. snd (fst kc)) (groupby_size ks))) = sort (remdups (map snd ks))"
    by (rule sort_remdups_cong; force simp: set_groupby_size image_iff)+
  then show ?thesis
    by (simp add: unstack_def Let_def lookup_groupby_size)
qed

lemma reindex_row:
  "(case map_of (zip cs (map f cs)) c of None \<Rightarrow> 0 | Some n \<Rightarrow> n) =
   (if c \<in> set cs then f c else (0::nat))"
  by (simp add: map_of_zip_map)

lemma grouped_eq:
  "grouped df =
     \<lparr>index = player_types df, cols = EVAC_ORDER,
      cells = map (\<lambda>p. map (rows_with df p) EVAC_ORDER) (player_types df)\<rparr>"
proof -
  let ?ks = "type_choice_pairs df"
  have "(if e \<in> set (sort (remdups (map snd ?ks))) then count_list ?ks (p, e) else 0) =
        rows_with df p e" for p e
    by (auto simp: count_type_choice_pairs [symmetric] count_list_0_iff image_iff)
  then show ?thesis
    by (simp add: grouped_def unstack_groupby_size reindex_columns_def reindex_row
        player_types_def comp_def)
qed

lemma bar_label_grouped:
  assumes "g < length (player_types df)" "c < length EVAC_ORDER"
  shows "bar_label (grouped df) g c = share_label df (player_types df ! g) (EVAC_ORDER ! c)"
  using assms by (simp add: bar_label_def share_label_def grouped_eq Let_def)

lemma plot3_labels_grouped:
  "plot3_labels (grouped df) =
     Inr (concat (map (\<lambda>e. map (\<lambda>p. share_label df p e) (player_types df)) EVAC_ORDER))"
proof -
  have "map (\<lambda>g. bar_label (grouped df) g c) [0..<length (player_types df)] =
        map (\<lambda>p. share_label df p (EVAC_ORDER ! c)) (player_types df)"
    if "c < length EVAC_ORDER" for c
    using that by (simp add: bar_label_grouped flip: map_by_index [of _ "player_types df"])
  then have "map (\<lambda>c. map (\<lambda>g. bar_label (grouped df) g c) [0..<length (player_types df)])
               [0..<length EVAC_ORDER] =
             map (\<lambda>c. (\<lambda>e. map (\<lambda>p. share_label df p e) (player_types df)) (EVAC_ORDER ! c))
               [0..<length EVAC_ORDER]"
    by simp
  also have "\<dots> = map (\<lambda>e. map (\<lambda>p. share_label df p e) (player_types df)) EVAC_ORDER"
    by (rule map_by_index)
  finally show ?thesis
    by (simp add: plot3_labels_wf grouped_eq [of df, THEN arg_cong [where f = index]]
        grouped_eq [of df, THEN arg_cong [where f = cols]])
qed

subsection \<open>Plots 1 and 2 in closed form\<close>

lemma ev_counts_eq: "ev_counts df = map (\<lambda>e. (e, choice_count df e)) EVAC_ORDER"
  by (simp add: ev_counts_def reindex_def lookup_value_counts count_dropna choice_count_def
      filter_map comp_def)

lemma traverse_iloc_zip:
  assumes "length ys = length xs"
  shows "traverse_err (\<lambda>iv. bind_err (iloc ys (fst iv)) (\<lambda>p. Inr (snd iv, p))) (enumerate 0 xs) =
         Inr (zip xs ys)"
proof -
  have "traverse_err (\<lambda>iv. bind_err (iloc ys (fst iv)) (\<lambda>p. Inr (snd iv, p))) (enumerate 0 xs) =
        Inr (map (\<lambda>i. (xs ! i, ys ! i)) [0..<length xs])"
    by (rule traverse_err_enumerate) (simp add: iloc_def assms)
  also have "map (\<lambda>i. (xs ! i, ys ! i)) [0..<length xs] = zip xs ys"
    by (rule nth_equalityI) (simp_all add: assms)
  finally show ?thesis .
qed

lemma plot2_labels_eq:
  "plot2_labels df =
     Inr (map (\<lambda>e. (choice_count df e,
                     float_pct (choice_count df e) (sum_list (map (choice_count df) EVAC_ORDER))))
            EVAC_ORDER)"
  by (simp add: plot2_labels_def Let_def traverse_iloc_zip ev_counts_eq comp_def
      zip_map_same [where f = "\<lambda>x. x", simplified])

lemma plot1_labels_eq:
  "plot1_labels df =
     map (\<lambda>ac. (snd ac, percentage (snd ac) (length (dropna (map player_type df)))))
       (value_counts (map player_type df))"
  by (simp add: plot1_labels_def value_counts_pct_def Let_def sum_value_counts comp_def
      zip_map_same)

lemma colors_ok: "colors = Inr [''lightgreen'', ''coral'']"
  by (simp add: colors_def COLOR_MAP_def EVAC_ORDER_def)

lemma generate_plots_cases:
  "generate_plots df =
     (case df of
        None \<Rightarrow> Inr None
      | Some rs \<Rightarrow>
          if rs = [] then Inr None
          else Inr (Some \<lparr>player_breakdown = plot1_labels rs,
                 evacuation_overall =
                   map (\<lambda>e. (choice_count rs e,
                        float_pct (choice_count rs e) (sum_list (map (choice_count rs) EVAC_ORDER))))
                     EVAC_ORDER,
                 evacuation_by_type =
                   concat (map (\<lambda>e. map (\<lambda>p. share_label rs p e) (player_types rs)) EVAC_ORDER)\<rparr>))"
  by (simp add: generate_plots_def colors_ok plot2_labels_eq plot3_labels_grouped
      split: option.splits)

subsection \<open>The entry point\<close>

lemma generate_plots_total: "\<exists>p. generate_plots df = Inr p \<and> (p = None \<longleftrightarrow> df = None \<or> df = Some [])"
  by (cases df) (simp_all add: generate_plots_cases)

lemma plot2_labels_v1_eq:
  "plot2_labels_v1 df =
     map (\<lambda>ac. (snd ac, percentage (snd ac) (length (dropna (map evacuate_choice df)))))
       (value_counts (map evacuate_choice df))"
  by (simp add: plot2_labels_v1_def value_counts_pct_def Let_def sum_value_counts comp_def
      zip_map_same)

lemma sum_plot1_labels:
  "sum_list (map snd (plot1_labels df)) = (if dropna (map player_type df) = [] then 0 else 100)"
  by (simp add: plot1_labels_eq comp_def sum_list_percentage sum_value_counts value_counts_Nil_iff)

lemma sum_plot2_labels_v1:
  "sum_list (map snd (plot2_labels_v1 df)) =
     (if dropna (map evacuate_choice df) = [] then 0 else 100)"
  by (simp add: plot2_labels_v1_eq comp_def sum_list_percentage sum_value_counts
      value_counts_Nil_iff)

lemma generate_plots_v1_total:
  "\<exists>p. generate_plots_v1 df = Inr p \<and> (p = None \<longleftrightarrow> df = None \<or> df = Some [])"
  by (cases df) (simp_all add: generate_plots_v1_def plot3_labels_wf)

lemma time_info_simps:
  "time_info start end True = '' (Today)''"
  "time_info None None False = []"
  "time_info (Some []) (Some []) False = []"
  by (simp_all add: time_info_def truthy_def)

subsection \<open>Example table\<close>

definition example_merged :: "merged_row list" where
  "example_merged =
     [\<lparr>uid = Some ''u1'', player_type = Some ''Renter'', evacuate_choice = Some ''Yep, evacuate!''\<rparr>,
      \<lparr>uid = Some ''u2'', player_type = Some ''Renter'',
         evacuate_choice = Some ''Heck no! dont evacuate''\<rparr>,
      \<lparr>uid = Some ''u3'', player_type = Some ''Pet Owner'',
         evacuate_choice = Some ''Yep, evacuate!''\<rparr>,
      \<lparr>uid = Some ''u4'', player_type = Some ''Pet Owner'', evacuate_choice = Some ''Maybe''\<rparr>,
      \<lparr>uid = Some ''u5'', player_type = Some ''Renter'', evacuate_choice = Some ''Yep, evacuate!''\<rparr>]"

lemma grouped_example:
  "grouped example_merged =
     \<lparr>index = [''Pet Owner'', ''Renter''], cols = EVAC_ORDER, cells = [[1, 0], [2, 1]]\<rparr>"
  "grouped_v1 example_merged =
     \<lparr>index = [''Pet Owner'', ''Renter''],
      cols = [''Heck no! dont evacuate'', ''Maybe'', ''Yep, evacuate!''],
      cells = [[0, 1, 1], [1, 0, 2]]\<rparr>"
  by (simp_all add: grouped_eq grouped_v1_def unstack_groupby_size player_types_def rows_with_def
      type_choice_pairs_def example_merged_def EVAC_ORDER_def)

lemma plot3_example:
  "plot3_labels (grouped example_merged) =
     Inr [Some (1, 100), Some (2, 200 / 3), None, Some (1, 100 / 3)]"
  "plot3_labels (grouped_v1 example_merged) =
     Inr [None, Some (1, 100 / 3), Some (1, 50), None, Some (1, 50), Some (2, 200 / 3)]"
  by (simp_all add: plot3_labels_wf wf_crosstab_def grouped_example bar_label_def upt_rec
      percentage_def EVAC_ORDER_def)

subsection \<open>Properties\<close>

text \<open>
  C12. The labels of plot 3, from the data: the bars are drawn choice by choice in the
  fixed order and, within a choice, player type by player type in ascending order; the
  bar of a type and a choice carries the number of users with both and its share among
  the users of that type whose choice is one of the two known ones; a bar of height
  zero carries no label. The loop over the bars does not fail.
\<close>

theorem plot3_labels_of_data:
  "plot3_labels (grouped df) =
     Inr (concat (map (\<lambda>e. map (\<lambda>p. share_label df p e) (player_types df)) EVAC_ORDER))"
  by (rule plot3_labels_grouped)

text \<open>
  C23. On every well-formed cross table, of the current version or of the first one, the
  loop that labels plot 3 ends without \<^verbatim>\<open>IndexError\<close> or \<^verbatim>\<open>ZeroDivisionError\<close>, yields
  one entry per bar, and the entry of bar \<open>i\<close> is the height of that very bar with its
  share of the total of row \<open>i mod n_groups\<close>, or nothing when the bar is empty.
\<close>

theorem plot3_labels_total:
  assumes "wf_crosstab ct"
  shows "\<exists>ls. plot3_labels ct = Inr ls \<and> length ls = length (patch_heights ct) \<and>
           (\<forall>i<length ls. ls ! i =
              (if patch_heights ct ! i = 0 then None
               else Some (patch_heights ct ! i,
                          percentage (patch_heights ct ! i)
                            (row_totals ct ! (i mod length (index ct))))))"
proof -
  let ?n = "length (index ct)" and ?m = "length (cols ct)"
  let ?ls = "concat (map (\<lambda>c. map (\<lambda>g. bar_label ct g c) [0..<?n]) [0..<?m])"
  have "ls_i = (if h = 0 then None else Some (h, percentage h (row_totals ct ! (i mod ?n))))"
    if "i < ?m * ?n" "ls_i = ?ls ! i" "h = patch_heights ct ! i" for i ls_i h
  proof -
    from that(1) have "0 < ?n" by (cases ?n) auto
    with that assms show ?thesis
      by (simp add: nth_concat_grid patch_heights_grid bar_label_def Let_def row_totals_def
          wf_crosstab_def)
  qed
  with assms show ?thesis
    by (simp add: plot3_labels_wf length_concat_grid length_patch_heights)
qed

theorem plot3_labels_total_witness:
  "wf_crosstab (grouped_v1 example_merged) \<and>
   (\<exists>ls. plot3_labels (grouped_v1 example_merged) = Inr ls \<and> length ls = 6)"
proof -
  have wf: "wf_crosstab (grouped_v1 example_merged)" by simp
  have "length (patch_heights (grouped_v1 example_merged)) = 6"
    by (simp add: patch_heights_def grouped_example upt_rec)
  with plot3_labels_total [OF wf] wf show ?thesis by auto
qed

text \<open>
  C24. Plot 2 always shows the two known choices in the fixed order, whatever their
  counts. Users with any other choice are left out of the counts and of the divisor.
  When no user made a known choice the percentages are missing values (the division is
  0/0); otherwise they are all present and sum to 100.
\<close>

theorem plot2_fixed_order:
  "\<exists>ls. plot2_labels df = Inr ls \<and> map fst ls = map (choice_count df) EVAC_ORDER \<and>
     (if \<forall>e\<in>set EVAC_ORDER. choice_count df e = 0 then \<forall>l\<in>set ls. snd l = None
      else sum_list (map (\<lambda>l. case snd l of None \<Rightarrow> 0 | Some p \<Rightarrow> p) ls) = 100 \<and>
           (\<forall>l\<in>set ls. snd l \<noteq> None))"
proof -
  let ?known = "sum_list (map (choice_count df) EVAC_ORDER)"
  let ?ls = "map (\<lambda>e. (choice_count df e, float_pct (choice_count df e) ?known)) EVAC_ORDER"
  have zero: "?known = 0 \<longleftrightarrow> (\<forall>e\<in>set EVAC_ORDER. choice_count df e = 0)"
    by simp
  have none: "\<forall>l\<in>set ?ls. snd l = None" if "?known = 0"
    using that by (auto simp: float_pct_def)
  have some: "sum_list (map (\<lambda>l. case snd l of None \<Rightarrow> 0 | Some p \<Rightarrow> p) ?ls) = 100 \<and>
              (\<forall>l\<in>set ?ls. snd l \<noteq> None)" if "?known \<noteq> 0"
  proof -
    from that have "map (\<lambda>l. case snd l of None \<Rightarrow> 0 | Some p \<Rightarrow> p) ?ls =
                    map (\<lambda>e. percentage (choice_count df e) ?known) EVAC_ORDER"
      by (auto simp: float_pct_def)
    moreover from that have "0 < ?known" by (simp del: sum_list_eq_0_iff)
    ultimately have "sum_list (map (\<lambda>l. case snd l of None \<Rightarrow> 0 | Some p \<Rightarrow> p) ?ls) = 100"
      by (simp only: sum_list_percentage percentage_self)
    moreover from that have "\<forall>l\<in>set ?ls. snd l \<noteq> None"
      by (auto simp: float_pct_def)
    ultimately show ?thesis ..
  qed
  have "plot2_labels df = Inr ?ls" "map fst ?ls = map (choice_count df) EVAC_ORDER"
    by (simp_all add: plot2_labels_eq comp_def)
  with none some zero show ?thesis
    by (cases "?known = 0") (simp_all del: sum_list_eq_0_iff)
qed

theorem plot2_fixed_order_witness:
  "plot2_labels example_merged = Inr [(3, Some 75), (1, Some 25)] \<and>
   plot2_labels [\<lparr>uid = Some ''u4'', player_type = Some ''Pet Owner'',
                   evacuate_choice = Some ''Maybe''\<rparr>] = Inr [(0, None), (0, None)]"
  using plot2_fixed_order [of example_merged]
  by (simp add: plot2_labels_eq choice_count_def float_pct_def percentage_def example_merged_def
      EVAC_ORDER_def)

text \<open>
  C25. Whenever \<^verbatim>\<open>process_data\<close> returns a table, the entry point writes the report
  and announces the four output files, also when the table has no rows: then
  \<^verbatim>\<open>generate_plots\<close> has returned without drawing, and the report refers to images
  that this run did not make.
\<close>

theorem report_written_without_plots:
  assumes "process_data parse now csv today start end = Inr (Some df)"
  shows "\<exists>p. main_evacuate parse now csv today start end =
                Inr (Success p (create_html_report start end today)) \<and>
             (p = None \<longleftrightarrow> df = [])"
  using assms generate_plots_total [of "Some df"]
  by (auto simp: main_evacuate_def)

theorem report_written_without_plots_witness:
  "main_evacuate (table_parser [(''t1'', Stamp 1 (Offset 0))]) \<lparr>utc_now = 0, local_offset = 0\<rparr>
     \<lparr>columns = game_columns, rows = [game_row ''u1'' ''player_select'' ''Renter'' (Some ''t1'')]\<rparr>
     True (Some ''t1'') None =
   Inr (Success None ''Hurricane Evacuation Report (Today)'')"
  using report_written_without_plots [of "table_parser [(''t1'', Stamp 1 (Offset 0))]"
      "\<lparr>utc_now = 0, local_offset = 0\<rparr>"
      "\<lparr>columns = game_columns,
        rows = [game_row ''u1'' ''player_select'' ''Renter'' (Some ''t1'')]\<rparr>"
      True "Some ''t1''" None "[]"]
  by (simp add: process_defs example_defs set_created_at_def window_defs ns_per_day_def
      create_html_report_def time_info_simps main_evacuate_def generate_plots_cases)

end
