(* ===== verification/Download.thy ===== *)
theory Download
  imports Prelude
begin

text \<open>
  The download of the export: \<^verbatim>\<open>download_noki_data\<close> of \<^verbatim>\<open>src/downloadStorms.py\<close>.
  The network is outside the model; the two requests are answered by parameters:
  \<open>auth\<close>, the reply to the token request, and \<open>data_server\<close>, the reply to the data
  request as a function of the token sent. A \<open>reply\<close> is either \<open>Unreachable\<close> (the
  call raises a \<^verbatim>\<open>RequestException\<close>) or a status code with a payload. The payload of
  the token request is the parsed body: \<open>NotJson\<close> when \<^verbatim>\<open>.json()\<close> raises;
  \<open>NotObject\<close> when the body is JSON but not an object, so that \<^verbatim>\<open>.get\<close> raises
  \<^verbatim>\<open>AttributeError\<close>; \<open>Json tok\<close> with the value of the key \<^verbatim>\<open>token\<close>,
  \<open>None\<close> when the key is absent. The payload of the data request is the stream of
  chunks, which either ends (\<open>Ends\<close>) or breaks after some chunks (\<open>Breaks\<close>).

  The handler catches \<^verbatim>\<open>RequestException\<close> only. The exception of \<^verbatim>\<open>.json()\<close>
  is one since requests 2.27, which the model assumes (before, it was a
  \<^verbatim>\<open>ValueError\<close> that the handler does not catch). The \<^verbatim>\<open>AttributeError\<close> of a
  body that is not an object is not caught: the run ends with a traceback
  (\<open>Traceback\<close>) and a status other than 0. The model assumes that the output file can
  be opened for writing; an \<^verbatim>\<open>OSError\<close> of \<^verbatim>\<open>open\<close> would not be caught either.

  The state is the \<open>world\<close> that the script changes: the content of the output file
  (\<open>None\<close> when there is no file) and the messages printed. \<^verbatim>\<open>open(..., 'wb')\<close>
  truncates the file (\<open>open_wb\<close>), each chunk is appended (\<open>f_write\<close>). On every path
  but the traceback the function returns normally: the handler prints the error and the
  script ends with status 0.
\<close>

subsection \<open>Definitions\<close>

datatype 'a reply = Unreachable | Status nat 'a

datatype auth_body = NotJson | NotObject | Json "string option"

datatype stream = Ends "string list" | Breaks "string list"

datatype message =
  Authenticating | NoToken | Downloading | DownloadComplete | AnErrorOccurred | Traceback

record world =
  output_file :: "string option"
  printed :: "message list"

definition print :: "message \<Rightarrow> world \<Rightarrow> world" where
  "print m w = w\<lparr>printed := printed w @ [m]\<rparr>"

definition http_error :: "nat \<Rightarrow> bool" where
  "http_error code \<longleftrightarrow> 400 \<le> code \<and> code < 600"

definition open_wb :: "world \<Rightarrow> world" where
  "open_wb w = w\<lparr>output_file := Some []\<rparr>"

definition f_write :: "world \<Rightarrow> string \<Rightarrow> world" where
  "f_write w chunk =
     w\<lparr>output_file := Some ((case output_file w of None \<Rightarrow> [] | Some c \<Rightarrow> c) @ chunk)\<rparr>"

definition chunks :: "stream \<Rightarrow> string list" where
  "chunks s = (case s of Ends cs \<Rightarrow> cs | Breaks cs \<Rightarrow> cs)"

definition save_stream :: "stream \<Rightarrow> world \<Rightarrow> world" where
  "save_stream s w =
     (let w' = foldl f_write (open_wb w) (chunks s)
      in case s of Ends _ \<Rightarrow> print DownloadComplete w' | Breaks _ \<Rightarrow> print AnErrorOccurred w')"

definition fetch :: "stream reply \<Rightarrow> world \<Rightarrow> world" where
  "fetch r w =
     (case r of
        Unreachable \<Rightarrow> print AnErrorOccurred w
      | Status code s \<Rightarrow> if http_error code then print AnErrorOccurred w else save_stream s w)"

definition download_noki_data :: "auth_body reply \<Rightarrow> (string \<Rightarrow> stream reply) \<Rightarrow> world \<Rightarrow> world" where
  "download_noki_data auth data_server w0 =
     (let w = print Authenticating w0
      in case auth of
           Unreachable \<Rightarrow> print AnErrorOccurred w
         | Status code body \<Rightarrow>
             if http_error code then print AnErrorOccurred w
             else
               (case body of
                  NotJson \<Rightarrow> print AnErrorOccurred w
                | NotObject \<Rightarrow> print Traceback w
                | Json token \<Rightarrow>
                    (case token of
                       None \<Rightarrow> print NoToken w
                     | Some t \<Rightarrow>
                         if t = [] then print NoToken w
                         else fetch (data_server t) (print Downloading w))))"

lemmas download_defs =
  download_noki_data_def fetch_def save_stream_def chunks_def f_write_def open_wb_def
  http_error_def print_def

text \<open>
  \<open>delivered\<close> is the stream that the run saves, if it gets as far as opening the file.
\<close>

definition delivered :: "auth_body reply \<Rightarrow> (string \<Rightarrow> stream reply) \<Rightarrow> stream option" where
  "delivered auth data_server =
     (case auth of
        Status code (Json (Some t)) \<Rightarrow>
          if http_error code \<or> t = [] then None
          else (case data_server t of
                  Status code' s \<Rightarrow> if http_error code' then None else Some s
                | Unreachable \<Rightarrow> None)
      | _ \<Rightarrow> None)"

subsection \<open>The file\<close>

lemma output_file_print [simp]: "output_file (print m w) = output_file w"
  by (simp add: print_def)

lemma printed_print [simp]: "printed (print m w) = printed w @ [m]"
  by (simp add: print_def)

lemma printed_write [simp]: "printed (foldl f_write w cs) = printed w"
  by (induction cs arbitrary: w) (simp_all add: f_write_def)

lemma output_file_write:
  "output_file (foldl f_write w cs) =
     (if cs = [] then output_file w
      else Some ((case output_file w of None \<Rightarrow> [] | Some c \<Rightarrow> c) @ concat cs))"
  by (induction cs arbitrary: w) (auto simp: f_write_def)

lemma output_file_save_stream [simp]: "output_file (save_stream s w) = Some (concat (chunks s))"
  by (cases s) (simp_all add: save_stream_def output_file_write open_wb_def chunks_def)

lemma printed_save_stream:
  "printed (save_stream s w) =
     printed w @ [case s of Ends _ \<Rightarrow> DownloadComplete | Breaks _ \<Rightarrow> AnErrorOccurred]"
  by (cases s) (simp_all add: save_stream_def open_wb_def)

lemma download_delivered:
  assumes "delivered auth data_server = Some s"
  shows "download_noki_data auth data_server w =
         save_stream s (print Downloading (print Authenticating w))"
  using assms
  by (auto simp: delivered_def download_noki_data_def fetch_def Let_def
      split: reply.splits auth_body.splits option.splits if_splits)

lemma download_not_delivered:
  assumes "delivered auth data_server = None"
  shows "output_file (download_noki_data auth data_server w) = output_file w"
    and "DownloadComplete \<notin> set (printed (download_noki_data auth data_server w)) \<longleftrightarrow>
         DownloadComplete \<notin> set (printed w)"
  using assms
  by (auto simp: delivered_def download_noki_data_def fetch_def Let_def
      split: reply.splits auth_body.splits option.splits if_splits)

lemma printed_download:
  "printed (download_noki_data auth data_server w) =
     printed w @
     (case auth of
        Unreachable \<Rightarrow> [Authenticating, AnErrorOccurred]
      | Status code body \<Rightarrow>
          if http_error code then [Authenticating, AnErrorOccurred]
          else (case body of
                  NotJson \<Rightarrow> [Authenticating, AnErrorOccurred]
                | NotObject \<Rightarrow> [Authenticating, Traceback]
                | Json None \<Rightarrow> [Authenticating, NoToken]
                | Json (Some t) \<Rightarrow>
                    if t = [] then [Authenticating, NoToken]
                    else (case delivered auth data_server of
                            Some (Ends cs) \<Rightarrow> [Authenticating, Downloading, DownloadComplete]
                          | _ \<Rightarrow> [Authenticating, Downloading, AnErrorOccurred])))"
  by (auto simp: delivered_def download_noki_data_def fetch_def Let_def printed_save_stream
      split: reply.splits auth_body.splits option.splits stream.splits)

subsection \<open>Example servers\<close>

definition good_auth :: "auth_body reply" where
  "good_auth = Status 200 (Json (Some ''tok''))"

definition breaking_server :: "string \<Rightarrow> stream reply" where
  "breaking_server t = (if t = ''tok'' then Status 200 (Breaks [''a,b'']) else Status 401 (Ends []))"

definition old_world :: world where
  "old_world = \<lparr>output_file = Some ''a,b;1,2;3,4'', printed = []\<rparr>"

lemmas example_download_defs = good_auth_def breaking_server_def old_world_def

subsection \<open>Properties\<close>

text \<open>
  C26. The output file after a run: when the run does not get as far as the stream (the
  token request fails, the token is missing or empty, the data request fails) the file is
  as it was; otherwise it holds the chunks that arrived and nothing else, also when the
  stream broke: the earlier content is lost and a part of the export is in its place.
\<close>

theorem output_file_after_run:
  "output_file (download_noki_data auth data_server w) =
     (case delivered auth data_server of
        None \<Rightarrow> output_file w
      | Some s \<Rightarrow> Some (concat (chunks s)))"
  by (cases "delivered auth data_server")
    (simp_all add: download_not_delivered download_delivered)

text \<open>
  C27. Starting with nothing printed, the message that the download is complete appears
  exactly when both requests succeed, the token is not empty and the stream ends; the
  file is then the whole stream.
\<close>

theorem download_complete_iff:
  assumes "printed w = []"
  shows "DownloadComplete \<in> set (printed (download_noki_data auth data_server w)) \<longleftrightarrow>
         (\<exists>cs. delivered auth data_server = Some (Ends cs) \<and>
               output_file (download_noki_data auth data_server w) = Some (concat cs))"
proof (cases "delivered auth data_server")
  case None
  with assms show ?thesis
    by (simp add: download_not_delivered)
next
  case (Some s)
  with assms show ?thesis
    by (cases s) (simp_all add: download_delivered printed_save_stream chunks_def)
qed

theorem download_complete_iff_witness:
  "printed old_world = [] \<and>
   DownloadComplete \<notin> set (printed (download_noki_data good_auth breaking_server old_world)) \<and>
   output_file (download_noki_data good_auth breaking_server old_world) = Some ''a,b''"
  using download_complete_iff [of old_world good_auth breaking_server]
  by (simp add: download_defs example_download_defs)

end
