(* ===== verification/Spec2Isabelle.thy ===== *)
theory Spec2Isabelle
  imports Latest Report PerUser Summary Charts Download
begin

text \<open>
  \<^bold>\<open>A verification development for the Evacuation-Analysis scripts.\<close>

  \<^bold>\<open>The program.\<close> The repository is a set of independent command-line scripts over one
  kind of input, a CSV export of survey events (one row per answer of a user to a
  question or game step at a time):
  \<^item> \<^verbatim>\<open>src/processEvacuate.py\<close> and its first version
    \<^verbatim>\<open>src/firstworkingprocessEvacuate.py\<close>: \<^verbatim>\<open>process_data\<close> restricts the rows
    to a time window, takes every user's latest player type and latest evacuation
    choice and joins the two; \<^verbatim>\<open>generate_plots\<close> and \<^verbatim>\<open>create_html_report\<close> draw
    the result.
  \<^item> \<^verbatim>\<open>src/genetedatefilterprocess.py\<close>:
    \<^verbatim>\<open>calculate_aggregated_answer_percentages\<close> is the percentage breakdown of the
    answers to the questions with a given prefix;
    \<^verbatim>\<open>process_and_output_percentages\<close> checks the columns, parses and filters the
    timestamps and prints three such results.
  \<^item> \<^verbatim>\<open>src/geneteprocess.py\<close>: the same breakdown per user.
  \<^item> \<^verbatim>\<open>src/summarize_noki.py\<close>: unique answers of one question, or a grouped summary.
  \<^item> \<^verbatim>\<open>src/downloadStorms.py\<close>: fetches the CSV over HTTP.
  The scripts share no code; they share the table and the dataframe operations they
  apply to it. The development follows that: the shared operations are modelled once.

  \<^bold>\<open>The theories.\<close>
  \<^item> \<open>Prelude\<close>: the dataframe primitives on lists (\<open>dropna\<close>, \<open>unique\<close>,
    \<open>drop_duplicates_last\<close>, \<open>sort_values_desc\<close>, \<open>groupby_size\<close>, \<open>percentage\<close>),
    Python's \<open>join_str\<close> and \<open>truthy\<close>, the sort contracts \<open>sorts_by\<close> and
    \<open>sorts_desc_by\<close>, exceptions as values (\<open>bind_err\<close>, \<open>catch_err\<close>,
    \<open>traverse_err\<close>), and their lemmas (collection \<open>pd_simps\<close>), among them that two
    stable sort passes are the sort by the pair of keys, that two descending sorts of
    one table carry the same column of keys, and that a table laid out column by column
    is indexed by \<open>i mod n\<close> and \<open>i div n\<close>.
  \<^item> \<open>Frame\<close>: the table. Record \<open>row\<close> (the seven columns the scripts read), record
    \<open>frame\<close> (column names and rows), datatype \<open>tstamp\<close> with its order as an instance
    of \<open>linorder\<close>, datatype \<open>error\<close> (the exceptions and the exits), the handlers of
    the scripts that read the standard input (\<open>stdin_handlers\<close>, \<open>exit_code\<close>),
    \<open>read_csv\<close>, what a timestamp text denotes (\<open>parsed\<close>, \<open>stamp\<close>, \<open>zone\<close>), the
    three ways the scripts parse the timestamp column (\<open>to_datetime\<close>,
    \<open>to_datetime_v1\<close>, \<open>to_datetime_coerce\<close> with \<open>dropna_created_at\<close>), the
    \<open>clock\<close> with the date in UTC and the local date, the column checks (\<open>require\<close>,
    \<open>missing_columns\<close>) and the window filters (\<open>filter_today\<close>, \<open>filter_from\<close>,
    \<open>filter_until\<close>, \<open>with_bound\<close>).
  \<^item> \<open>Latest\<close>: \<^verbatim>\<open>process_data\<close> of both versions (\<open>process_data_with\<close>,
    \<open>process_data_v1\<close>) and its parts: \<open>time_window\<close>, \<open>replace_answer\<close>,
    \<open>in_group\<close>, \<open>latest_rows_with\<close>, \<open>latest_answers_with\<close>, \<open>merge_inner\<close>,
    \<open>extract_and_merge_with\<close>, \<open>checked_merge\<close>, with the sort as a parameter, and
    their instances at the stable sort (\<open>latest_rows\<close>, \<open>latest_answers\<close>,
    \<open>extract_and_merge\<close>, \<open>process_data\<close>). Results are
    \<open>error + merged_row list option\<close>: \<open>Inl\<close> an exception, \<open>Inr None\<close> the "no data"
    return, \<open>Inr (Some m)\<close> the table. \<open>latest_of\<close>, \<open>in_window\<close>, \<open>bad_bound\<close>,
    \<open>stamped\<close> and \<open>selected\<close> are the vocabulary in which the theorems about
    \<open>process_data_with\<close> are stated; \<open>process_data_with_cases\<close> gives the run by
    cases.
  \<^item> \<open>Breakdown\<close>: \<open>calculate_aggregated_answer_percentages_with\<close> and
    \<open>value_counts_with\<close>, with the two sorts as parameters, their stable instances
    \<open>calculate_aggregated_answer_percentages\<close> and \<open>value_counts\<close>, the prefix test
    (\<open>astype_str\<close>, \<open>str_startswith\<close>, \<open>question_startswith\<close>), and the abstract
    specification \<open>breakdown_spec\<close> that the tables refine. \<open>matched_answers\<close>,
    \<open>pct_table\<close> and \<open>pct_table_with\<close> name the counted answers and the table before
    the final sort, for the statements.
  \<^item> \<open>Report\<close>: \<open>process_and_output_percentages\<close>: its body \<open>report_body\<close> under the
    handlers, the start-date filter \<open>start_filter\<close> under the inner handler, and the
    three outputs (\<open>first_output\<close>, \<open>second_output\<close>, \<open>third_output\<close>,
    \<open>sessions_with_2009_answer\<close>). \<open>process_cases\<close> gives the run by cases.
  \<^item> \<open>PerUser\<close>: \<^verbatim>\<open>calculate_drought_answer_percentages\<close> of
    \<^verbatim>\<open>src/geneteprocess.py\<close>: its body \<open>drought_body\<close> under the handlers, the column
    check (\<open>per_user_required\<close>), the pairs that the grouping counts
    (\<open>present_pairs\<close>), \<open>groupby_sum\<close>, \<open>merge_on_user\<close>, the two-key sort
    \<open>sort_user_percentage\<close>, their composition \<open>per_user_table\<close>, and the reading of
    the table for one user (\<open>user_part\<close>, \<open>answers_of\<close>).
  \<^item> \<open>Summary\<close>: \<^verbatim>\<open>src/summarize_noki.py\<close>: \<open>process_data_from_stdin\<close>,
    \<open>get_unique_answers_for_question\<close>, \<open>generate_full_summary\<close> with its parts
    (\<open>group_key\<close>, \<open>group_keys\<close>, \<open>group_answers\<close>, \<open>join_unique\<close>,
    \<open>groupby_apply_join\<close>, \<open>sort_user_time\<close>) and the entry point \<open>main_summary\<close>.
    The table is a \<open>cell frame\<close>: this script never parses \<^verbatim>\<open>created_at\<close>.
    \<open>summary_table\<close> is the closed form of the summary, \<open>unjoinable\<close> the rows on
    which it fails; both serve the statements and proofs.
  \<^item> \<open>Charts\<close>: \<^verbatim>\<open>generate_plots\<close>, \<^verbatim>\<open>create_html_report\<close> and the entry point of
    \<^verbatim>\<open>src/processEvacuate.py\<close> (\<open>generate_plots\<close>, \<open>create_html_report\<close>,
    \<open>main_evacuate\<close>) and of the first version (\<open>generate_plots_v1\<close>,
    \<open>main_evacuate_v1\<close>): the labels of the three plots (\<open>plot1_labels\<close>,
    \<open>plot2_labels\<close>, \<open>plot3_labels\<close>), the cross table \<open>grouped\<close> as a record
    \<open>crosstab\<close> with its invariant \<open>wf_crosstab\<close>, and the title label \<open>time_info\<close>.
    Of the report only the title is modelled, of the plots only the labels.
  \<^item> \<open>Download\<close>: \<^verbatim>\<open>download_noki_data\<close> of \<^verbatim>\<open>src/downloadStorms.py\<close> as the
    function \<open>download_noki_data\<close> on a record \<open>world\<close> (the output file and the printed
    messages), with the replies of the server as parameters (\<open>reply\<close>, \<open>auth_body\<close>,
    \<open>stream\<close>) and the steps \<open>fetch\<close>, \<open>save_stream\<close>, \<open>open_wb\<close>, \<open>f_write\<close>.
    \<open>delivered\<close> names the stream that a run saves, for the statements.
  \<^item> This theory: the properties that relate components.

  \<^bold>\<open>What the lemmas show.\<close> For latest-response extraction: one row per user, only rows of
  the group, the maximal timestamp (for every correct sort), the tie-break by input order
  and idempotence (for the stable sort), the users of the join. For \<^verbatim>\<open>process_data\<close>
  as a whole: every line of the merged table joins the latest rows of one user inside
  the time window, the users of the table are exactly those with both rows inside the
  window (for every correct sort), and exactly when the function returns instead of
  raising; the two versions agree when the timestamps
  are written without zone or in UTC and the local date is the date in UTC, and
  disagree under \<^verbatim>\<open>--today\<close> when the two dates differ. For the breakdown: the
  percentages sum to 100, the table refines \<open>breakdown_spec\<close>, it is ordered and without
  duplicates (for the stable sorts and for every pair of correct sorts), and the final
  sort can only reorder equal percentages. For the report: which output appears when,
  the error for absent columns, exactly when the exit status is 0, and that a start
  date without zone ends the run on a file with zoned timestamps. For the window:
  inclusive bounds. For the per-user table: every user's percentages sum to 100, the
  table is ordered by user and falling percentage without duplicate pairs, exactly when
  a table without rows is printed, and (in this theory) that one user's part is the
  global breakdown of that user's rows.
  For the summaries: one line per group of user, time and question in key order, the
  content of the answer cell, that the final sort is redundant, exactly when the summary
  fails (a group with a missing answer), what \<^verbatim>\<open>--filter-question\<close> prints and (in
  this theory) that these answers are among those of the prefix breakdown.
  For the charts: the labelling loop of plot 3 never fails on a well-formed cross table
  and labels each bar with its own cell, what the labels are in terms of the data, the
  fixed order and the percentages of plot 2, and that the report is written whenever
  \<^verbatim>\<open>process_data\<close> returns a table, with or without plots.
  For the download: the content of the output file after every run, and exactly when the
  run reports completion.

  \<^bold>\<open>Modelling decisions.\<close>
  \<^item> Cells are \<open>string option\<close>, \<open>None\<close> being NaN. Columns that pandas would read as
    numbers are not distinguished: every present cell is a string, so the comparison
    with \<^verbatim>\<open>"2009"\<close> is a comparison of strings. On a file whose answer column holds
    numbers only, pandas reads integers and that comparison is false for every row;
    the theorems about the second and third output of the report are about files whose
    answer column is read as text.
  \<^item> pandas' date parser is a parameter \<open>parse\<close> of the operations that call it. It
    maps a text to \<open>Invalid\<close>, \<open>Missing\<close> or a stamp with its zone. A parsed column is
    a column of \<open>tstamp\<close>: integers (nanoseconds since the epoch, or of wall-clock time
    in the first version) or \<open>NaT\<close>. The clock is a parameter too: a record of the
    instant in UTC and the offset of the local zone.
  \<^item> A column parsed without \<^verbatim>\<open>utc=True\<close> must have one zone. What pandas makes of
    a column that mixes zones depends on its version; the model raises
    \<^verbatim>\<open>ValueError\<close> there.
  \<^item> Percentages are exact rationals; rounding of floats and the formatting of numbers are
    not modelled. \<open>percentage c 0\<close> is 0 where pandas computes NaN or infinity; every
    call of the scripts is guarded by a test for an empty table or divides by a sum of
    positive counts, except for plot 2, where the quotient is modelled by \<open>float_pct\<close>
    with \<open>None\<close> for 0/0.
  \<^item> A sort of pandas by one column does not promise an order of ties. The translations
    of \<^verbatim>\<open>process_data\<close> and of the breakdown take the sort as a parameter, and the
    theorems named \<open>\<dots>_with\<close> hold for every sort that meets \<open>sorts_by\<close> or
    \<open>sorts_desc_by\<close>. The stable instances say what the result is when ties keep
    their input order; \<open>Report\<close>, \<open>PerUser\<close>, \<open>Charts\<close> and the theorems about the
    order of rows with equal keys use them. The sorts by two keys of \<open>PerUser\<close> and
    \<open>Summary\<close> are stable in pandas; they are two stable passes, the minor key first.
  \<^item> \<^verbatim>\<open>groupby\<close> orders its groups by key and drops rows with a missing key:
    \<open>groupby_size\<close> counts over the sorted distinct keys of \<open>present_pairs\<close>.
  \<^item> \<^verbatim>\<open>astype(str)\<close> is the conversion of a column of Python objects (pandas 1 and
    2), which turns a missing question into the text \<^verbatim>\<open>nan\<close>; for the prefixes that
    the scripts pass, the selection is the same when missing questions are excluded
    (\<open>question_startswith_iff\<close>).
  \<^item> Exceptions are values of \<open>error\<close>; a step that may raise returns \<open>error + 'a\<close>,
    steps are sequenced by \<open>bind_err\<close> and \<open>traverse_err\<close>, which stop at the first error
    as the interpreter does, and a \<^verbatim>\<open>try\<close> block is \<open>catch_err\<close> of its body and
    its handlers. An exit with status 1 after a message is an \<open>error\<close> that the
    handlers let pass.
  \<^item> Positional access (\<^verbatim>\<open>iloc\<close>) is checked: an index out of range is the error
    \<open>IndexError\<close>, so that "the loop does not fail" is a theorem and not an assumption.
  \<^item> No loop of the scripts is unbounded, so no fuel is used: every definition that
    translates code is a total function on finite lists and evaluates by \<open>simp\<close>.

  \<^bold>\<open>Not modelled.\<close> The text of the CSV and of the output (the input is the parsed
  table, a file without header line being a table without columns; the output is the
  value printed or written), the wording of the messages, the drawing of the charts by
  matplotlib and whatever a drawing call may raise, the HTML template, argument parsing,
  and the network: the replies to the two requests of \<^verbatim>\<open>src/downloadStorms.py\<close> are
  parameters of the model. The download assumes that the output file can be opened for
  writing. Of the files that the scripts write, only the output file of the download is
  state of the model.
\<close>

text \<open>
  C13. The two breakdown scripts agree: the rows of one user in the per-user table of
  \<^verbatim>\<open>geneteprocess.py\<close> assign the same percentage to every answer as the global
  breakdown of \<^verbatim>\<open>genetedatefilterprocess.py\<close> computed from that user's rows alone.
\<close>

theorem per_user_agrees_with_global:
  "map_of (user_part u (per_user_table (filter (question_startswith p) rs))) =
   map_of (calculate_aggregated_answer_percentages
             (filter (\<lambda>r. hashed_user_id r = Some u) rs) p)"
proof -
  let ?own = "filter (\<lambda>r. hashed_user_id r = Some u) rs"
  have "map_of (calculate_aggregated_answer_percentages ?own p) =
        breakdown_spec (matched_answers ?own p)"
    by (rule map_of_breakdown_spec) (simp_all add: distinct_calculate set_calculate)
  then show ?thesis
    by (simp add: user_part_refines_spec answers_of_present_pairs)
qed

text \<open>
  C32. The answers that \<^verbatim>\<open>summarize_noki.py --filter-question q\<close> prints are among
  the answers of the breakdown of \<^verbatim>\<open>genetedatefilterprocess.py\<close> for the prefix
  \<open>q\<close>, and they are all of them when every question that starts with \<open>q\<close> is \<open>q\<close>:
  exact match selects a part of what prefix match selects.
\<close>

theorem unique_answers_in_breakdown:
  assumes "get_unique_answers_for_question df q = Inr answers"
  shows "set answers \<subseteq> fst ` set (calculate_aggregated_answer_percentages (rows df) q) \<and>
         ((\<forall>r\<in>set (rows df). question_startswith q r \<longrightarrow> question r = Some q) \<longrightarrow>
          set answers = fst ` set (calculate_aggregated_answer_percentages (rows df) q))"
proof -
  have "fst ` set (calculate_aggregated_answer_percentages (rows df) q) =
        {a. \<exists>r\<in>set (rows df). question_startswith q r \<and> answer r = Some a}"
    by (auto simp: set_calculate image_image matched_answers_def pd_simps image_iff)
  moreover from assms have
    "set answers = {a. \<exists>r\<in>set (rows df). question r = Some q \<and> answer r = Some a}"
    by (rule set_unique_answers)
  moreover have "question r = Some q \<Longrightarrow> question_startswith q r" for r :: "'a row"
    by (simp add: question_startswith_def)
  ultimately show ?thesis by auto
qed

theorem unique_answers_in_breakdown_witness:
  "get_unique_answers_for_question example_export ''Q1'' = Inr [''x'', ''b'', ''a''] \<and>
   fst ` set (calculate_aggregated_answer_percentages (rows example_export) ''Q1'') =
     {''x'', ''b'', ''a''}"
  using unique_answers_in_breakdown [of example_export "''Q1''" "[''x'', ''b'', ''a'']"]
  by (simp add: summary_defs example_export_defs question_startswith_def)

end
